theory Spec2Isabelle
  imports Complex_Main
begin

chapter \<open>Definitions\<close>

section \<open>Keyword descriptors and the dependency sort (src/keyword.ts)\<close>

text \<open>
  A keyword descriptor as \<^verbatim>\<open>sortKeywords\<close> sees it: the key and the two lists of
  names. Names that start with \<^verbatim>\<open>@\<close> are virtual keywords. The sort works on any
  record that has these three fields.
\<close>

record keyword =
  key :: string
  dependencies :: "string list"
  dependents :: "string list"

datatype error =
  CycleDetected "string list"
  | ValidationError string
  | ProcessingError string
  | SyntaxError string
  | TypeError string
  | OutOfFuel

definition startsWithAt :: "string \<Rightarrow> bool" where
  "startsWithAt s = (case s of [] \<Rightarrow> False | c # _ \<Rightarrow> c = CHR ''@'')"

text \<open>The first index \<open>j\<close>, counted from \<open>k\<close>, whose element satisfies \<open>P j x\<close>
  (the inner \<^verbatim>\<open>for (let j = 0; j < n; j += 1)\<close> loops, which stop at the first hit).\<close>

fun findFrom :: "nat \<Rightarrow> (nat \<Rightarrow> 'a \<Rightarrow> bool) \<Rightarrow> 'a list \<Rightarrow> nat option" where
  "findFrom k P [] = None"
| "findFrom k P (x # xs) = (if P k x then Some k else findFrom (Suc k) P xs)"

text \<open>
  The shifting loop \<^verbatim>\<open>for (k = j; k > i; k -= 1) keywords[k] = keywords[k - 1]\<close> followed
  by \<^verbatim>\<open>keywords[i] = moved\<close>: the element at index \<open>j\<close> is taken out and put back at
  index \<open>i \<le> j\<close>; the elements in between move one place to the right.
\<close>

definition moveTo :: "'a list \<Rightarrow> nat \<Rightarrow> nat \<Rightarrow> 'a list" where
  "moveTo xs j i = take i xs @ [xs ! j] @ take (j - i) (drop i xs) @ drop (Suc j) xs"

text \<open>The loop over the dependencies of the keyword at index \<open>i\<close>. The result is the
  rearranged array when a shift happened (\<^verbatim>\<open>changed = true\<close>), and \<open>None\<close> otherwise.\<close>

fun processDependencies :: "'a keyword_scheme list \<Rightarrow> nat \<Rightarrow> string list
    \<Rightarrow> 'a keyword_scheme list option" where
  "processDependencies kws i [] = None"
| "processDependencies kws i (dependency # rest) =
     (if startsWithAt dependency then
        (case findFrom 0 (\<lambda>j k. dependency \<in> set (dependents k) \<and> j > i) kws of
           Some j \<Rightarrow> Some (moveTo kws j i)
         | None \<Rightarrow> processDependencies kws i rest)
      else
        (case findFrom 0 (\<lambda>j k. key k = dependency) kws of
           Some depIndex \<Rightarrow>
             if depIndex > i then Some (moveTo kws depIndex i)
             else processDependencies kws i rest
         | None \<Rightarrow> processDependencies kws i rest))"

fun processDependents :: "'a keyword_scheme list \<Rightarrow> nat \<Rightarrow> string list
    \<Rightarrow> 'a keyword_scheme list option" where
  "processDependents kws i [] = None"
| "processDependents kws i (dependentName # rest) =
     (if startsWithAt dependentName then
        (case findFrom 0 (\<lambda>j k. dependentName \<in> set (dependencies k) \<and> j < i) kws of
           Some j \<Rightarrow> Some (moveTo kws i j)
         | None \<Rightarrow> processDependents kws i rest)
      else
        (case findFrom 0 (\<lambda>j k. key k = dependentName) kws of
           Some depIndex \<Rightarrow>
             if depIndex < i then Some (moveTo kws i depIndex)
             else processDependents kws i rest
         | None \<Rightarrow> processDependents kws i rest))"

text \<open>The body of \<^verbatim>\<open>for (let i = 0; i < n; i += 1)\<close> at one index.\<close>

definition processKeyword :: "'a keyword_scheme list \<Rightarrow> nat \<Rightarrow> 'a keyword_scheme list option" where
  "processKeyword kws i =
     (case processDependencies kws i (dependencies (kws ! i)) of
        Some kws' \<Rightarrow> Some kws'
      | None \<Rightarrow> processDependents kws i (dependents (kws ! i)))"

text \<open>One pass of the \<^verbatim>\<open>for\<close> loop: it stops at the first index that caused a shift.\<close>

fun firstChange :: "'a keyword_scheme list \<Rightarrow> nat list \<Rightarrow> 'a keyword_scheme list option" where
  "firstChange kws [] = None"
| "firstChange kws (i # is) =
     (case processKeyword kws i of
        Some kws' \<Rightarrow> Some kws'
      | None \<Rightarrow> firstChange kws is)"

definition sortPass :: "'a keyword_scheme list \<Rightarrow> 'a keyword_scheme list option" where
  "sortPass kws = firstChange kws [0..<length kws]"

text \<open>
  The \<^verbatim>\<open>while (changed)\<close> loop. The first argument is \<^verbatim>\<open>maxIterations - iterations\<close>:
  when it is zero at the head of the loop the source throws.
\<close>

fun sortLoop :: "nat \<Rightarrow> 'a keyword_scheme list \<Rightarrow> error + 'a keyword_scheme list" where
  "sortLoop 0 kws = Inl (CycleDetected (map key kws))"
| "sortLoop (Suc remaining) kws =
     (case sortPass kws of
        None \<Rightarrow> Inr kws
      | Some kws' \<Rightarrow> sortLoop remaining kws')"

definition sortKeywords :: "'a keyword_scheme list \<Rightarrow> error + 'a keyword_scheme list" where
  "sortKeywords kws =
     (let n = length kws in
      if n = 0 then Inr kws else sortLoop (n * n) kws)"

text \<open>
  The functions above are the sort on an array of the declared type. The array that
  \<^verbatim>\<open>parseSchemaResource\<close> passes can also hold a value that is not a keyword (see
  \<open>keywordFor\<close> below); such an element is \<open>None\<close> in the arrays of the functions that
  follow, which are the same loops with every read of a field written out. The key of
  a value that is not a keyword is \<^verbatim>\<open>undefined\<close>, which equals no name; its
  \<^verbatim>\<open>dependencies\<close> and \<^verbatim>\<open>dependents\<close> are \<^verbatim>\<open>undefined\<close> too, and the
  \<^verbatim>\<open>for ... of\<close> over them and the call of \<^verbatim>\<open>includes\<close> on them throw a \<^verbatim>\<open>TypeError\<close>
  (its text is the engine's; the model gives the name of the field that was read).
\<close>

fun findFromE :: "nat \<Rightarrow> (nat \<Rightarrow> 'a \<Rightarrow> error + bool) \<Rightarrow> 'a list \<Rightarrow> error + nat option" where
  "findFromE k P [] = Inr None"
| "findFromE k P (x # xs) =
     (case P k x of
        Inl e \<Rightarrow> Inl e
      | Inr found \<Rightarrow> if found then Inr (Some k) else findFromE (Suc k) P xs)"

definition keyIs :: "string \<Rightarrow> 'a keyword_scheme option \<Rightarrow> bool" where
  "keyIs name e = (case e of None \<Rightarrow> False | Some k \<Rightarrow> key k = name)"

fun processDependenciesAny :: "'a keyword_scheme option list \<Rightarrow> nat \<Rightarrow> string list
    \<Rightarrow> error + 'a keyword_scheme option list option" where
  "processDependenciesAny kws i [] = Inr None"
| "processDependenciesAny kws i (dependency # rest) =
     (if startsWithAt dependency then
        (case findFromE 0
                (\<lambda>j e. case e of
                          None \<Rightarrow> Inl (TypeError ''dependents'')
                        | Some k \<Rightarrow> Inr (dependency \<in> set (dependents k) \<and> j > i)) kws of
           Inl e \<Rightarrow> Inl e
         | Inr (Some j) \<Rightarrow> Inr (Some (moveTo kws j i))
         | Inr None \<Rightarrow> processDependenciesAny kws i rest)
      else
        (case findFrom 0 (\<lambda>j e. keyIs dependency e) kws of
           Some depIndex \<Rightarrow>
             if depIndex > i then Inr (Some (moveTo kws depIndex i))
             else processDependenciesAny kws i rest
         | None \<Rightarrow> processDependenciesAny kws i rest))"

fun processDependentsAny :: "'a keyword_scheme option list \<Rightarrow> nat \<Rightarrow> string list
    \<Rightarrow> error + 'a keyword_scheme option list option" where
  "processDependentsAny kws i [] = Inr None"
| "processDependentsAny kws i (dependentName # rest) =
     (if startsWithAt dependentName then
        (case findFromE 0
                (\<lambda>j e. case e of
                          None \<Rightarrow> Inl (TypeError ''dependencies'')
                        | Some k \<Rightarrow> Inr (dependentName \<in> set (dependencies k) \<and> j < i)) kws of
           Inl e \<Rightarrow> Inl e
         | Inr (Some j) \<Rightarrow> Inr (Some (moveTo kws i j))
         | Inr None \<Rightarrow> processDependentsAny kws i rest)
      else
        (case findFrom 0 (\<lambda>j e. keyIs dependentName e) kws of
           Some depIndex \<Rightarrow>
             if depIndex < i then Inr (Some (moveTo kws i depIndex))
             else processDependentsAny kws i rest
         | None \<Rightarrow> processDependentsAny kws i rest))"

definition processKeywordAny :: "'a keyword_scheme option list \<Rightarrow> nat
    \<Rightarrow> error + 'a keyword_scheme option list option" where
  "processKeywordAny kws i =
     (case kws ! i of
        None \<Rightarrow> Inl (TypeError ''dependencies'')
      | Some k \<Rightarrow>
          (case processDependenciesAny kws i (dependencies k) of
             Inl e \<Rightarrow> Inl e
           | Inr (Some kws') \<Rightarrow> Inr (Some kws')
           | Inr None \<Rightarrow> processDependentsAny kws i (dependents k)))"

fun firstChangeAny :: "'a keyword_scheme option list \<Rightarrow> nat list
    \<Rightarrow> error + 'a keyword_scheme option list option" where
  "firstChangeAny kws [] = Inr None"
| "firstChangeAny kws (i # is) =
     (case processKeywordAny kws i of
        Inl e \<Rightarrow> Inl e
      | Inr (Some kws') \<Rightarrow> Inr (Some kws')
      | Inr None \<Rightarrow> firstChangeAny kws is)"

definition sortPassAny :: "'a keyword_scheme option list
    \<Rightarrow> error + 'a keyword_scheme option list option" where
  "sortPassAny kws = firstChangeAny kws [0..<length kws]"

text \<open>In the message of the cycle error \<^verbatim>\<open>JSON.stringify\<close> of an \<^verbatim>\<open>undefined\<close> key is
  \<^verbatim>\<open>undefined\<close>, which \<^verbatim>\<open>join\<close> writes as the empty text.\<close>

definition keyText :: "'a keyword_scheme option \<Rightarrow> string" where
  "keyText e = (case e of None \<Rightarrow> [] | Some k \<Rightarrow> key k)"

fun sortLoopAny :: "nat \<Rightarrow> 'a keyword_scheme option list
    \<Rightarrow> error + 'a keyword_scheme option list" where
  "sortLoopAny 0 kws = Inl (CycleDetected (map keyText kws))"
| "sortLoopAny (Suc remaining) kws =
     (case sortPassAny kws of
        Inl e \<Rightarrow> Inl e
      | Inr None \<Rightarrow> Inr kws
      | Inr (Some kws') \<Rightarrow> sortLoopAny remaining kws')"

definition sortKeywordsAny :: "'a keyword_scheme option list
    \<Rightarrow> error + 'a keyword_scheme option list" where
  "sortKeywordsAny kws =
     (let n = length kws in
      if n = 0 then Inr kws else sortLoopAny (n * n) kws)"

text \<open>The keywords of an array (after a sort that returned, every element is one).\<close>

fun keywordsOf :: "'a option list \<Rightarrow> 'a list" where
  "keywordsOf [] = []"
| "keywordsOf (None # es) = keywordsOf es"
| "keywordsOf (Some k # es) = k # keywordsOf es"

section \<open>JSON values, output units and stack frames\<close>

text \<open>
  A JSON value. Numbers are IEEE doubles in the source; they are modelled as rationals
  (no claim below depends on rounding). An object is its list of own entries in
  insertion order. The objects of the source are plain JavaScript objects, so a property
  read also finds the members that every object inherits from \<^verbatim>\<open>Object.prototype\<close>: the
  last constructor stands for such a member, named by its key. It is a function, or
  the prototype object itself under \<^verbatim>\<open>__proto__\<close>, and no JSON text denotes it; it
  comes into a frame only through a property read.
\<close>

datatype json =
  JNull
  | JBool bool
  | JNum rat
  | JStr string
  | JArr "json list"
  | JObj "(string \<times> json) list"
  | JInherited string

definition isArray :: "json option \<Rightarrow> bool" where
  "isArray v = (case v of Some (JArr _) \<Rightarrow> True | _ \<Rightarrow> False)"

definition isObject :: "json option \<Rightarrow> bool" where
  "isObject v = (case v of Some (JObj _) \<Rightarrow> True | _ \<Rightarrow> False)"

definition isNumber :: "json option \<Rightarrow> bool" where
  "isNumber v = (case v of Some (JNum _) \<Rightarrow> True | _ \<Rightarrow> False)"

definition isString :: "json option \<Rightarrow> bool" where
  "isString v = (case v of Some (JStr _) \<Rightarrow> True | _ \<Rightarrow> False)"

text \<open>\<^verbatim>\<open>node.key\<close> for one of the fixed keys that the source reads (\<^verbatim>\<open>minContains\<close>,
  \<^verbatim>\<open>$dynamicAnchor\<close>), on a value that is known to be an object; \<open>undefined\<close> is \<open>None\<close>.
  \<^verbatim>\<open>Object.prototype\<close> has no member under these keys, so the read is the lookup of an
  own entry.\<close>

definition getProperty :: "json option \<Rightarrow> string \<Rightarrow> json option" where
  "getProperty v k = (case v of Some (JObj entries) \<Rightarrow> map_of entries k | _ \<Rightarrow> None)"

text \<open>The names of the members of \<^verbatim>\<open>Object.prototype\<close> (ECMAScript, with the legacy
  accessors of Annex B), and \<^verbatim>\<open>obj[key]\<close> for a key that comes from the data: the own
  entry, or else the inherited member.\<close>

definition objectPrototypeNames :: "string list" where
  "objectPrototypeNames =
     [''constructor'', ''__defineGetter__'', ''__defineSetter__'', ''hasOwnProperty'',
      ''__lookupGetter__'', ''__lookupSetter__'', ''isPrototypeOf'', ''propertyIsEnumerable'',
      ''toString'', ''valueOf'', ''__proto__'', ''toLocaleString'']"

definition getMember :: "json option \<Rightarrow> string \<Rightarrow> json option" where
  "getMember v k =
     (case v of
        Some (JObj entries) \<Rightarrow>
          (case map_of entries k of
             Some x \<Rightarrow> Some x
           | None \<Rightarrow> if k \<in> set objectPrototypeNames then Some (JInherited k) else None)
      | _ \<Rightarrow> None)"

definition endsWith :: "string \<Rightarrow> string \<Rightarrow> bool" where
  "endsWith s suffix = (length suffix \<le> length s \<and> drop (length s - length suffix) s = suffix)"

definition startsWith :: "string \<Rightarrow> string \<Rightarrow> bool" where
  "startsWith s prefix = (take (length prefix) s = prefix)"

text \<open>
  The output unit of src/output.ts. An optional field that is absent or \<^verbatim>\<open>undefined\<close>
  is \<open>None\<close>; the lists \<^verbatim>\<open>errors\<close> and \<^verbatim>\<open>annotations\<close> are optional arrays, so
  an absent list (\<open>None\<close>) and an empty array (\<open>Some []\<close>) are different values, as
  they are for the source's \<^verbatim>\<open>=== undefined\<close> and \<^verbatim>\<open>.length\<close> tests.
\<close>

datatype outputUnit =
  OutputUnit
    (valid: bool)
    (keywordLocation: "string option")
    (absoluteKeywordLocation: "string option")
    (instanceLocation: "string option")
    (error: "string option")
    (annotation: "json option")
    (errors: "outputUnit list option")
    (annotations: "outputUnit list option")

text \<open>The object literal \<^verbatim>\<open>{ valid: true }\<close>.\<close>

definition freshOutput :: outputUnit where
  "freshOutput = OutputUnit True None None None None None None None"

text \<open>Field assignments \<^verbatim>\<open>output.f = v\<close>.\<close>

definition setValid :: "bool \<Rightarrow> outputUnit \<Rightarrow> outputUnit" where
  "setValid v u = OutputUnit v (keywordLocation u) (absoluteKeywordLocation u)
     (instanceLocation u) (error u) (annotation u) (errors u) (annotations u)"

definition setError :: "string option \<Rightarrow> outputUnit \<Rightarrow> outputUnit" where
  "setError e u = OutputUnit (valid u) (keywordLocation u) (absoluteKeywordLocation u)
     (instanceLocation u) e (annotation u) (errors u) (annotations u)"

definition setAnnotation :: "json option \<Rightarrow> outputUnit \<Rightarrow> outputUnit" where
  "setAnnotation a u = OutputUnit (valid u) (keywordLocation u) (absoluteKeywordLocation u)
     (instanceLocation u) (error u) a (errors u) (annotations u)"

definition setErrors :: "outputUnit list option \<Rightarrow> outputUnit \<Rightarrow> outputUnit" where
  "setErrors es u = OutputUnit (valid u) (keywordLocation u) (absoluteKeywordLocation u)
     (instanceLocation u) (error u) (annotation u) es (annotations u)"

definition setAnnotations :: "outputUnit list option \<Rightarrow> outputUnit \<Rightarrow> outputUnit" where
  "setAnnotations as u = OutputUnit (valid u) (keywordLocation u) (absoluteKeywordLocation u)
     (instanceLocation u) (error u) (annotation u) (errors u) as"

text \<open>A node key or instance key: \<^verbatim>\<open>string | number\<close>.\<close>

datatype jkey = KeyStr string | KeyNum rat

text \<open>
  A stack frame (src/context.ts, \<^verbatim>\<open>SchemaFrame\<close>). The \<^verbatim>\<open>parent\<close> pointer is the
  position in the stack: the stack is the list of frames from the current frame (the
  head) to the root frame, so the parent of a frame is the next element. The fields
  \<^verbatim>\<open>instance\<close> and \<^verbatim>\<open>output\<close> are named \<open>instanceValue\<close> and \<open>frameOutput\<close> here.
\<close>

record frame =
  nodeKey :: "jkey option"
  node :: "json option"
  instanceKey :: "jkey option"
  instanceValue :: "json option"
  baseUri :: "string option"
  frameOutput :: "outputUnit option"

text \<open>\<^verbatim>\<open>createSchemaFrame\<close>: every field of a new frame is \<^verbatim>\<open>undefined\<close>.\<close>

definition createSchemaFrame :: frame where
  "createSchemaFrame = \<lparr>nodeKey = None, node = None, instanceKey = None,
     instanceValue = None, baseUri = None, frameOutput = None\<rparr>"

text \<open>
  The functions of the \<^verbatim>\<open>tool-json\<close> and \<^verbatim>\<open>tool-uri\<close> packages that the
  repository imports but does not contain are parameters of the model: the JSON pointer
  of a frame (\<^verbatim>\<open>currentPointer\<close>), its absolute location (\<^verbatim>\<open>currentLocation\<close>),
  pointer escaping, the conversions \<^verbatim>\<open>String(n)\<close> and \<^verbatim>\<open>JSON.stringify\<close>, the
  length in code points, deep equality, the regular expression engine (\<open>None\<close>
  when the pattern does not compile), the test for an absolute URI, and the parsing of a
  URI reference followed by its resolution against the base URI of a frame (\<open>None\<close>
  when the text is not a URI reference).
\<close>

record host =
  currentPointer :: "frame list \<Rightarrow> string"
  currentLocation :: "frame list \<Rightarrow> string"
  escapePointer :: "string \<Rightarrow> string"
  numberToString :: "rat \<Rightarrow> string"
  stringify :: "string \<Rightarrow> string"
  unicodeLength :: "string \<Rightarrow> nat"
  equal :: "json \<Rightarrow> json \<Rightarrow> bool"
  compileRegex :: "string \<Rightarrow> (string \<Rightarrow> bool) option"
  isValidUri :: "string \<Rightarrow> bool"
  resolveUriReference :: "frame list \<Rightarrow> string \<Rightarrow> string option"

definition keyToString :: "host \<Rightarrow> jkey \<Rightarrow> string" where
  "keyToString h k = (case k of KeyStr s \<Rightarrow> s | KeyNum n \<Rightarrow> numberToString h n)"

text \<open>\<^verbatim>\<open>instanceLocation\<close> of src/context.ts, on the chain that starts at a frame.\<close>

fun instanceLocationOf :: "host \<Rightarrow> frame list \<Rightarrow> string" where
  "instanceLocationOf h [] = []"
| "instanceLocationOf h (f # parents) =
     instanceLocationOf h parents @
     (case instanceKey f of
        None \<Rightarrow> []
      | Some k \<Rightarrow> ''/'' @ escapePointer h (keyToString h k))"

section \<open>Output propagation (src/output.ts)\<close>

text \<open>
  \<^verbatim>\<open>initOutput(context, frame)\<close>: the output unit of the frame, created when absent,
  with its three locations filled in when they are undefined. The argument is the
  chain that starts at the frame; the result is the frame's output unit.
\<close>

definition initOutput :: "host \<Rightarrow> frame list \<Rightarrow> outputUnit" where
  "initOutput h chain =
     (let out = (case frameOutput (hd chain) of None \<Rightarrow> freshOutput | Some out \<Rightarrow> out) in
      OutputUnit (valid out)
        (case keywordLocation out of None \<Rightarrow> Some (currentPointer h chain) | Some l \<Rightarrow> Some l)
        (case absoluteKeywordLocation out of None \<Rightarrow> Some (currentLocation h chain)
           | Some l \<Rightarrow> Some l)
        (case instanceLocation out of None \<Rightarrow> Some (instanceLocationOf h chain)
           | Some l \<Rightarrow> Some l)
        (error out) (annotation out) (errors out) (annotations out))"

text \<open>The emptiness test at the head of \<^verbatim>\<open>emitOutput\<close>.\<close>

definition isEmptyOutput :: "outputUnit \<Rightarrow> bool" where
  "isEmptyOutput out =
     (error out = None \<and> annotation out = None \<and>
      (errors out = None \<or> length (the (errors out)) = 0) \<and>
      (annotations out = None \<or> length (the (annotations out)) = 0))"

text \<open>\<^verbatim>\<open>xs?.length === 1\<close> on an optional array.\<close>

definition lengthIsOne :: "'a list option \<Rightarrow> bool" where
  "lengthIsOne xs = (case xs of None \<Rightarrow> False | Some l \<Rightarrow> length l = 1)"

text \<open>The hoisting step of \<^verbatim>\<open>emitOutput\<close>: the unit that is attached for the child.\<close>

definition hoistOutput :: "outputUnit \<Rightarrow> outputUnit" where
  "hoistOutput out =
     (if error out = None \<and> annotation out = None then
        if lengthIsOne (errors out) \<and>
           (annotations out = None \<or> lengthIsOne (annotations out))
        then hd (the (errors out))
        else if lengthIsOne (annotations out) \<and>
           (errors out = None \<or> lengthIsOne (errors out))
        then hd (the (annotations out))
        else out
      else out)"

text \<open>The body of the \<^verbatim>\<open>if (baseOutput !== undefined)\<close> branch: the unit is pushed onto
  the errors of the ancestor's output (which becomes invalid) or onto its annotations.\<close>

definition attachChild :: "outputUnit \<Rightarrow> outputUnit \<Rightarrow> outputUnit" where
  "attachChild out baseOutput =
     (if \<not> valid out then
        setErrors (Some ((case errors baseOutput of None \<Rightarrow> [] | Some es \<Rightarrow> es) @ [out]))
          (setValid False baseOutput)
      else
        setAnnotations
          (Some ((case annotations baseOutput of None \<Rightarrow> [] | Some as \<Rightarrow> as) @ [out]))
          baseOutput)"

text \<open>The \<^verbatim>\<open>while (frame !== undefined)\<close> loop over the ancestors: the chain with the
  unit attached to the nearest frame that has an output unit.\<close>

fun attachToAncestor :: "host \<Rightarrow> outputUnit \<Rightarrow> frame list \<Rightarrow> frame list" where
  "attachToAncestor h out [] = []"
| "attachToAncestor h out (f # parents) =
     (case frameOutput f of
        Some baseOutput \<Rightarrow>
          f\<lparr>frameOutput := Some (attachChild out (initOutput h (f # parents)))\<rparr> # parents
      | None \<Rightarrow> f # attachToAncestor h out parents)"

text \<open>\<^verbatim>\<open>emitOutput(context, frame)\<close>, where the argument is the chain that starts at
  \<^verbatim>\<open>frame\<close> (the empty chain for \<^verbatim>\<open>undefined\<close>); the result is the chain after the
  call.\<close>

definition emitOutput :: "host \<Rightarrow> frame list \<Rightarrow> frame list" where
  "emitOutput h chain =
     (case chain of
        [] \<Rightarrow> []
      | f # parents \<Rightarrow>
          (case frameOutput f of
             None \<Rightarrow> chain
           | Some out \<Rightarrow>
               if isEmptyOutput out then chain
               else f # attachToAncestor h (hoistOutput out) parents))"

text \<open>
  \<^verbatim>\<open>attachError\<close> and \<^verbatim>\<open>attachAnnotation\<close> write to the output unit of the current
  frame (\<^verbatim>\<open>currentFrame(context)\<close>, the head of the stack). They are only called inside
  a \<^verbatim>\<open>nestFrame\<close> callback, where the stack is not empty.
\<close>

definition attachError :: "host \<Rightarrow> string \<Rightarrow> frame list \<Rightarrow> frame list" where
  "attachError h message st =
     (case st of
        [] \<Rightarrow> []
      | f # parents \<Rightarrow>
          f\<lparr>frameOutput := Some (setError (Some message) (setValid False (initOutput h st)))\<rparr>
            # parents)"

definition attachAnnotation :: "host \<Rightarrow> json option \<Rightarrow> frame list \<Rightarrow> frame list" where
  "attachAnnotation h v st =
     (case st of
        [] \<Rightarrow> []
      | f # parents \<Rightarrow>
          f\<lparr>frameOutput := Some (setAnnotation v (initOutput h st))\<rparr> # parents)"

text \<open>\<^verbatim>\<open>getAnnotations\<close>: the units are collected in the order the source pushes them.\<close>

fun getAnnotationsOf :: "outputUnit \<Rightarrow> string \<Rightarrow> outputUnit list" where
  "getAnnotationsOf (OutputUnit v kl akl il e a es as) keywordSuffix =
     (if \<not> v then []
      else
        (if a \<noteq> None \<and> (case kl of None \<Rightarrow> False | Some l \<Rightarrow> endsWith l keywordSuffix)
         then [OutputUnit v kl akl il e a es as] else []) @
        (case as of
           None \<Rightarrow> []
         | Some units \<Rightarrow>
             concat (map (\<lambda>u. if il = None \<or> il = instanceLocation u
                                then getAnnotationsOf u keywordSuffix else []) units)))"

definition getAnnotations :: "outputUnit option \<Rightarrow> string \<Rightarrow> outputUnit list \<Rightarrow> outputUnit list" where
  "getAnnotations out keywordSuffix acc =
     (case out of None \<Rightarrow> acc | Some u \<Rightarrow> acc @ getAnnotationsOf u keywordSuffix)"

text \<open>\<^verbatim>\<open>getAnnotation\<close>: the first unit, depth first, at the given keyword location.\<close>

fun firstSome :: "('a \<Rightarrow> 'b option) \<Rightarrow> 'a list \<Rightarrow> 'b option" where
  "firstSome g [] = None"
| "firstSome g (x # xs) = (case g x of Some y \<Rightarrow> Some y | None \<Rightarrow> firstSome g xs)"

lemma firstSome_cong [fundef_cong]:
  "xs = ys \<Longrightarrow> (\<And>x. x \<in> set ys \<Longrightarrow> g x = g' x) \<Longrightarrow> firstSome g xs = firstSome g' ys"
  by (induction ys arbitrary: xs) (auto split: option.splits)

fun getAnnotationOf :: "outputUnit \<Rightarrow> string \<Rightarrow> outputUnit option" where
  "getAnnotationOf (OutputUnit v kl akl il e a es as) location =
     (if kl = Some location \<and> a \<noteq> None then Some (OutputUnit v kl akl il e a es as)
      else
        (case as of
           None \<Rightarrow> None
         | Some units \<Rightarrow>
             if (case kl of None \<Rightarrow> True | Some l \<Rightarrow> startsWith location l)
             then firstSome (\<lambda>u. getAnnotationOf u location) units
             else None))"

definition getAnnotation :: "outputUnit option \<Rightarrow> string \<Rightarrow> outputUnit option" where
  "getAnnotation out location = (case out of None \<Rightarrow> None | Some u \<Rightarrow> getAnnotationOf u location)"

text \<open>\<^verbatim>\<open>getChildAnnotation(frame, keyword)\<close> on the chain that starts at \<^verbatim>\<open>frame\<close>.\<close>

definition getChildAnnotation :: "host \<Rightarrow> frame list \<Rightarrow> string \<Rightarrow> outputUnit option" where
  "getChildAnnotation h chain keyword =
     (case chain of
        [] \<Rightarrow> None
      | f # parents \<Rightarrow>
          getAnnotation (frameOutput f) (currentPointer h chain @ ''/'' @ escapePointer h keyword))"

text \<open>Checkpoints: \<^verbatim>\<open>saveCheckpoint\<close> copies three fields of the output unit, and
  \<^verbatim>\<open>restoreCheckpoint\<close> writes them back to the unit the frame holds.\<close>

record outputCheckpoint =
  cpPresent :: bool
  cpValid :: bool
  cpError :: "string option"
  cpErrors :: "outputUnit list option"

definition saveCheckpoint :: "outputUnit option \<Rightarrow> outputCheckpoint" where
  "saveCheckpoint out =
     (case out of
        None \<Rightarrow> \<lparr>cpPresent = False, cpValid = True, cpError = None, cpErrors = None\<rparr>
      | Some u \<Rightarrow> \<lparr>cpPresent = True, cpValid = valid u, cpError = error u, cpErrors = errors u\<rparr>)"

definition restoreCheckpoint :: "outputCheckpoint \<Rightarrow> outputUnit option \<Rightarrow> outputUnit option" where
  "restoreCheckpoint cp out =
     (if \<not> cpPresent cp then out
      else
        (case out of
           None \<Rightarrow> None
         | Some u \<Rightarrow> Some (setErrors (cpErrors cp) (setError (cpError cp) (setValid (cpValid cp) u)))))"

section \<open>Validation keywords (src/draft-2020-12/validation.ts)\<close>

text \<open>
  Each \<^verbatim>\<open>validate(context)\<close> reads the current frame and writes to its output unit, so
  it is a function from the stack to the stack. The keyword's value is \<^verbatim>\<open>frame.node\<close>,
  which the source casts to the type that the keyword's \<^verbatim>\<open>parse\<close> has checked; for a
  value of another type (which a parsed schema never holds) the model leaves the stack
  as it is. The test on the type of the instance comes first, as in the source.
\<close>

definition currentNode :: "frame list \<Rightarrow> json option" where
  "currentNode st = (case st of [] \<Rightarrow> None | f # _ \<Rightarrow> node f)"

definition currentInstance :: "frame list \<Rightarrow> json option" where
  "currentInstance st = (case st of [] \<Rightarrow> None | f # _ \<Rightarrow> instanceValue f)"

definition isInteger :: "rat \<Rightarrow> bool" where
  "isInteger r = (r = of_int \<lfloor>r\<rfloor>)"

text \<open>The loop that lists names in a message: \<^verbatim>\<open>a\<close>, \<^verbatim>\<open>a and b\<close>, \<^verbatim>\<open>a, b and c\<close>.\<close>

fun joinFrom :: "host \<Rightarrow> nat \<Rightarrow> nat \<Rightarrow> string list \<Rightarrow> string" where
  "joinFrom h n i [] = []"
| "joinFrom h n i (x # xs) =
     (if i \<noteq> 0 then (if i \<noteq> n - 1 then '', '' else '' and '') else []) @
     stringify h x @ joinFrom h n (Suc i) xs"

definition joinNames :: "host \<Rightarrow> string list \<Rightarrow> string" where
  "joinNames h xs = joinFrom h (length xs) 0 xs"

definition multipleOfValidate :: "host \<Rightarrow> frame list \<Rightarrow> frame list" where
  "multipleOfValidate h st =
     (case currentInstance st of
        Some (JNum instance) \<Rightarrow>
          (case currentNode st of
             Some (JNum n) \<Rightarrow>
               if \<not> isInteger (instance / n)
               then attachError h (''not a multiple of '' @ numberToString h n) st
               else st
           | _ \<Rightarrow> st)
      | _ \<Rightarrow> st)"

definition maximumValidate :: "host \<Rightarrow> frame list \<Rightarrow> frame list" where
  "maximumValidate h st =
     (case currentInstance st of
        Some (JNum instance) \<Rightarrow>
          (case currentNode st of
             Some (JNum n) \<Rightarrow>
               if instance > n
               then attachError h (''greater than '' @ numberToString h n) st
               else st
           | _ \<Rightarrow> st)
      | _ \<Rightarrow> st)"

definition exclusiveMaximumValidate :: "host \<Rightarrow> frame list \<Rightarrow> frame list" where
  "exclusiveMaximumValidate h st =
     (case currentInstance st of
        Some (JNum instance) \<Rightarrow>
          (case currentNode st of
             Some (JNum n) \<Rightarrow>
               if instance \<ge> n
               then attachError h (''greater than or equal to '' @ numberToString h n) st
               else st
           | _ \<Rightarrow> st)
      | _ \<Rightarrow> st)"

definition minimumValidate :: "host \<Rightarrow> frame list \<Rightarrow> frame list" where
  "minimumValidate h st =
     (case currentInstance st of
        Some (JNum instance) \<Rightarrow>
          (case currentNode st of
             Some (JNum n) \<Rightarrow>
               if instance < n
               then attachError h (''less than '' @ numberToString h n) st
               else st
           | _ \<Rightarrow> st)
      | _ \<Rightarrow> st)"

definition exclusiveMinimumValidate :: "host \<Rightarrow> frame list \<Rightarrow> frame list" where
  "exclusiveMinimumValidate h st =
     (case currentInstance st of
        Some (JNum instance) \<Rightarrow>
          (case currentNode st of
             Some (JNum n) \<Rightarrow>
               if instance \<le> n
               then attachError h (''less than or equal to '' @ numberToString h n) st
               else st
           | _ \<Rightarrow> st)
      | _ \<Rightarrow> st)"

definition maxLengthValidate :: "host \<Rightarrow> frame list \<Rightarrow> frame list" where
  "maxLengthValidate h st =
     (case currentInstance st of
        Some (JStr instance) \<Rightarrow>
          (case currentNode st of
             Some (JNum n) \<Rightarrow>
               if of_nat (unicodeLength h instance) > n
               then attachError h (''longer than '' @ numberToString h n @ '' characters'') st
               else st
           | _ \<Rightarrow> st)
      | _ \<Rightarrow> st)"

definition minLengthValidate :: "host \<Rightarrow> frame list \<Rightarrow> frame list" where
  "minLengthValidate h st =
     (case currentInstance st of
        Some (JStr instance) \<Rightarrow>
          (case currentNode st of
             Some (JNum n) \<Rightarrow>
               if of_nat (unicodeLength h instance) < n
               then attachError h (''shorter than '' @ numberToString h n @ '' characters'') st
               else st
           | _ \<Rightarrow> st)
      | _ \<Rightarrow> st)"

text \<open>\<^verbatim>\<open>cachePattern\<close> (src/context.ts) compiles a pattern once and keeps the compiled
  expression; the cache does not change what a pattern matches and is left out. The
  constructor \<^verbatim>\<open>new RegExp(pattern, "u")\<close> throws on a pattern that does not compile.\<close>

definition cachePattern :: "host \<Rightarrow> string \<Rightarrow> error + (string \<Rightarrow> bool)" where
  "cachePattern h pattern =
     (case compileRegex h pattern of
        None \<Rightarrow> Inl (SyntaxError pattern)
      | Some test \<Rightarrow> Inr test)"

definition patternValidate :: "host \<Rightarrow> frame list \<Rightarrow> error + frame list" where
  "patternValidate h st =
     (case currentInstance st of
        Some (JStr instance) \<Rightarrow>
          (case currentNode st of
             Some (JStr n) \<Rightarrow>
               (case cachePattern h n of
                  Inl e \<Rightarrow> Inl e
                | Inr test \<Rightarrow>
                    if \<not> test instance
                    then Inr (attachError h (''does not match pattern '' @ stringify h n) st)
                    else Inr st)
           | _ \<Rightarrow> Inr st)
      | _ \<Rightarrow> Inr st)"

definition maxItemsValidate :: "host \<Rightarrow> frame list \<Rightarrow> frame list" where
  "maxItemsValidate h st =
     (case currentInstance st of
        Some (JArr instance) \<Rightarrow>
          (case currentNode st of
             Some (JNum n) \<Rightarrow>
               if of_nat (length instance) > n
               then attachError h (''more than '' @ numberToString h n @ '' items'') st
               else st
           | _ \<Rightarrow> st)
      | _ \<Rightarrow> st)"

definition minItemsValidate :: "host \<Rightarrow> frame list \<Rightarrow> frame list" where
  "minItemsValidate h st =
     (case currentInstance st of
        Some (JArr instance) \<Rightarrow>
          (case currentNode st of
             Some (JNum n) \<Rightarrow>
               if of_nat (length instance) < n
               then attachError h (''fewer than '' @ numberToString h n @ '' items'') st
               else st
           | _ \<Rightarrow> st)
      | _ \<Rightarrow> st)"

text \<open>The two nested loops of \<^verbatim>\<open>uniqueItems\<close>: the first pair \<open>i < j\<close> of equal items,
  in the order the loops visit the pairs.\<close>

fun firstEqualAfter :: "host \<Rightarrow> json \<Rightarrow> nat \<Rightarrow> json list \<Rightarrow> nat option" where
  "firstEqualAfter h x j [] = None"
| "firstEqualAfter h x j (y # ys) =
     (if equal h x y then Some j else firstEqualAfter h x (Suc j) ys)"

fun firstDuplicate :: "host \<Rightarrow> nat \<Rightarrow> json list \<Rightarrow> (nat \<times> nat) option" where
  "firstDuplicate h i [] = None"
| "firstDuplicate h i (x # xs) =
     (case firstEqualAfter h x (Suc i) xs of
        Some j \<Rightarrow> Some (i, j)
      | None \<Rightarrow> firstDuplicate h (Suc i) xs)"

definition uniqueItemsValidate :: "host \<Rightarrow> frame list \<Rightarrow> frame list" where
  "uniqueItemsValidate h st =
     (case currentInstance st of
        Some (JArr instance) \<Rightarrow>
          (case currentNode st of
             Some (JBool True) \<Rightarrow>
               (case firstDuplicate h 0 instance of
                  Some (i, j) \<Rightarrow>
                    attachError h (''duplicate item at index '' @ numberToString h (of_nat i) @
                      '' and '' @ numberToString h (of_nat j)) st
                | None \<Rightarrow> st)
           | _ \<Rightarrow> st)
      | _ \<Rightarrow> st)"

text \<open>\<^verbatim>\<open>getChildAnnotation(frame.parent, "contains")?.annotation\<close>.\<close>

definition siblingAnnotation :: "host \<Rightarrow> frame list \<Rightarrow> string \<Rightarrow> json option" where
  "siblingAnnotation h st keyword =
     (case getChildAnnotation h (tl st) keyword of
        None \<Rightarrow> None
      | Some u \<Rightarrow> annotation u)"

definition maxContainsValidate :: "host \<Rightarrow> frame list \<Rightarrow> frame list" where
  "maxContainsValidate h st =
     (case currentInstance st of
        Some (JArr instance) \<Rightarrow>
          (case currentNode st of
             Some (JNum n) \<Rightarrow>
               (let contained = siblingAnnotation h st ''contains'' in
                if (case contained of Some (JArr c) \<Rightarrow> of_nat (length c) > n | _ \<Rightarrow> False) \<or>
                   (contained = Some (JBool True) \<and> of_nat (length instance) > n)
                then attachError h (''more than '' @ numberToString h n @ '' contained items'') st
                else st)
           | _ \<Rightarrow> st)
      | _ \<Rightarrow> st)"

definition minContainsValidate :: "host \<Rightarrow> frame list \<Rightarrow> frame list" where
  "minContainsValidate h st =
     (case currentInstance st of
        Some (JArr instance) \<Rightarrow>
          (case currentNode st of
             Some (JNum n) \<Rightarrow>
               (let contained = siblingAnnotation h st ''contains'' in
                if (case contained of Some (JArr c) \<Rightarrow> of_nat (length c) < n | _ \<Rightarrow> False) \<or>
                   (contained = Some (JBool True) \<and> of_nat (length instance) < n)
                then attachError h (''fewer than '' @ numberToString h n @ '' contained items'') st
                else st)
           | _ \<Rightarrow> st)
      | _ \<Rightarrow> st)"

definition maxPropertiesValidate :: "host \<Rightarrow> frame list \<Rightarrow> frame list" where
  "maxPropertiesValidate h st =
     (case currentInstance st of
        Some (JObj instance) \<Rightarrow>
          (case currentNode st of
             Some (JNum n) \<Rightarrow>
               if of_nat (length instance) > n
               then attachError h (''more than '' @ numberToString h n @ '' properties'') st
               else st
           | _ \<Rightarrow> st)
      | _ \<Rightarrow> st)"

definition minPropertiesValidate :: "host \<Rightarrow> frame list \<Rightarrow> frame list" where
  "minPropertiesValidate h st =
     (case currentInstance st of
        Some (JObj instance) \<Rightarrow>
          (case currentNode st of
             Some (JNum n) \<Rightarrow>
               if of_nat (length instance) < n
               then attachError h (''fewer than '' @ numberToString h n @ '' properties'') st
               else st
           | _ \<Rightarrow> st)
      | _ \<Rightarrow> st)"

text \<open>The elements of an array of strings (\<^verbatim>\<open>node as readonly string[]\<close>).\<close>

fun stringsOf :: "json list \<Rightarrow> string list" where
  "stringsOf [] = []"
| "stringsOf (JStr s # xs) = s # stringsOf xs"
| "stringsOf (_ # xs) = stringsOf xs"

definition requiredValidate :: "host \<Rightarrow> frame list \<Rightarrow> frame list" where
  "requiredValidate h st =
     (case currentInstance st of
        Some (JObj instance) \<Rightarrow>
          (case currentNode st of
             Some (JArr n) \<Rightarrow>
               (let missing = filter (\<lambda>k. getMember (Some (JObj instance)) k = None) (stringsOf n) in
                if missing \<noteq> []
                then attachError h (''missing required '' @
                       (if length missing = 1 then ''property '' else ''properties '') @
                       joinNames h missing) st
                else st)
           | _ \<Rightarrow> st)
      | _ \<Rightarrow> st)"

text \<open>The pairs \<^verbatim>\<open>[key, requirement]\<close> that \<^verbatim>\<open>dependentRequired\<close> collects, and the loop
  that lists them in the message. For an instance key that the keyword's value only
  inherits, \<^verbatim>\<open>node[key]\<close> is not iterable and the inner \<^verbatim>\<open>for ... of\<close> throws.\<close>

fun missingDependents :: "(string \<times> json) list \<Rightarrow> (string \<times> json) list \<Rightarrow> string list
    \<Rightarrow> error + (string \<times> string) list" where
  "missingDependents n instance [] = Inr []"
| "missingDependents n instance (k # ks) =
     (case getMember (Some (JObj n)) k of
        Some (JInherited name) \<Rightarrow> Inl (TypeError ''requirements is not iterable'')
      | Some (JArr requirements) \<Rightarrow>
          (case missingDependents n instance ks of
             Inl e \<Rightarrow> Inl e
           | Inr rest \<Rightarrow>
               Inr (map (\<lambda>r. (k, r))
                      (filter (\<lambda>r. getMember (Some (JObj instance)) r = None)
                         (stringsOf requirements)) @ rest))
      | _ \<Rightarrow> missingDependents n instance ks)"

fun joinPairsFrom :: "host \<Rightarrow> nat \<Rightarrow> nat \<Rightarrow> (string \<times> string) list \<Rightarrow> string" where
  "joinPairsFrom h n i [] = []"
| "joinPairsFrom h n i ((k, requirement) # xs) =
     (if i \<noteq> 0 then (if i \<noteq> n - 1 then '', '' else '' and '') else []) @
     stringify h requirement @ '' (required by '' @ stringify h k @ '')'' @
     joinPairsFrom h n (Suc i) xs"

definition dependentRequiredValidate :: "host \<Rightarrow> frame list \<Rightarrow> error + frame list" where
  "dependentRequiredValidate h st =
     (case currentInstance st of
        Some (JObj instance) \<Rightarrow>
          (case currentNode st of
             Some (JObj n) \<Rightarrow>
               (case missingDependents n instance (map fst instance) of
                  Inl e \<Rightarrow> Inl e
                | Inr missing \<Rightarrow>
                    if missing \<noteq> []
                    then Inr (attachError h (''missing dependent '' @
                           (if length missing = 1 then ''property '' else ''properties '') @
                           joinPairsFrom h (length missing) 0 missing) st)
                    else Inr st)
           | _ \<Rightarrow> Inr st)
      | _ \<Rightarrow> Inr st)"

section \<open>Frames of sub-evaluations\<close>

text \<open>
  A validator is a function on the stack that may throw. \<^verbatim>\<open>nestFrame(context, callback)\<close>
  of \<^verbatim>\<open>tool-json\<close> pushes a new frame, runs the callback on it and pops the frame
  again; the callback gets the new frame and, as second argument, the frames under it.
  It returns what the callback returns, which carries the variables of the enclosing
  function that the callback assigns.
\<close>

type_synonym validator = "frame list \<Rightarrow> error + frame list"

definition bindE :: "error + 'a \<Rightarrow> ('a \<Rightarrow> error + 'b) \<Rightarrow> error + 'b" where
  "bindE r k = (case r of Inl e \<Rightarrow> Inl e | Inr x \<Rightarrow> k x)"

lemma bindE_cong [fundef_cong]:
  "r = r' \<Longrightarrow> (\<And>x. r' = Inr x \<Longrightarrow> k x = k' x) \<Longrightarrow> bindE r k = bindE r' k'"
  by (auto simp: bindE_def split: sum.splits)

definition nestFrame :: "(frame \<Rightarrow> frame list \<Rightarrow> error + 'a \<times> frame list) \<Rightarrow> frame list
    \<Rightarrow> error + 'a \<times> frame list" where
  "nestFrame callback st =
     bindE (callback createSchemaFrame st) (\<lambda>(r, st'). Inr (r, tl st'))"

text \<open>\<^verbatim>\<open>frame.output.valid\<close> of the frame on top of the stack after the sub-evaluation.\<close>

definition topOutput :: "frame list \<Rightarrow> error + outputUnit" where
  "topOutput st =
     (case st of
        [] \<Rightarrow> Inl (TypeError ''no frame'')
      | f # _ \<Rightarrow>
          (case frameOutput f of
             None \<Rightarrow> Inl (TypeError ''frame.output is undefined'')
           | Some out \<Rightarrow> Inr out))"

text \<open>The frame of a sub-schema application, as the callbacks set it up: the sub-schema,
  the key and the value of the instance item, and a new output unit. The node key is
  only set by the keywords that assign \<^verbatim>\<open>frame.nodeKey\<close>.\<close>

definition applyFrame :: "frame \<Rightarrow> jkey option \<Rightarrow> json option \<Rightarrow> jkey \<Rightarrow> json option \<Rightarrow> frame" where
  "applyFrame f nk n ik i =
     f\<lparr>nodeKey := nk, node := n, instanceKey := Some ik, instanceValue := i,
       frameOutput := Some freshOutput\<rparr>"

section \<open>The unknown keyword (src/keyword.ts)\<close>

text \<open>\<^verbatim>\<open>Keyword.prototype.parse\<close> and \<^verbatim>\<open>Keyword.prototype.validate\<close> do nothing;
  \<^verbatim>\<open>AnnotationKeyword.prototype.validate\<close> attaches the node of the current frame, and
  \<^verbatim>\<open>unknownKeyword(key)\<close> is the annotation keyword with that key.\<close>

definition keywordPrototypeParse :: "frame list \<Rightarrow> error + frame list" where
  "keywordPrototypeParse st = Inr st"

definition annotationKeywordValidate :: "host \<Rightarrow> frame list \<Rightarrow> frame list" where
  "annotationKeywordValidate h st = attachAnnotation h (currentNode st) st"

section \<open>Applicator keywords (src/draft-2020-12/applicator.ts)\<close>

text \<open>
  The loop of \<^verbatim>\<open>contains\<close> over the items. The variable \<^verbatim>\<open>contains\<close> is \<^verbatim>\<open>true\<close>
  (\<open>None\<close>) or the array of valid indexes.
\<close>

fun containsLoop :: "host \<Rightarrow> validator \<Rightarrow> json option \<Rightarrow> nat \<Rightarrow> json list
    \<Rightarrow> nat list option \<Rightarrow> nat \<Rightarrow> frame list
    \<Rightarrow> error + (nat list option \<times> nat) \<times> frame list" where
  "containsLoop h vsr n index [] contains containsCount st = Inr ((contains, containsCount), st)"
| "containsLoop h vsr n index (item # items) contains containsCount st =
     bindE
       (nestFrame (\<lambda>frame parents.
          bindE (vsr (applyFrame frame (nodeKey frame) n (KeyNum (of_nat index)) (Some item) # parents))
            (\<lambda>st2. bindE (topOutput st2)
              (\<lambda>out. Inr
                 ((if valid out then
                     (case contains of
                        Some c \<Rightarrow> (Some (c @ [index]), containsCount + 1)
                      | None \<Rightarrow> (None, containsCount + 1))
                   else if contains = None then (Some [0..<index], containsCount)
                   else (contains, containsCount)),
                  emitOutput h st2)))) st)
       (\<lambda>((contains', containsCount'), st').
          containsLoop h vsr n (Suc index) items contains' containsCount' st')"

definition parentNode :: "frame list \<Rightarrow> json option" where
  "parentNode st = currentNode (tl st)"

definition restoreTop :: "outputCheckpoint \<Rightarrow> frame list \<Rightarrow> frame list" where
  "restoreTop cp st =
     (case st of
        [] \<Rightarrow> []
      | f # parents \<Rightarrow> f\<lparr>frameOutput := restoreCheckpoint cp (frameOutput f)\<rparr> # parents)"

definition indexArray :: "nat list \<Rightarrow> json" where
  "indexArray xs = JArr (map (\<lambda>i. JNum (of_nat i)) xs)"

definition containsValidate :: "host \<Rightarrow> validator \<Rightarrow> validator" where
  "containsValidate h vsr st =
     (case currentInstance st of
        Some (JArr instance) \<Rightarrow>
          (let checkpoint = saveCheckpoint (case st of [] \<Rightarrow> None | f # _ \<Rightarrow> frameOutput f) in
           bindE (containsLoop h vsr (currentNode st) 0 instance None 0 st)
             (\<lambda>((contains, containsCount), st').
                let minContains =
                      (case getProperty (parentNode st') ''minContains'' of
                         Some (JNum m) \<Rightarrow> m
                       | _ \<Rightarrow> 1)
                in
                if containsCount = 0 \<and> minContains \<noteq> 0
                then Inr (attachError h ''does not contain item'' st')
                else Inr (attachAnnotation h
                       (Some (case contains of None \<Rightarrow> JBool True | Some c \<Rightarrow> indexArray c))
                       (restoreTop checkpoint st'))))
      | _ \<Rightarrow> Inr st)"

text \<open>The message of the four property keywords, from the list \<^verbatim>\<open>invalidProperties\<close>.\<close>

definition invalidMessage :: "host \<Rightarrow> string \<Rightarrow> string \<Rightarrow> string list \<Rightarrow> string" where
  "invalidMessage h singular plural invalidProperties =
     (if length invalidProperties = 1 then singular @ stringify h (hd invalidProperties)
      else plural @ joinNames h invalidProperties)"

text \<open>The tail of \<^verbatim>\<open>properties\<close>, \<^verbatim>\<open>patternProperties\<close> and
  \<^verbatim>\<open>additionalProperties\<close>: the summary error, or the annotation with the evaluated names.\<close>

definition finishProperties :: "host \<Rightarrow> string \<Rightarrow> string \<Rightarrow> string list \<Rightarrow> string list option
    \<Rightarrow> frame list \<Rightarrow> frame list" where
  "finishProperties h singular plural evaluatedProperties invalidProperties st =
     (case invalidProperties of
        Some invalid \<Rightarrow> attachError h (invalidMessage h singular plural invalid) st
      | None \<Rightarrow> attachAnnotation h (Some (JArr (map JStr evaluatedProperties))) st)"

definition pushInvalid :: "string list option \<Rightarrow> string \<Rightarrow> string list option" where
  "pushInvalid invalidProperties k =
     Some ((case invalidProperties of None \<Rightarrow> [] | Some xs \<Rightarrow> xs) @ [k])"

fun propertiesLoop :: "host \<Rightarrow> validator \<Rightarrow> json option \<Rightarrow> (string \<times> json) list
    \<Rightarrow> string list \<Rightarrow> string list option \<Rightarrow> frame list
    \<Rightarrow> error + (string list \<times> string list option) \<times> frame list" where
  "propertiesLoop h vsr n [] evaluated invalid st = Inr ((evaluated, invalid), st)"
| "propertiesLoop h vsr n ((k, v) # entries) evaluated invalid st =
     (case getMember n k of
        None \<Rightarrow> propertiesLoop h vsr n entries evaluated invalid st
      | Some subschema \<Rightarrow>
          bindE
            (nestFrame (\<lambda>frame parents.
               bindE (vsr (applyFrame frame (Some (KeyStr k)) (Some subschema) (KeyStr k) (Some v)
                            # parents))
                 (\<lambda>st2. bindE (topOutput st2)
                   (\<lambda>out. Inr
                      ((evaluated @ [k],
                        if \<not> valid out then pushInvalid invalid k else invalid),
                       emitOutput h st2)))) st)
            (\<lambda>((evaluated', invalid'), st').
               propertiesLoop h vsr n entries evaluated' invalid' st'))"

definition propertiesValidate :: "host \<Rightarrow> validator \<Rightarrow> validator" where
  "propertiesValidate h vsr st =
     (case currentInstance st of
        Some (JObj instance) \<Rightarrow>
          bindE (propertiesLoop h vsr (currentNode st) instance [] None st)
            (\<lambda>((evaluated, invalid), st').
               Inr (finishProperties h ''invalid property '' ''invalid properties ''
                      evaluated invalid st'))
      | _ \<Rightarrow> Inr st)"

text \<open>The inner loop of \<^verbatim>\<open>patternProperties\<close> for one pattern: the frame of the
  sub-schema application is not emitted.\<close>

fun patternInstanceLoop :: "validator \<Rightarrow> string \<Rightarrow> json \<Rightarrow> (string \<Rightarrow> bool)
    \<Rightarrow> (string \<times> json) list \<Rightarrow> string list \<Rightarrow> string list option \<Rightarrow> frame list
    \<Rightarrow> error + (string list \<times> string list option) \<times> frame list" where
  "patternInstanceLoop vsr pattern subschema test [] evaluated invalid st =
     Inr ((evaluated, invalid), st)"
| "patternInstanceLoop vsr pattern subschema test ((k, v) # entries) evaluated invalid st =
     (if \<not> test k then patternInstanceLoop vsr pattern subschema test entries evaluated invalid st
      else
        bindE
          (nestFrame (\<lambda>frame parents.
             bindE (vsr (applyFrame frame (Some (KeyStr pattern)) (Some subschema) (KeyStr k) (Some v)
                          # parents))
               (\<lambda>st2. bindE (topOutput st2)
                 (\<lambda>out. Inr
                    ((evaluated @ [k],
                      if \<not> valid out then
                        (case invalid of
                           None \<Rightarrow> Some [k]
                         | Some xs \<Rightarrow> if k \<in> set xs then Some xs else Some (xs @ [k]))
                      else invalid),
                     st2)))) st)
          (\<lambda>((evaluated', invalid'), st').
             patternInstanceLoop vsr pattern subschema test entries evaluated' invalid' st'))"

fun patternLoop :: "host \<Rightarrow> validator \<Rightarrow> (string \<times> json) list \<Rightarrow> (string \<times> json) list
    \<Rightarrow> string list \<Rightarrow> string list option \<Rightarrow> frame list
    \<Rightarrow> error + (string list \<times> string list option) \<times> frame list" where
  "patternLoop h vsr [] instance evaluated invalid st = Inr ((evaluated, invalid), st)"
| "patternLoop h vsr ((pattern, subschema) # patterns) instance evaluated invalid st =
     bindE (cachePattern h pattern)
       (\<lambda>test.
          bindE (patternInstanceLoop vsr pattern subschema test instance evaluated invalid st)
            (\<lambda>((evaluated', invalid'), st').
               patternLoop h vsr patterns instance evaluated' invalid' st'))"

definition patternPropertiesValidate :: "host \<Rightarrow> validator \<Rightarrow> validator" where
  "patternPropertiesValidate h vsr st =
     (case currentInstance st of
        Some (JObj instance) \<Rightarrow>
          (case currentNode st of
             Some (JObj n) \<Rightarrow>
               bindE (patternLoop h vsr n instance [] None st)
                 (\<lambda>((evaluated, invalid), st').
                    Inr (finishProperties h ''invalid pattern property ''
                           ''invalid pattern properties '' evaluated invalid st'))
           | _ \<Rightarrow> Inr st)
      | _ \<Rightarrow> Inr st)"

text \<open>\<^verbatim>\<open>additionalProperties\<close>: the names in the annotations of the sibling keywords
  \<^verbatim>\<open>properties\<close> and \<^verbatim>\<open>patternProperties\<close> are skipped.\<close>

definition annotatedNames :: "json option \<Rightarrow> string list" where
  "annotatedNames a = (case a of Some (JArr xs) \<Rightarrow> stringsOf xs | _ \<Rightarrow> [])"

fun additionalLoop :: "validator \<Rightarrow> json option \<Rightarrow> string list \<Rightarrow> (string \<times> json) list
    \<Rightarrow> string list \<Rightarrow> string list option \<Rightarrow> frame list
    \<Rightarrow> error + (string list \<times> string list option) \<times> frame list" where
  "additionalLoop vsr n propertyNames [] evaluated invalid st = Inr ((evaluated, invalid), st)"
| "additionalLoop vsr n propertyNames ((k, v) # entries) evaluated invalid st =
     (if k \<in> set propertyNames
      then additionalLoop vsr n propertyNames entries evaluated invalid st
      else
        bindE
          (nestFrame (\<lambda>frame parents.
             bindE (vsr (applyFrame frame (nodeKey frame) n (KeyStr k) (Some v) # parents))
               (\<lambda>st2. bindE (topOutput st2)
                 (\<lambda>out. Inr
                    ((evaluated @ [k],
                      if \<not> valid out then pushInvalid invalid k else invalid),
                     st2)))) st)
          (\<lambda>((evaluated', invalid'), st').
             additionalLoop vsr n propertyNames entries evaluated' invalid' st'))"

definition additionalPropertiesValidate :: "host \<Rightarrow> validator \<Rightarrow> validator" where
  "additionalPropertiesValidate h vsr st =
     (case currentInstance st of
        Some (JObj instance) \<Rightarrow>
          (let propertyNames =
                 annotatedNames (siblingAnnotation h st ''properties'') @
                 annotatedNames (siblingAnnotation h st ''patternProperties'')
           in
           bindE (additionalLoop vsr (currentNode st) propertyNames instance [] None st)
             (\<lambda>((evaluated, invalid), st').
                Inr (finishProperties h ''invalid additional property ''
                       ''invalid additional properties '' evaluated invalid st')))
      | _ \<Rightarrow> Inr st)"

text \<open>\<^verbatim>\<open>propertyNames\<close>: the instance of the sub-evaluation is the property name.\<close>

fun propertyNamesLoop :: "validator \<Rightarrow> json option \<Rightarrow> (string \<times> json) list
    \<Rightarrow> string list option \<Rightarrow> frame list \<Rightarrow> error + string list option \<times> frame list" where
  "propertyNamesLoop vsr n [] invalid st = Inr (invalid, st)"
| "propertyNamesLoop vsr n ((k, v) # entries) invalid st =
     bindE
       (nestFrame (\<lambda>frame parents.
          bindE (vsr (applyFrame frame (nodeKey frame) n (KeyStr k) (Some (JStr k)) # parents))
            (\<lambda>st2. bindE (topOutput st2)
              (\<lambda>out. Inr
                 (if \<not> valid out then pushInvalid invalid k else invalid, st2)))) st)
       (\<lambda>(invalid', st'). propertyNamesLoop vsr n entries invalid' st')"

definition propertyNamesValidate :: "host \<Rightarrow> validator \<Rightarrow> validator" where
  "propertyNamesValidate h vsr st =
     (case currentInstance st of
        Some (JObj instance) \<Rightarrow>
          bindE (propertyNamesLoop vsr (currentNode st) instance None st)
            (\<lambda>(invalid, st').
               (case invalid of
                  Some xs \<Rightarrow>
                    Inr (attachError h
                           (invalidMessage h ''invalid property name '' ''invalid property names '' xs)
                           st')
                | None \<Rightarrow> Inr st'))
      | _ \<Rightarrow> Inr st)"

section \<open>Unevaluated items (src/draft-2020-12/unevaluated.ts)\<close>

text \<open>
  The loop over the collected annotations. \<open>None\<close> is the \<^verbatim>\<open>return\<close> at a \<^verbatim>\<open>true\<close>
  annotation; otherwise the result is \<^verbatim>\<open>startIndex\<close> and the set \<^verbatim>\<open>contained\<close>
  (\<open>None\<close> while it is \<^verbatim>\<open>undefined\<close>).
\<close>

fun scanItemAnnotations :: "outputUnit list \<Rightarrow> rat \<Rightarrow> json list option
    \<Rightarrow> (rat \<times> json list option) option" where
  "scanItemAnnotations [] startIndex containedSet = Some (startIndex, containedSet)"
| "scanItemAnnotations (u # us) startIndex containedSet =
     (case annotation u of
        Some (JBool True) \<Rightarrow> None
      | Some (JNum v) \<Rightarrow> scanItemAnnotations us (max startIndex v) containedSet
      | Some (JArr vs) \<Rightarrow>
          scanItemAnnotations us startIndex
            (Some ((case containedSet of None \<Rightarrow> [] | Some c \<Rightarrow> c) @ vs))
      | _ \<Rightarrow> scanItemAnnotations us startIndex containedSet)"

text \<open>\<^verbatim>\<open>instance[index]\<close> for a number \<^verbatim>\<open>index\<close>, and the values that the loop variable
  of \<^verbatim>\<open>for (index = startIndex; index < instance.length; index += 1)\<close> takes.\<close>

definition itemAt :: "json list \<Rightarrow> rat \<Rightarrow> json option" where
  "itemAt xs index =
     (if isInteger index \<and> 0 \<le> index \<and> nat \<lfloor>index\<rfloor> < length xs
      then Some (xs ! nat \<lfloor>index\<rfloor>) else None)"

definition indexesFrom :: "rat \<Rightarrow> nat \<Rightarrow> rat list" where
  "indexesFrom startIndex n =
     map (\<lambda>j. startIndex + of_nat j) [0..<nat \<lceil>of_nat n - startIndex\<rceil>]"

fun unevaluatedItemsLoop :: "host \<Rightarrow> validator \<Rightarrow> json option \<Rightarrow> json list
    \<Rightarrow> json list option \<Rightarrow> rat list \<Rightarrow> bool \<Rightarrow> nat \<Rightarrow> frame list
    \<Rightarrow> error + (bool \<times> nat) \<times> frame list" where
  "unevaluatedItemsLoop h vsr n instance containedSet [] isValid count st =
     Inr ((isValid, count), st)"
| "unevaluatedItemsLoop h vsr n instance containedSet (index # indexes) isValid count st =
     (if (case containedSet of None \<Rightarrow> False | Some c \<Rightarrow> JNum index \<in> set c)
      then unevaluatedItemsLoop h vsr n instance containedSet indexes isValid count st
      else
        bindE
          (nestFrame (\<lambda>frame parents.
             bindE (vsr (applyFrame frame (nodeKey frame) n (KeyNum index) (itemAt instance index)
                          # parents))
               (\<lambda>st2. bindE (topOutput st2)
                 (\<lambda>out. Inr ((isValid \<and> valid out, count + 1), emitOutput h st2)))) st)
          (\<lambda>((isValid', count'), st').
             unevaluatedItemsLoop h vsr n instance containedSet indexes isValid' count' st'))"

definition parentOutput :: "frame list \<Rightarrow> outputUnit option" where
  "parentOutput st = (case tl st of [] \<Rightarrow> None | f # _ \<Rightarrow> frameOutput f)"

definition unevaluatedItemsValidate :: "host \<Rightarrow> validator \<Rightarrow> validator" where
  "unevaluatedItemsValidate h vsr st =
     (case currentInstance st of
        Some (JArr instance) \<Rightarrow>
          (let annotations0 =
                 getAnnotations (parentOutput st) ''/unevaluatedItems''
                   (getAnnotations (parentOutput st) ''/contains''
                     (getAnnotations (parentOutput st) ''/items''
                       (getAnnotations (parentOutput st) ''/prefixItems'' [])))
           in
           (case scanItemAnnotations annotations0 0 None of
              None \<Rightarrow> Inr st
            | Some (startIndex, containedSet) \<Rightarrow>
                bindE (unevaluatedItemsLoop h vsr (currentNode st) instance containedSet
                         (indexesFrom startIndex (length instance)) True 0 st)
                  (\<lambda>((isValid, count), st'). Inr (attachAnnotation h (Some (JBool True)) st'))))
      | _ \<Rightarrow> Inr st)"

section \<open>References (src/draft-2020-12/core.ts)\<close>

text \<open>
  The part of the context that validation reads: the resource registry and the
  reference registry of \<^verbatim>\<open>tool-json\<close>, both keyed by the schema node, with the dialects
  that parsing uses. The stack of the context is passed beside it. The source keys the
  registries by the identity of the node object; the model keys them by its value.
\<close>

datatype keywordImpl =
  UnknownKeyword
  | RefKeyword
  | DynamicRefKeyword
  | ContainsKeyword
  | PropertiesKeyword
  | PatternPropertiesKeyword
  | AdditionalPropertiesKeyword
  | PropertyNamesKeyword
  | UnevaluatedItemsKeyword
  | MultipleOfKeyword
  | MaximumKeyword
  | ExclusiveMaximumKeyword
  | MinimumKeyword
  | ExclusiveMinimumKeyword
  | MaxLengthKeyword
  | MinLengthKeyword
  | PatternKeyword
  | MaxItemsKeyword
  | MinItemsKeyword
  | UniqueItemsKeyword
  | MaxContainsKeyword
  | MinContainsKeyword
  | MaxPropertiesKeyword
  | MinPropertiesKeyword
  | RequiredKeyword
  | DependentRequiredKeyword

text \<open>A keyword object of a dialect: the descriptor that \<^verbatim>\<open>sortKeywords\<close> reads,
  and a tag that stands for its \<^verbatim>\<open>parse\<close> and \<^verbatim>\<open>validate\<close> functions.\<close>

record schemaKeyword = keyword +
  impl :: keywordImpl

record dialect =
  dialectUri :: string
  dialectKeywords :: "(string \<times> schemaKeyword) list"

record schemaResource =
  resourceBaseUri :: "string option"
  resourceDialect :: "dialect option"
  resourceKeys :: "schemaKeyword list option"

record reference =
  referenceUri :: string
  target :: "json option"

record schemaContext =
  resources :: "json \<Rightarrow> schemaResource option"
  references :: "json \<Rightarrow> reference option"
  dialects :: "(string \<times> dialect) list option"
  defaultDialect :: "dialect option"

definition getResource :: "schemaContext \<Rightarrow> json option \<Rightarrow> schemaResource option" where
  "getResource ctx n = (case n of None \<Rightarrow> None | Some v \<Rightarrow> resources ctx v)"

definition getReference :: "schemaContext \<Rightarrow> json option \<Rightarrow> reference option" where
  "getReference ctx n = (case n of None \<Rightarrow> None | Some v \<Rightarrow> references ctx v)"

definition isSchemaResource :: "schemaResource option \<Rightarrow> bool" where
  "isSchemaResource r =
     (case r of None \<Rightarrow> False | Some res \<Rightarrow> resourceDialect res \<noteq> None \<and> resourceKeys res \<noteq> None)"

text \<open>\<^verbatim>\<open>node.indexOf("#")\<close> and \<^verbatim>\<open>node.slice(hashIndex + 1)\<close>: the text after the first
  \<^verbatim>\<open>#\<close>, when there is one.\<close>

fun fragmentOf :: "string \<Rightarrow> string option" where
  "fragmentOf [] = None"
| "fragmentOf (c # cs) = (if c = CHR ''#'' then Some cs else fragmentOf cs)"

text \<open>The \<^verbatim>\<open>do ... while\<close> loop of \<^verbatim>\<open>$dynamicRef\<close> over the frames from the current frame
  to the root: every frame whose node declares the anchor overwrites \<^verbatim>\<open>resolved\<close>.\<close>

definition declaresDynamicAnchor :: "string \<Rightarrow> frame \<Rightarrow> bool" where
  "declaresDynamicAnchor anchor f =
     (isObject (node f) \<and> getProperty (node f) ''$dynamicAnchor'' = Some (JStr anchor))"

fun dynamicScopeLoop :: "string \<Rightarrow> json \<Rightarrow> frame list \<Rightarrow> json" where
  "dynamicScopeLoop anchor resolved [] = resolved"
| "dynamicScopeLoop anchor resolved (dynamicFrame # parents) =
     dynamicScopeLoop anchor
       (if declaresDynamicAnchor anchor dynamicFrame then the (node dynamicFrame) else resolved)
       parents"

text \<open>The frame in which \<^verbatim>\<open>$ref\<close> and \<^verbatim>\<open>$dynamicRef\<close> validate the target: it has the
  target as node and the instance, and no output unit of its own.\<close>

definition validateTarget :: "validator \<Rightarrow> json \<Rightarrow> json option \<Rightarrow> validator" where
  "validateTarget vsr resolved instance st =
     bindE
       (nestFrame (\<lambda>frame parents.
          bindE (vsr (frame\<lparr>node := Some resolved, instanceValue := instance\<rparr> # parents))
            (\<lambda>st2. Inr ((), st2))) st)
       (\<lambda>(_, st'). Inr st')"

definition refValidate :: "host \<Rightarrow> schemaContext \<Rightarrow> validator \<Rightarrow> validator" where
  "refValidate h ctx vsr st =
     (case getReference ctx (parentNode st) of
        None \<Rightarrow> Inr (attachError h ''unknown schema reference'' st)
      | Some r \<Rightarrow>
          (case target r of
             Some (JObj entries) \<Rightarrow> validateTarget vsr (JObj entries) (currentInstance st) st
           | _ \<Rightarrow> Inr (attachError h ''unresolved schema reference'' st)))"

definition dynamicRefValidate :: "host \<Rightarrow> schemaContext \<Rightarrow> validator \<Rightarrow> validator" where
  "dynamicRefValidate h ctx vsr st =
     (case getReference ctx (parentNode st) of
        None \<Rightarrow> Inr (attachError h ''unknown schema reference'' st)
      | Some r \<Rightarrow>
          (case target r of
             Some (JObj entries) \<Rightarrow>
               (case currentNode st of
                  Some (JStr n) \<Rightarrow>
                    validateTarget vsr
                      (case fragmentOf n of
                         Some anchor \<Rightarrow> dynamicScopeLoop anchor (JObj entries) st
                       | None \<Rightarrow> JObj entries)
                      (currentInstance st) st
                | _ \<Rightarrow> Inl (TypeError ''node.indexOf is not a function''))
           | _ \<Rightarrow> Inr (attachError h ''unresolved schema reference'' st)))"

section \<open>The validation pipeline (src/resource.ts, src/schema.ts)\<close>

text \<open>\<^verbatim>\<open>keyword.validate(context)\<close>, by the tag of the keyword. The argument \<open>vsr\<close> is
  the function that the keyword calls as \<^verbatim>\<open>validateSchemaResource(context)\<close>.\<close>

fun keywordValidate :: "host \<Rightarrow> schemaContext \<Rightarrow> validator \<Rightarrow> keywordImpl \<Rightarrow> validator" where
  "keywordValidate h ctx vsr UnknownKeyword st = Inr (annotationKeywordValidate h st)"
| "keywordValidate h ctx vsr RefKeyword st = refValidate h ctx vsr st"
| "keywordValidate h ctx vsr DynamicRefKeyword st = dynamicRefValidate h ctx vsr st"
| "keywordValidate h ctx vsr ContainsKeyword st = containsValidate h vsr st"
| "keywordValidate h ctx vsr PropertiesKeyword st = propertiesValidate h vsr st"
| "keywordValidate h ctx vsr PatternPropertiesKeyword st = patternPropertiesValidate h vsr st"
| "keywordValidate h ctx vsr AdditionalPropertiesKeyword st =
     additionalPropertiesValidate h vsr st"
| "keywordValidate h ctx vsr PropertyNamesKeyword st = propertyNamesValidate h vsr st"
| "keywordValidate h ctx vsr UnevaluatedItemsKeyword st = unevaluatedItemsValidate h vsr st"
| "keywordValidate h ctx vsr MultipleOfKeyword st = Inr (multipleOfValidate h st)"
| "keywordValidate h ctx vsr MaximumKeyword st = Inr (maximumValidate h st)"
| "keywordValidate h ctx vsr ExclusiveMaximumKeyword st = Inr (exclusiveMaximumValidate h st)"
| "keywordValidate h ctx vsr MinimumKeyword st = Inr (minimumValidate h st)"
| "keywordValidate h ctx vsr ExclusiveMinimumKeyword st = Inr (exclusiveMinimumValidate h st)"
| "keywordValidate h ctx vsr MaxLengthKeyword st = Inr (maxLengthValidate h st)"
| "keywordValidate h ctx vsr MinLengthKeyword st = Inr (minLengthValidate h st)"
| "keywordValidate h ctx vsr PatternKeyword st = patternValidate h st"
| "keywordValidate h ctx vsr MaxItemsKeyword st = Inr (maxItemsValidate h st)"
| "keywordValidate h ctx vsr MinItemsKeyword st = Inr (minItemsValidate h st)"
| "keywordValidate h ctx vsr UniqueItemsKeyword st = Inr (uniqueItemsValidate h st)"
| "keywordValidate h ctx vsr MaxContainsKeyword st = Inr (maxContainsValidate h st)"
| "keywordValidate h ctx vsr MinContainsKeyword st = Inr (minContainsValidate h st)"
| "keywordValidate h ctx vsr MaxPropertiesKeyword st = Inr (maxPropertiesValidate h st)"
| "keywordValidate h ctx vsr MinPropertiesKeyword st = Inr (minPropertiesValidate h st)"
| "keywordValidate h ctx vsr RequiredKeyword st = Inr (requiredValidate h st)"
| "keywordValidate h ctx vsr DependentRequiredKeyword st = dependentRequiredValidate h st"

text \<open>The loop of \<^verbatim>\<open>validateSchemaResource\<close> over \<^verbatim>\<open>resource.keys\<close>: each keyword is
  validated in a frame of its own with a new output unit, which is then emitted.\<close>

fun validateKeywords :: "host \<Rightarrow> schemaContext \<Rightarrow> validator \<Rightarrow> (string \<times> json) list
    \<Rightarrow> json option \<Rightarrow> schemaKeyword list \<Rightarrow> validator" where
  "validateKeywords h ctx vsr entries instance [] st = Inr st"
| "validateKeywords h ctx vsr entries instance (kwd # keys) st =
     bindE
       (nestFrame (\<lambda>frame parents.
          bindE (keywordValidate h ctx vsr (impl kwd)
                   (frame\<lparr>nodeKey := Some (KeyStr (key kwd)), node := map_of entries (key kwd),
                      instanceValue := instance, frameOutput := Some freshOutput\<rparr> # parents))
            (\<lambda>st2. Inr ((), emitOutput h st2))) st)
       (\<lambda>(_, st'). validateKeywords h ctx vsr entries instance keys st')"

text \<open>The body of \<^verbatim>\<open>validateSchemaResource\<close>; \<open>vsr\<close> stands for its recursive calls. A
  node that is an inherited member is a function, which \<^verbatim>\<open>isObject\<close> rejects, or, under
  \<^verbatim>\<open>__proto__\<close>, the prototype object, for which no resource is registered.\<close>

definition validateSchemaNode :: "host \<Rightarrow> schemaContext \<Rightarrow> validator \<Rightarrow> validator" where
  "validateSchemaNode h ctx vsr st =
     (case st of
        [] \<Rightarrow> Inl (TypeError ''no frame'')
      | frame # parents \<Rightarrow>
          (case node frame of
             Some (JBool True) \<Rightarrow> Inr st
           | Some (JBool False) \<Rightarrow> Inr (attachError h ''never valid'' st)
           | Some (JInherited name) \<Rightarrow>
               Inl (ProcessingError
                      (if name = ''__proto__'' then ''Uninitialized schema resource''
                       else ''Unexpected schema node''))
           | Some (JObj entries) \<Rightarrow>
               (case getResource ctx (node frame) of
                  Some res \<Rightarrow>
                    (case resourceKeys res of
                       Some keys \<Rightarrow>
                         if resourceDialect res = None
                         then Inl (ProcessingError ''Uninitialized schema resource'')
                         else
                           validateKeywords h ctx vsr entries (instanceValue frame) keys
                             ((if baseUri frame = None
                               then frame\<lparr>baseUri := resourceBaseUri res\<rparr> else frame) # parents)
                     | None \<Rightarrow> Inl (ProcessingError ''Uninitialized schema resource''))
                | None \<Rightarrow> Inl (ProcessingError ''Uninitialized schema resource''))
           | _ \<Rightarrow> Inl (ProcessingError ''Unexpected schema node'')))"

text \<open>
  \<^verbatim>\<open>validateSchemaResource\<close> calls itself through the keywords, and a schema that refers
  to itself can make it run forever. The first argument bounds the depth of the nested
  calls; a run that needs more ends in \<open>OutOfFuel\<close>.
\<close>

primrec validateSchemaResource :: "host \<Rightarrow> schemaContext \<Rightarrow> nat \<Rightarrow> validator" where
  "validateSchemaResource h ctx 0 = validateSchemaNode h ctx (\<lambda>st. Inl OutOfFuel)"
| "validateSchemaResource h ctx (Suc fuel) =
     validateSchemaNode h ctx (validateSchemaResource h ctx fuel)"

text \<open>\<^verbatim>\<open>Schema.validate(instance)\<close>: the result is the output unit that the method
  created and gave to the frame. The stack of the context of a parsed schema is empty.\<close>

definition schemaValidate :: "host \<Rightarrow> schemaContext \<Rightarrow> nat \<Rightarrow> json \<Rightarrow> json \<Rightarrow> error + outputUnit" where
  "schemaValidate h ctx fuel schemaNode instance =
     bindE
       (nestFrame (\<lambda>frame parents.
          bindE (validateSchemaResource h ctx fuel
                   (frame\<lparr>node := Some schemaNode, instanceValue := Some instance,
                      frameOutput := Some freshOutput\<rparr> # parents))
            (\<lambda>st2. bindE (topOutput st2) (\<lambda>out. Inr (out, st2)))) [])
       (\<lambda>(out, _). Inr out)"

section \<open>The parse pipeline (src/resource.ts, src/schema.ts)\<close>

text \<open>
  Parsing writes to the registries of the context, and an exception does not undo what
  was written before it. A parse function therefore returns the context and the stack
  as they are when it returns or throws, with the value or the error.
\<close>

type_synonym 'a parseResult = "(error + 'a) \<times> schemaContext \<times> frame list"

type_synonym 'a parser = "schemaContext \<Rightarrow> frame list \<Rightarrow> 'a parseResult"

definition bindP :: "'a parseResult \<Rightarrow> ('a \<Rightarrow> 'b parser) \<Rightarrow> 'b parseResult" where
  "bindP m k =
     (case m of
        (Inl e, ctx, st) \<Rightarrow> (Inl e, ctx, st)
      | (Inr x, ctx, st) \<Rightarrow> k x ctx st)"

lemma bindP_cong [fundef_cong]:
  "m = m' \<Longrightarrow> (\<And>x ctx st. m' = (Inr x, ctx, st) \<Longrightarrow> k x ctx st = k' x ctx st)
   \<Longrightarrow> bindP m k = bindP m' k'"
  by (auto simp: bindP_def split: prod.splits sum.splits)

text \<open>\<^verbatim>\<open>nestFrame\<close> pops the frame in a \<^verbatim>\<open>finally\<close> block, after an exception as well.\<close>

definition nestFrameP :: "(frame \<Rightarrow> frame list \<Rightarrow> schemaContext \<Rightarrow> 'a parseResult) \<Rightarrow> 'a parser" where
  "nestFrameP callback ctx st =
     (case callback createSchemaFrame st ctx of (r, ctx', st') \<Rightarrow> (r, ctx', tl st'))"

text \<open>A key between double quotes, as the messages write it.\<close>

definition quoted :: "string \<Rightarrow> string" where
  "quoted s = [CHR 0x22] @ s @ [CHR 0x22]"

definition unknownKeyword :: "string \<Rightarrow> schemaKeyword" where
  "unknownKeyword k = \<lparr>key = k, dependencies = [], dependents = [], impl = UnknownKeyword\<rparr>"

text \<open>
  \<^verbatim>\<open>resource.dialect.keywords[key] ?? unknownKeyword(key)\<close>. The table of a dialect is an
  object literal, so for a key that the table does not have but \<^verbatim>\<open>Object.prototype\<close>
  has, the read yields the inherited member: it is not nullish, \<^verbatim>\<open>unknownKeyword\<close> is
  not called, and a value that is not a keyword (\<open>None\<close>) is pushed on the array.
\<close>

definition keywordFor :: "dialect \<Rightarrow> string \<Rightarrow> schemaKeyword option" where
  "keywordFor d k =
     (case map_of (dialectKeywords d) k of
        Some kw \<Rightarrow> Some kw
      | None \<Rightarrow> if k \<in> set objectPrototypeNames then None else Some (unknownKeyword k))"

text \<open>The checks that the \<^verbatim>\<open>parse\<close> functions of the validation keywords make on the
  keyword's value; each throws a \<^verbatim>\<open>ValidationError\<close> with its own message.\<close>

definition isNonNegativeInteger :: "json option \<Rightarrow> bool" where
  "isNonNegativeInteger v = (case v of Some (JNum r) \<Rightarrow> isInteger r \<and> \<not> r < 0 | _ \<Rightarrow> False)"

fun uniqueStrings :: "json list \<Rightarrow> string list \<Rightarrow> string \<Rightarrow> string \<Rightarrow> error option" where
  "uniqueStrings [] seen notString notUnique = None"
| "uniqueStrings (JStr x # xs) seen notString notUnique =
     (if x \<in> set seen then Some (ValidationError notUnique)
      else uniqueStrings xs (seen @ [x]) notString notUnique)"
| "uniqueStrings (_ # xs) seen notString notUnique = Some (ValidationError notString)"

fun dependentArrays :: "(string \<times> json) list \<Rightarrow> error option" where
  "dependentArrays [] = None"
| "dependentArrays ((k, JArr xs) # entries) =
     (case uniqueStrings xs [] (quoted ''dependentRequired'' @ '' array elements must be strings'')
             (quoted ''dependentRequired'' @ '' array elements must be unique'') of
        Some e \<Rightarrow> Some e
      | None \<Rightarrow> dependentArrays entries)"
| "dependentArrays ((k, _) # entries) =
     Some (ValidationError (quoted ''dependentRequired'' @ '' property values must be arrays''))"

fun checkKeywordValue :: "keywordImpl \<Rightarrow> json option \<Rightarrow> error option" where
  "checkKeywordValue MultipleOfKeyword v =
     (case v of
        Some (JNum r) \<Rightarrow>
          if r \<le> 0 then Some (ValidationError (quoted ''multipleOf'' @ '' must be a positive number'')) else None
      | _ \<Rightarrow> Some (ValidationError (quoted ''multipleOf'' @ '' must be a positive number'')))"
| "checkKeywordValue MaximumKeyword v =
     (if isNumber v then None else Some (ValidationError (quoted ''maximum'' @ '' must be a number'')))"
| "checkKeywordValue ExclusiveMaximumKeyword v =
     (if isNumber v then None else Some (ValidationError (quoted ''exclusiveMaximum'' @ '' must be a number'')))"
| "checkKeywordValue MinimumKeyword v =
     (if isNumber v then None else Some (ValidationError (quoted ''minimum'' @ '' must be a number'')))"
| "checkKeywordValue ExclusiveMinimumKeyword v =
     (if isNumber v then None else Some (ValidationError (quoted ''exclusiveMinimum'' @ '' must be a number'')))"
| "checkKeywordValue MaxLengthKeyword v =
     (if isNonNegativeInteger v then None
      else Some (ValidationError (quoted ''maxLength'' @ '' must be a non-negative integer'')))"
| "checkKeywordValue MinLengthKeyword v =
     (if isNonNegativeInteger v then None
      else Some (ValidationError (quoted ''minLength'' @ '' must be a non-negative integer'')))"
| "checkKeywordValue PatternKeyword v =
     (if isString v then None else Some (ValidationError (quoted ''pattern'' @ '' must be a string'')))"
| "checkKeywordValue MaxItemsKeyword v =
     (if isNonNegativeInteger v then None
      else Some (ValidationError (quoted ''maxItems'' @ '' must be a non-negative integer'')))"
| "checkKeywordValue MinItemsKeyword v =
     (if isNonNegativeInteger v then None
      else Some (ValidationError (quoted ''minItems'' @ '' must be a non-negative integer'')))"
| "checkKeywordValue UniqueItemsKeyword v =
     (case v of
        Some (JBool b) \<Rightarrow> None
      | _ \<Rightarrow> Some (ValidationError (quoted ''uniqueItems'' @ '' must be a boolean'')))"
| "checkKeywordValue MaxContainsKeyword v =
     (if isNonNegativeInteger v then None
      else Some (ValidationError (quoted ''maxContains'' @ '' must be a non-negative integer'')))"
| "checkKeywordValue MinContainsKeyword v =
     (if isNonNegativeInteger v then None
      else Some (ValidationError (quoted ''minContains'' @ '' must be a non-negative integer'')))"
| "checkKeywordValue MaxPropertiesKeyword v =
     (if isNonNegativeInteger v then None
      else Some (ValidationError (quoted ''maxProperties'' @ '' must be a non-negative integer'')))"
| "checkKeywordValue MinPropertiesKeyword v =
     (if isNonNegativeInteger v then None
      else Some (ValidationError (quoted ''minProperties'' @ '' must be a non-negative integer'')))"
| "checkKeywordValue RequiredKeyword v =
     (case v of
        Some (JArr xs) \<Rightarrow>
          uniqueStrings xs [] (quoted ''required'' @ '' must be an array of strings'')
            (quoted ''required'' @ '' property names must be unique'')
      | _ \<Rightarrow> Some (ValidationError (quoted ''required'' @ '' must be an array of strings'')))"
| "checkKeywordValue DependentRequiredKeyword v =
     (case v of
        Some (JObj entries) \<Rightarrow> dependentArrays entries
      | _ \<Rightarrow> Some (ValidationError (quoted ''dependentRequired'' @ '' must be an object'')))"
| "checkKeywordValue _ v = None"

text \<open>The \<^verbatim>\<open>parse\<close> of \<^verbatim>\<open>properties\<close> and \<^verbatim>\<open>patternProperties\<close>: every value of the
  object is parsed as a schema, in a frame of its own. (For \<^verbatim>\<open>patternProperties\<close> the
  source also compiles the pattern, and swallows the exception of a pattern that does
  not compile.)\<close>

fun parseMembers :: "unit parser \<Rightarrow> (string \<times> json) list \<Rightarrow> unit parser" where
  "parseMembers parseResource [] ctx st = (Inr (), ctx, st)"
| "parseMembers parseResource ((k, subschema) # entries) ctx st =
     bindP
       (nestFrameP (\<lambda>frame parents ctx'.
          parseResource ctx' (frame\<lparr>nodeKey := Some (KeyStr k), node := Some subschema\<rparr> # parents))
          ctx st)
       (\<lambda>_. parseMembers parseResource entries)"

text \<open>The \<^verbatim>\<open>parse\<close> of \<^verbatim>\<open>$ref\<close> and \<^verbatim>\<open>$dynamicRef\<close>: the reference is registered for the
  node of the parent frame, with its target still to be resolved.\<close>

definition parseReference :: "host \<Rightarrow> string \<Rightarrow> unit parser" where
  "parseReference h name ctx st =
     (case currentNode st of
        Some (JStr n) \<Rightarrow>
          (case resolveUriReference h st n of
             None \<Rightarrow> (Inl (ValidationError (name @ '' must be a valid URI reference'')), ctx, st)
           | Some href \<Rightarrow>
               (case parentNode st of
                  Some (JObj entries) \<Rightarrow>
                    (Inr (),
                     ctx\<lparr>references := (references ctx)
                           (JObj entries \<mapsto> \<lparr>referenceUri = href, target = None\<rparr>)\<rparr>,
                     st)
                | _ \<Rightarrow> (Inl (ValidationError ''Unknown parent schema''), ctx, st)))
      | _ \<Rightarrow> (Inl (ValidationError (name @ '' must be a string'')), ctx, st))"

text \<open>\<^verbatim>\<open>keyword.parse(context)\<close>, by the tag of the keyword; \<open>parseResource\<close> is the
  function that the keyword calls as \<^verbatim>\<open>parseSchemaResource(context)\<close>.\<close>

fun keywordParse :: "host \<Rightarrow> unit parser \<Rightarrow> keywordImpl \<Rightarrow> unit parser" where
  "keywordParse h parseResource UnknownKeyword ctx st = (Inr (), ctx, st)"
| "keywordParse h parseResource RefKeyword ctx st = parseReference h (quoted ''$ref'') ctx st"
| "keywordParse h parseResource DynamicRefKeyword ctx st =
     parseReference h (quoted ''$dynamicRef'') ctx st"
| "keywordParse h parseResource ContainsKeyword ctx st = parseResource ctx st"
| "keywordParse h parseResource AdditionalPropertiesKeyword ctx st = parseResource ctx st"
| "keywordParse h parseResource PropertyNamesKeyword ctx st = parseResource ctx st"
| "keywordParse h parseResource UnevaluatedItemsKeyword ctx st = parseResource ctx st"
| "keywordParse h parseResource PropertiesKeyword ctx st =
     (case currentNode st of
        Some (JObj entries) \<Rightarrow> parseMembers parseResource entries ctx st
      | _ \<Rightarrow> (Inl (ValidationError (quoted ''properties'' @ '' must be an object'')), ctx, st))"
| "keywordParse h parseResource PatternPropertiesKeyword ctx st =
     (case currentNode st of
        Some (JObj entries) \<Rightarrow> parseMembers parseResource entries ctx st
      | _ \<Rightarrow> (Inl (ValidationError (quoted ''patternProperties'' @ '' must be an object'')), ctx, st))"
| "keywordParse h parseResource k ctx st =
     (case checkKeywordValue k (currentNode st) of
        Some e \<Rightarrow> (Inl e, ctx, st)
      | None \<Rightarrow> (Inr (), ctx, st))"

text \<open>The loop of \<^verbatim>\<open>parseSchemaResource\<close> over the sorted keywords.\<close>

fun parseKeywords :: "host \<Rightarrow> unit parser \<Rightarrow> (string \<times> json) list \<Rightarrow> schemaKeyword list
    \<Rightarrow> unit parser" where
  "parseKeywords h parseResource entries [] ctx st = (Inr (), ctx, st)"
| "parseKeywords h parseResource entries (kwd # keys) ctx st =
     bindP
       (nestFrameP (\<lambda>frame parents ctx'.
          keywordParse h parseResource (impl kwd) ctx'
            (frame\<lparr>nodeKey := Some (KeyStr (key kwd)), node := map_of entries (key kwd)\<rparr> # parents))
          ctx st)
       (\<lambda>_. parseKeywords h parseResource entries keys)"

text \<open>\<^verbatim>\<open>createResource(undefined, node)\<close> of \<^verbatim>\<open>tool-json\<close> followed by
  \<^verbatim>\<open>initSchemaResource\<close>: a resource without dialect and keys.\<close>

definition createResource :: schemaResource where
  "createResource = \<lparr>resourceBaseUri = None, resourceDialect = None, resourceKeys = None\<rparr>"

definition setResource :: "schemaContext \<Rightarrow> json \<Rightarrow> schemaResource \<Rightarrow> schemaContext" where
  "setResource ctx n res = ctx\<lparr>resources := (resources ctx)(n \<mapsto> res)\<rparr>"

text \<open>The dialect of the schema: the one that \<^verbatim>\<open>$schema\<close> names, or the default. The
  second component tells whether \<^verbatim>\<open>resource.dialect\<close> has been assigned when the
  function returns or throws (it is assigned \<^verbatim>\<open>undefined\<close> just before the errors for an
  unknown dialect and for a missing default).\<close>

definition schemaDialect :: "host \<Rightarrow> schemaContext \<Rightarrow> (string \<times> json) list
    \<Rightarrow> (error + dialect) \<times> bool" where
  "schemaDialect h ctx entries =
     (case map_of entries ''$schema'' of
        Some (JStr uri) \<Rightarrow>
          if \<not> isValidUri h uri
          then (Inl (ValidationError (quoted ''$schema'' @ '' must be a valid URI'')), False)
          else
            (case (case dialects ctx of None \<Rightarrow> None | Some ds \<Rightarrow> map_of ds uri) of
               None \<Rightarrow> (Inl (ValidationError (''Unknown dialect '' @ stringify h uri)), True)
             | Some d \<Rightarrow> (Inr d, True))
      | Some _ \<Rightarrow> (Inl (ValidationError (quoted ''$schema'' @ '' must be a string'')), False)
      | None \<Rightarrow>
          (case defaultDialect ctx of
             None \<Rightarrow> (Inl (ValidationError ''No default dialect''), True)
           | Some d \<Rightarrow> (Inr d, True)))"

text \<open>The body of \<^verbatim>\<open>parseSchemaResource\<close>; \<open>parseResource\<close> stands for the calls that
  the keywords make to it. The resource object is registered before the dialect is
  looked up, and its fields are assigned as the function goes: every assignment is an
  update of the registry.\<close>

definition parseSchemaNode :: "host \<Rightarrow> unit parser \<Rightarrow> schemaResource option parser" where
  "parseSchemaNode h parseResource ctx st =
     (case currentNode st of
        Some (JBool b) \<Rightarrow> (Inr None, ctx, st)
      | Some (JObj entries) \<Rightarrow>
          (let n = JObj entries in
           if isSchemaResource (resources ctx n) then (Inr (resources ctx n), ctx, st)
           else
             (let resource = (case resources ctx n of None \<Rightarrow> createResource | Some r \<Rightarrow> r);
                  ctx1 = (case resources ctx n of None \<Rightarrow> setResource ctx n resource | Some r \<Rightarrow> ctx)
              in
              (case schemaDialect h ctx1 entries of
                 (Inl e, assigned) \<Rightarrow>
                   (Inl e,
                    (if assigned then setResource ctx1 n (resource\<lparr>resourceDialect := None\<rparr>)
                     else ctx1),
                    st)
               | (Inr d, assigned) \<Rightarrow>
                   (let ctx2 = setResource ctx1 n (resource\<lparr>resourceDialect := Some d\<rparr>) in
                    (case sortKeywordsAny (map (keywordFor d) (map fst entries)) of
                       Inl e \<Rightarrow> (Inl e, ctx2, st)
                     | Inr sortedKeywords \<Rightarrow>
                         (let keywords = keywordsOf sortedKeywords;
                              ctx3 = setResource ctx2 n
                                (resource\<lparr>resourceDialect := Some d, resourceKeys := Some keywords\<rparr>)
                          in
                          bindP (parseKeywords h parseResource entries keywords ctx3 st)
                            (\<lambda>_ ctx4 st4. (Inr (resources ctx4 n), ctx4, st4))))))))
      | _ \<Rightarrow> (Inl (ValidationError ''Schema must be an object or a boolean''), ctx, st))"

text \<open>The keywords call \<^verbatim>\<open>parseSchemaResource\<close> for the schemas below them; the depth of
  these calls is bounded by the depth of the schema document. The first argument
  bounds it; a parse that needs more ends in \<open>OutOfFuel\<close>.\<close>

primrec parseSchemaResource :: "host \<Rightarrow> nat \<Rightarrow> schemaResource option parser" where
  "parseSchemaResource h 0 =
     parseSchemaNode h (\<lambda>ctx st. (Inl OutOfFuel, ctx, st))"
| "parseSchemaResource h (Suc fuel) =
     parseSchemaNode h (\<lambda>ctx st. bindP (parseSchemaResource h fuel ctx st)
                                    (\<lambda>_ ctx' st'. (Inr (), ctx', st')))"

text \<open>
  The options of \<^verbatim>\<open>parseSchema\<close>. \<^verbatim>\<open>dialects\<close> is an array or a \<^verbatim>\<open>Map\<close>. The last field
  stands for what \<^verbatim>\<open>initContext\<close> of \<^verbatim>\<open>tool-json\<close> reads from the options: the tests of
  the repository pass a context made by \<^verbatim>\<open>createSchemaContext\<close> as the options, and a
  later parse with the same context finds the resources that an earlier one registered
  (\<^verbatim>\<open>resolves canonical resources\<close> in core.test.ts).
\<close>

datatype dialectsOption = DialectArray "dialect list" | DialectMap "(string \<times> dialect) list"

record schemaOptions =
  optionBaseUri :: "string option"
  optionDialect :: "dialect option"
  optionDialects :: "dialectsOption option"
  optionContext :: "schemaContext option"

record schemaHandle =
  handleNode :: json
  handleContext :: schemaContext

text \<open>\<^verbatim>\<open>map.set(key, value)\<close> on a \<^verbatim>\<open>Map\<close>, kept as the list of its entries in
  insertion order.\<close>

fun mapSet :: "'k \<Rightarrow> 'v \<Rightarrow> ('k \<times> 'v) list \<Rightarrow> ('k \<times> 'v) list" where
  "mapSet k v [] = [(k, v)]"
| "mapSet k v ((k', v') # m) = (if k' = k then (k, v) # m else (k', v') # mapSet k v m)"

text \<open>\<^verbatim>\<open>initSchemaContext(context, options)\<close> of src/context.ts, for the fields of the
  context that are modelled: the default dialect and the supported dialects.\<close>

definition initSchemaContext :: "schemaContext \<Rightarrow> schemaOptions \<Rightarrow> schemaContext" where
  "initSchemaContext context options =
     (let c1 = (case optionDialect options of
                  Some d \<Rightarrow> context\<lparr>defaultDialect := Some d\<rparr>
                | None \<Rightarrow> context)
      in
      case optionDialects options of
        None \<Rightarrow> c1
      | Some (DialectArray ds) \<Rightarrow>
          c1\<lparr>dialects := Some (foldl (\<lambda>m d. mapSet (dialectUri d) d m) [] ds)\<rparr>
      | Some (DialectMap m) \<Rightarrow>
          (case dialects c1 of
             Some cm \<Rightarrow> c1\<lparr>dialects := Some (foldl (\<lambda>acc (uri, d). mapSet uri d acc) cm m)\<rparr>
           | None \<Rightarrow> c1\<lparr>dialects := Some m\<rparr>))"

text \<open>
  \<^verbatim>\<open>parseSchema(node, options)\<close>. \<^verbatim>\<open>initContext\<close> and the reference resolution pass
  are functions of \<^verbatim>\<open>tool-json\<close> and the standard dialects are a table of the source:
  the three are parameters. The registries of the context are JavaScript \<^verbatim>\<open>Map\<close>s, which
  the parse updates in place; when \<^verbatim>\<open>initContext\<close> took them from the options, the caller
  holds the same objects. The result is therefore the \<^verbatim>\<open>Schema\<close> handle or the error,
  together with the context as the call leaves it.
\<close>

definition parseSchema :: "host \<Rightarrow> (schemaOptions \<Rightarrow> schemaContext)
    \<Rightarrow> (schemaContext \<Rightarrow> schemaResource option \<Rightarrow> error + schemaContext)
    \<Rightarrow> (string \<times> dialect) list \<Rightarrow> nat \<Rightarrow> json \<Rightarrow> schemaOptions
    \<Rightarrow> (error + schemaHandle) \<times> schemaContext" where
  "parseSchema h initContext resolveReferences standardDialects fuel n options =
     (let c0 = initSchemaContext (initContext options) options;
          c1 = (if dialects c0 = None then c0\<lparr>dialects := Some standardDialects\<rparr> else c0);
          c2 = (if defaultDialect c1 = None
                then c1\<lparr>defaultDialect :=
                       (case dialects c1 of Some ((uri, d) # _) \<Rightarrow> Some d | _ \<Rightarrow> None)\<rparr>
                else c1)
      in
      case nestFrameP (\<lambda>frame parents ctx.
             parseSchemaResource h fuel ctx
               (frame\<lparr>baseUri := optionBaseUri options, node := Some n\<rparr> # parents))
             c2 [] of
        (Inl e, ctx, st) \<Rightarrow> (Inl e, ctx)
      | (Inr resource, ctx, st) \<Rightarrow>
          (case resolveReferences ctx resource of
             Inl e \<Rightarrow> (Inl e, ctx)
           | Inr ctx' \<Rightarrow> (Inr \<lparr>handleNode = n, handleContext = ctx'\<rparr>, ctx')))"

section \<open>Example inputs\<close>

text \<open>
  A host for the examples: the pointer of a frame is the concatenation of the node keys
  from the root (numbers written as \<^verbatim>\<open>#\<close>), the location is the pointer after
  \<^verbatim>\<open>urn:example#\<close>, nothing is escaped, every number prints as \<^verbatim>\<open>n\<close>, a string is
  quoted, its length is the length of the list, equality is the equality of values, a
  pattern matches the strings that start with it, the absolute URIs are the strings that
  start with \<^verbatim>\<open>urn:\<close>, and a reference is resolved by writing \<^verbatim>\<open>urn:example\<close> before
  it.
\<close>

fun examplePointer :: "frame list \<Rightarrow> string" where
  "examplePointer [] = []"
| "examplePointer (f # parents) =
     examplePointer parents @
     (case nodeKey f of
        None \<Rightarrow> []
      | Some (KeyStr k) \<Rightarrow> ''/'' @ k
      | Some (KeyNum n) \<Rightarrow> ''/#'')"

definition exampleHost :: host where
  "exampleHost =
     \<lparr>currentPointer = examplePointer,
      currentLocation = (\<lambda>st. ''urn:example#'' @ examplePointer st),
      escapePointer = (\<lambda>s. s),
      numberToString = (\<lambda>r. ''n''),
      stringify = (\<lambda>s. [CHR 0x22] @ s @ [CHR 0x22]),
      unicodeLength = length,
      equal = (\<lambda>a b. a = b),
      compileRegex = (\<lambda>p. Some (\<lambda>s. startsWith s p)),
      isValidUri = (\<lambda>s. startsWith s ''urn:''),
      resolveUriReference = (\<lambda>st s. Some (''urn:example'' @ s))\<rparr>"

text \<open>A frame as the pipeline sets it up for a keyword whose value is the number 3,
  with the instance \<^verbatim>\<open>null\<close>.\<close>

definition nullInstanceFrame :: frame where
  "nullInstanceFrame = createSchemaFrame\<lparr>node := Some (JNum 3), instanceValue := Some JNull,
     frameOutput := Some freshOutput\<rparr>"

text \<open>The ordering contract of the sort, on an array of keywords: a real dependency
  of the keyword at \<open>i\<close> that is the keyword at \<open>j\<close> stands before it, a real dependent
  stands after it, and a keyword that lists a virtual keyword in its dependents stands
  before every keyword that lists it in its dependencies.\<close>

definition orderedAt :: "'a keyword_scheme list \<Rightarrow> nat \<Rightarrow> nat \<Rightarrow> bool" where
  "orderedAt kws i j =
     ((if \<not> startsWithAt (key (kws ! j)) \<and> key (kws ! j) \<in> set (dependencies (kws ! i))
       then j < i else True) \<and>
      (if \<not> startsWithAt (key (kws ! j)) \<and> key (kws ! j) \<in> set (dependents (kws ! i))
       then i < j else True) \<and>
      (if \<exists>v \<in> set (dependents (kws ! i)). startsWithAt v \<and> v \<in> set (dependencies (kws ! j))
       then i < j else True))"

definition dependencyOrdered :: "'a keyword_scheme list \<Rightarrow> bool" where
  "dependencyOrdered kws =
     list_all (\<lambda>i. list_all (\<lambda>j. orderedAt kws i j) [0..<length kws]) [0..<length kws]"

text \<open>Ten keywords without a dependency cycle, and an order of them that meets the
  contract.\<close>

definition descriptor :: "string \<Rightarrow> string list \<Rightarrow> string list \<Rightarrow> keyword" where
  "descriptor k ds es = \<lparr>key = k, dependencies = ds, dependents = es\<rparr>"

definition acyclicKeywords :: "keyword list" where
  "acyclicKeywords =
     [descriptor ''G'' [] [],
      descriptor ''E'' [''H'', ''A'', ''B''] [''G''],
      descriptor ''C'' [] [''F'', ''I''],
      descriptor ''D'' [] [''F'', ''I'', ''C'', ''J''],
      descriptor ''J'' [] [''F'', ''I'', ''C''],
      descriptor ''B'' [''F'', ''I'', ''C'', ''J'', ''D''] [''H'', ''A''],
      descriptor ''H'' [] [],
      descriptor ''I'' [] [''F''],
      descriptor ''F'' [] [],
      descriptor ''A'' [] [''H'']]"

definition acyclicKeywordsOrdered :: "keyword list" where
  "acyclicKeywordsOrdered =
     [descriptor ''D'' [] [''F'', ''I'', ''C'', ''J''],
      descriptor ''J'' [] [''F'', ''I'', ''C''],
      descriptor ''C'' [] [''F'', ''I''],
      descriptor ''I'' [] [''F''],
      descriptor ''F'' [] [],
      descriptor ''B'' [''F'', ''I'', ''C'', ''J'', ''D''] [''H'', ''A''],
      descriptor ''A'' [] [''H''],
      descriptor ''H'' [] [],
      descriptor ''E'' [''H'', ''A'', ''B''] [''G''],
      descriptor ''G'' [] []]"

text \<open>The stack at the keyword of the schema \<^verbatim>\<open>{"unevaluatedItems": false}\<close> for the
  instance \<^verbatim>\<open>[]\<close>.\<close>

definition unevaluatedStack :: "frame list" where
  "unevaluatedStack =
     [createSchemaFrame\<lparr>nodeKey := Some (KeyStr ''unevaluatedItems''), node := Some (JBool False),
        instanceValue := Some (JArr []), frameOutput := Some freshOutput\<rparr>,
      createSchemaFrame\<lparr>node := Some (JObj [(''unevaluatedItems'', JBool False)]),
        instanceValue := Some (JArr []), frameOutput := Some freshOutput\<rparr>]"

text \<open>A dynamic scope of four frames: the \<^verbatim>\<open>$dynamicRef\<close> keyword, its schema, and two
  schemas above that both declare the dynamic anchor \<^verbatim>\<open>node\<close>; the reference of the
  schema resolves statically to the inner one.\<close>

definition outerSchema :: json where
  "outerSchema = JObj [(''$dynamicAnchor'', JStr ''node''), (''unevaluatedProperties'', JBool False)]"

definition innerSchema :: json where
  "innerSchema = JObj [(''$dynamicAnchor'', JStr ''node'')]"

definition itemsSchema :: json where
  "itemsSchema = JObj [(''$dynamicRef'', JStr ''#node'')]"

definition dynamicStack :: "frame list" where
  "dynamicStack =
     [createSchemaFrame\<lparr>nodeKey := Some (KeyStr ''$dynamicRef''), node := Some (JStr ''#node''),
        instanceValue := Some (JNum 1), frameOutput := Some freshOutput\<rparr>,
      createSchemaFrame\<lparr>node := Some itemsSchema, instanceValue := Some (JNum 1),
        frameOutput := Some freshOutput\<rparr>,
      createSchemaFrame\<lparr>node := Some innerSchema, instanceValue := Some (JArr [JNum 1])\<rparr>,
      createSchemaFrame\<lparr>node := Some outerSchema, instanceValue := Some (JArr [JNum 1]),
        frameOutput := Some freshOutput\<rparr>]"

definition dynamicContext :: schemaContext where
  "dynamicContext =
     \<lparr>resources = (\<lambda>n. None),
      references = (\<lambda>n. if n = itemsSchema
         then Some \<lparr>referenceUri = ''urn:example#node'', target = Some innerSchema\<rparr> else None),
      dialects = None, defaultDialect = None\<rparr>"


text \<open>A dialect with two keywords, a schema whose \<^verbatim>\<open>multipleOf\<close> is not a number, and
  the context and the stack in which \<^verbatim>\<open>parseSchema\<close> parses it.\<close>

definition refKeyword :: schemaKeyword where
  "refKeyword = \<lparr>key = ''$ref'', dependencies = [], dependents = [], impl = RefKeyword\<rparr>"

definition multipleOfKeyword :: schemaKeyword where
  "multipleOfKeyword =
     \<lparr>key = ''multipleOf'', dependencies = [], dependents = [], impl = MultipleOfKeyword\<rparr>"

definition exampleDialect :: dialect where
  "exampleDialect =
     \<lparr>dialectUri = ''urn:dialect'',
      dialectKeywords = [(''$ref'', refKeyword), (''multipleOf'', multipleOfKeyword)]\<rparr>"

definition malformedSchema :: json where
  "malformedSchema = JObj [(''$ref'', JStr ''#/a''), (''multipleOf'', JStr ''three'')]"

definition exampleContext :: schemaContext where
  "exampleContext =
     \<lparr>resources = (\<lambda>n. None), references = (\<lambda>n. None),
      dialects = Some [(''urn:dialect'', exampleDialect)],
      defaultDialect = Some exampleDialect\<rparr>"

definition malformedStack :: "frame list" where
  "malformedStack = [createSchemaFrame\<lparr>node := Some malformedSchema\<rparr>]"

definition multipleOfError :: error where
  "multipleOfError = ValidationError (quoted ''multipleOf'' @ '' must be a positive number'')"

text \<open>
  The sub-schema \<^verbatim>\<open>{"title": "x", "multipleOf": 2}\<close>, the context after
  \<^verbatim>\<open>parseSchemaResource\<close> has parsed it, and the stack at the point where \<^verbatim>\<open>properties\<close>
  of the schema \<^verbatim>\<open>{"properties": {"a": ...}}\<close> calls \<^verbatim>\<open>validateSchemaResource\<close> for
  the member \<^verbatim>\<open>a\<close> of the instance \<^verbatim>\<open>{"a": 3}\<close>; then the units that the validation
  produces.
\<close>

definition hoistSchema :: json where
  "hoistSchema = JObj [(''title'', JStr ''x''), (''multipleOf'', JNum 2)]"

definition hoistContext :: schemaContext where
  "hoistContext =
     fst (snd (parseSchemaResource exampleHost 0 exampleContext
                 [createSchemaFrame\<lparr>node := Some hoistSchema\<rparr>]))"

definition hoistStack :: "frame list" where
  "hoistStack =
     [createSchemaFrame\<lparr>nodeKey := Some (KeyStr ''a''), node := Some hoistSchema,
        instanceKey := Some (KeyStr ''a''), instanceValue := Some (JNum 3),
        frameOutput := Some freshOutput\<rparr>,
      createSchemaFrame\<lparr>nodeKey := Some (KeyStr ''properties''),
        node := Some (JObj [(''a'', hoistSchema)]),
        instanceValue := Some (JObj [(''a'', JNum 3)]), frameOutput := Some freshOutput\<rparr>]"

definition hoistedError :: outputUnit where
  "hoistedError =
     OutputUnit False (Some ''/properties/a/multipleOf'')
       (Some ''urn:example#/properties/a/multipleOf'') (Some ''/a'')
       (Some ''not a multiple of n'') None None None"

definition droppedAnnotation :: outputUnit where
  "droppedAnnotation =
     OutputUnit True (Some ''/properties/a/title'') (Some ''urn:example#/properties/a/title'')
       (Some ''/a'') None (Some (JStr ''x'')) None None"

definition hoistChild :: outputUnit where
  "hoistChild =
     OutputUnit False (Some ''/properties/a'') (Some ''urn:example#/properties/a'') (Some ''/a'')
       None None (Some [hoistedError]) (Some [droppedAnnotation])"

text \<open>
  A context without entries, an \<^verbatim>\<open>initContext\<close> that takes the context of the options
  when there is one, and options that are such a context and nothing else: a caller
  that passes a context of \<^verbatim>\<open>createSchemaContext()\<close>, whose registries it holds. The
  table of the standard dialects has the example dialect only. Then the state that the
  resource of \<open>malformedSchema\<close> has when all its keywords are sorted, and a parse of that
  schema with these options.
\<close>

definition emptyContext :: schemaContext where
  "emptyContext =
     \<lparr>resources = (\<lambda>n. None), references = (\<lambda>n. None), dialects = None, defaultDialect = None\<rparr>"

definition exampleInitContext :: "schemaOptions \<Rightarrow> schemaContext" where
  "exampleInitContext options =
     (case optionContext options of Some c \<Rightarrow> c | None \<Rightarrow> emptyContext)"

definition sharedOptions :: schemaOptions where
  "sharedOptions =
     \<lparr>optionBaseUri = None, optionDialect = None, optionDialects = None,
      optionContext = Some emptyContext\<rparr>"

definition exampleDialects :: "(string \<times> dialect) list" where
  "exampleDialects = [(''urn:dialect'', exampleDialect)]"

definition malformedResource :: schemaResource where
  "malformedResource =
     \<lparr>resourceBaseUri = None, resourceDialect = Some exampleDialect,
      resourceKeys = Some [refKeyword, multipleOfKeyword]\<rparr>"

definition failedParse :: "(error + schemaHandle) \<times> schemaContext" where
  "failedParse =
     parseSchema exampleHost exampleInitContext (\<lambda>ctx r. Inr ctx) exampleDialects 0
       malformedSchema sharedOptions"

text \<open>The frame of one of the four property keywords with the value \<open>n\<close>, for the
  instance \<^verbatim>\<open>{"a": 1, "b": 2, "c": 3}\<close>, and a keyword value with two boolean
  sub-schemas.\<close>

definition propertiesSchema :: json where
  "propertiesSchema = JObj [(''a'', JBool False), (''b'', JBool True)]"

definition propertiesMembers :: "(string \<times> json) list" where
  "propertiesMembers = [(''a'', JNum 1), (''b'', JNum 2), (''c'', JNum 3)]"

definition propertyFrame :: "string \<Rightarrow> json \<Rightarrow> frame" where
  "propertyFrame k n =
     createSchemaFrame\<lparr>nodeKey := Some (KeyStr k), node := Some n,
       instanceValue := Some (JObj propertiesMembers), frameOutput := Some freshOutput\<rparr>"


text \<open>A frame for \<^verbatim>\<open>contains\<close>: the keyword value \<^verbatim>\<open>{"multipleOf": 2}\<close>, registered as
  a schema resource with the keyword \<^verbatim>\<open>multipleOf\<close>, and the instance \<^verbatim>\<open>[1, 2, 4]\<close>.\<close>

definition containsSchema :: json where
  "containsSchema = JObj [(''multipleOf'', JNum 2)]"

definition containsContext :: schemaContext where
  "containsContext =
     \<lparr>resources = (\<lambda>v. if v = containsSchema
        then Some \<lparr>resourceBaseUri = None, resourceDialect = Some exampleDialect,
                   resourceKeys = Some [multipleOfKeyword]\<rparr>
        else None),
      references = (\<lambda>v. None), dialects = None, defaultDialect = None\<rparr>"

definition containsItems :: "json list" where
  "containsItems = [JNum 1, JNum 2, JNum 4]"

definition containsFrame :: frame where
  "containsFrame = createSchemaFrame\<lparr>nodeKey := Some (KeyStr ''contains''),
     node := Some containsSchema, instanceValue := Some (JArr containsItems),
     frameOutput := Some freshOutput\<rparr>"

definition containsValidator :: validator where
  "containsValidator = validateSchemaResource exampleHost containsContext 0"


section \<open>Summaries of the applicator loops\<close>

text \<open>
  The functions of this section are not in the source. They name what the loops of
  \<^verbatim>\<open>contains\<close> and of the four property keywords compute, so that the results of the keywords can be written
  down: the effect of \<^verbatim>\<open>emitOutput\<close> of a child frame on the stack below it, the list
  \<^verbatim>\<open>invalidProperties\<close> after a run of \<^verbatim>\<open>push\<close> calls, and what the claims say of a
  sub-schema application and of the output unit that carries the summary of a keyword.
\<close>

text \<open>\<^verbatim>\<open>emitOutput(context, frame)\<close> seen from the stack below the emitted frame, whose
  output unit is \<open>out\<close>.\<close>

definition emitUnit :: "host \<Rightarrow> outputUnit \<Rightarrow> frame list \<Rightarrow> frame list" where
  "emitUnit h out st =
     (if isEmptyOutput out then st else attachToAncestor h (hoistOutput out) st)"

text \<open>\<^verbatim>\<open>invalidProperties\<close> after the names \<open>ks\<close> were pushed, and, for
  \<^verbatim>\<open>patternProperties\<close>, after one name was pushed unless the list had it.\<close>

definition pushAll :: "string list option \<Rightarrow> string list \<Rightarrow> string list option" where
  "pushAll invalid ks =
     (if ks = [] then invalid else Some ((case invalid of None \<Rightarrow> [] | Some xs \<Rightarrow> xs) @ ks))"

definition pushNew :: "string list option \<Rightarrow> string \<Rightarrow> string list option" where
  "pushNew invalid k =
     (case invalid of
        None \<Rightarrow> Some [k]
      | Some xs \<Rightarrow> if k \<in> set xs then Some xs else Some (xs @ [k]))"

text \<open>Such an array of nested units after \<^verbatim>\<open>emitOutput\<close> pushed the units \<open>ys\<close> onto
  it.\<close>

definition appendUnits :: "outputUnit list option \<Rightarrow> outputUnit list \<Rightarrow> outputUnit list option" where
  "appendUnits xs ys = (if ys = [] then xs else Some ((case xs of None \<Rightarrow> [] | Some l \<Rightarrow> l) @ ys))"


text \<open>The names of a list, each at its first occurrence: the array that
  \<^verbatim>\<open>patternProperties\<close> builds by pushing a name unless it is there.\<close>

definition firstOccurrences :: "string list \<Rightarrow> string list" where
  "firstOccurrences ks = foldl (\<lambda>acc k. if k \<in> set acc then acc else acc @ [k]) [] ks"

text \<open>
  A sub-schema application as the claims about the applicators take it: the validator,
  called with the child frame on top of the stack \<open>st\<close>, returns, leaves the frames of
  \<open>st\<close> as they are, and leaves the output unit \<open>verdict\<close> in the child frame.
\<close>

definition appliesTo :: "validator \<Rightarrow> frame \<Rightarrow> frame list \<Rightarrow> outputUnit \<Rightarrow> bool" where
  "appliesTo vsr child st verdict =
     (\<exists>c'. vsr (child # st) = Inr (c' # st) \<and> frameOutput c' = Some verdict)"

text \<open>
  The summary that a property keyword records in the output unit \<open>out'\<close> of its frame,
  which held \<open>out\<close> before: with no invalid name the annotation is the array of the
  evaluated names, and the valid flag and the error are untouched; otherwise the unit is
  invalid, its error is the message that lists the invalid names, and the annotation is
  untouched.
\<close>

definition summaryUnit :: "host \<Rightarrow> string \<Rightarrow> string \<Rightarrow> string list \<Rightarrow> string list
    \<Rightarrow> outputUnit \<Rightarrow> outputUnit \<Rightarrow> bool" where
  "summaryUnit h singular plural evaluated invalid out out' =
     (if invalid = []
      then valid out' = valid out \<and> error out' = error out \<and>
           annotation out' = Some (JArr (map JStr evaluated))
      else \<not> valid out' \<and> error out' = Some (invalidMessage h singular plural invalid) \<and>
           annotation out' = annotation out)"

text \<open>The variable \<^verbatim>\<open>contains\<close> after the loop of the keyword has seen the items of
  \<open>flagged\<close>, the pairs of an index and the valid flag of its item, from \<open>index\<close> on:
  \<^verbatim>\<open>true\<close> (\<open>None\<close>) as long as every item was valid, the valid indexes after that.\<close>

definition containsResult :: "nat list option \<Rightarrow> nat \<Rightarrow> (nat \<times> bool) list \<Rightarrow> nat list option" where
  "containsResult contains index flagged =
     (let validIndexes = map fst (filter snd flagged) in
      case contains of
        Some c \<Rightarrow> Some (c @ validIndexes)
      | None \<Rightarrow> if list_all snd flagged then None else Some ([0..<index] @ validIndexes))"


chapter \<open>Properties\<close>

section \<open>The keyword sort\<close>

text \<open>
  Claim C1. The claim says that \<^verbatim>\<open>sortKeywords\<close> orders every list that has no
  dependency cycle. The ten keywords of \<open>acyclicKeywords\<close> have no cycle: the order
  \<open>acyclicKeywordsOrdered\<close> of the same ten keywords meets the contract. On this list
  the loop needs more than \<open>n * n = 100\<close> passes; at the head of the 101st the source
  throws its cycle error, with the keys in the order they have at that moment.
\<close>

theorem sortKeywords_rejects_acyclic:
  "sortKeywords acyclicKeywords =
     Inl (CycleDetected [''J'', ''C'', ''I'', ''D'', ''F'', ''B'', ''A'', ''H'', ''E'', ''G'']) \<and>
   dependencyOrdered acyclicKeywordsOrdered \<and>
   set acyclicKeywordsOrdered = set acyclicKeywords \<and>
   length acyclicKeywordsOrdered = length acyclicKeywords \<and>
   distinct (map key acyclicKeywords)"
  by code_simp

theorem sortKeywords_rejects_acyclic_witness:
  "sortKeywords acyclicKeywords =
     Inl (CycleDetected [''J'', ''C'', ''I'', ''D'', ''F'', ''B'', ''A'', ''H'', ''E'', ''G''])"
  using sortKeywords_rejects_acyclic by simp

text \<open>A keyword that lists itself as a dependency cannot stand before itself, so no
  order meets the contract; the test \<^verbatim>\<open>depIndex > i\<close> never holds for it and the sort
  returns without an error.\<close>

lemma sortKeywords_accepts_self_dependency:
  "sortKeywords [descriptor ''A'' [''A''] []] = Inr [descriptor ''A'' [''A''] []] \<and>
   \<not> dependencyOrdered [descriptor ''A'' [''A''] []]"
  by code_simp

section \<open>The sort of an array of keywords\<close>

text \<open>On an array that holds keywords only, the loops with the field reads written
  out are the loops of \<open>sortKeywords\<close>.\<close>

lemma findFromE_keywords:
  "findFromE k (\<lambda>j e. case e of None \<Rightarrow> Inl err | Some x \<Rightarrow> Inr (Q j x)) (map Some xs) =
     Inr (findFrom k Q xs)"
  by (induction xs arbitrary: k) simp_all

lemma findFrom_keyIs:
  "findFrom k (\<lambda>j e. keyIs name e) (map Some xs) = findFrom k (\<lambda>j x. key x = name) xs"
  by (induction xs arbitrary: k) (simp_all add: keyIs_def)

lemma findFrom_bound: "findFrom k P xs = Some j \<Longrightarrow> j < k + length xs"
proof (induction xs arbitrary: k)
  case Nil
  then show ?case by simp
next
  case (Cons a xs)
  show ?case
  proof (cases "P k a")
    case True
    with Cons.prems show ?thesis by simp
  next
    case False
    with Cons.prems have "findFrom (Suc k) P xs = Some j" by simp
    from Cons.IH [OF this] show ?thesis by simp
  qed
qed

lemma moveTo_map: "j < length xs \<Longrightarrow> moveTo (map f xs) j i = map f (moveTo xs j i)"
  by (simp add: moveTo_def take_map drop_map)

lemma processDependenciesAny_keywords:
  "i < length kws \<Longrightarrow>
   processDependenciesAny (map Some kws) i deps =
     Inr (map_option (map Some) (processDependencies kws i deps))"
proof (induction deps)
  case Nil
  show ?case by simp
next
  case (Cons d deps)
  show ?case
  proof (cases "startsWithAt d")
    case True
    show ?thesis
    proof (cases "findFrom 0 (\<lambda>j k. d \<in> set (dependents k) \<and> j > i) kws")
      case None
      then show ?thesis using True Cons by (simp add: findFromE_keywords)
    next
      case (Some j)
      with findFrom_bound [OF Some] show ?thesis
        using True by (simp add: findFromE_keywords moveTo_map)
    qed
  next
    case False
    show ?thesis
    proof (cases "findFrom 0 (\<lambda>j k. key k = d) kws")
      case None
      then show ?thesis using False Cons by (simp add: findFrom_keyIs)
    next
      case (Some j)
      with findFrom_bound [OF Some] show ?thesis
        using False Cons by (simp add: findFrom_keyIs moveTo_map)
    qed
  qed
qed

lemma processDependentsAny_keywords:
  "i < length kws \<Longrightarrow>
   processDependentsAny (map Some kws) i deps =
     Inr (map_option (map Some) (processDependents kws i deps))"
proof (induction deps)
  case Nil
  show ?case by simp
next
  case (Cons d deps)
  show ?case
  proof (cases "startsWithAt d")
    case True
    show ?thesis
    proof (cases "findFrom 0 (\<lambda>j k. d \<in> set (dependencies k) \<and> j < i) kws")
      case None
      then show ?thesis using True Cons by (simp add: findFromE_keywords)
    next
      case (Some j)
      then show ?thesis
        using True Cons.prems by (simp add: findFromE_keywords moveTo_map)
    qed
  next
    case False
    show ?thesis
    proof (cases "findFrom 0 (\<lambda>j k. key k = d) kws")
      case None
      then show ?thesis using False Cons by (simp add: findFrom_keyIs)
    next
      case (Some j)
      then show ?thesis
        using False Cons by (simp add: findFrom_keyIs moveTo_map)
    qed
  qed
qed

lemma processKeywordAny_keywords:
  "i < length kws \<Longrightarrow>
   processKeywordAny (map Some kws) i = Inr (map_option (map Some) (processKeyword kws i))"
  by (simp add: processKeywordAny_def processKeyword_def processDependenciesAny_keywords
      processDependentsAny_keywords split: option.splits)

lemma firstChangeAny_keywords:
  "\<forall>i \<in> set indexes. i < length kws \<Longrightarrow>
   firstChangeAny (map Some kws) indexes = Inr (map_option (map Some) (firstChange kws indexes))"
  by (induction indexes) (simp_all add: processKeywordAny_keywords split: option.splits)

lemma sortPassAny_keywords:
  "sortPassAny (map Some kws) = Inr (map_option (map Some) (sortPass kws))"
  by (simp add: sortPassAny_def sortPass_def firstChangeAny_keywords)

lemma sortLoopAny_keywords:
  "sortLoopAny n (map Some kws) = map_sum id (map Some) (sortLoop n kws)"
  by (induction n arbitrary: kws)
    (simp_all add: sortPassAny_keywords keyText_def comp_def split: option.splits)

lemma sortKeywordsAny_keywords:
  "sortKeywordsAny (map Some kws) = map_sum id (map Some) (sortKeywords kws)"
  by (simp add: sortKeywordsAny_def sortKeywords_def Let_def sortLoopAny_keywords)

lemma keywordsOf_keywords [simp]: "keywordsOf (map Some kws) = kws"
  by (induction kws) simp_all

section \<open>Emitting an output unit\<close>

text \<open>
  Claim C3. The child frame of \<open>hoistStack\<close> is the frame that \<^verbatim>\<open>properties\<close> sets up
  for the member \<^verbatim>\<open>a\<close>, and the sub-schema is registered in \<open>hoistContext\<close> as
  \<^verbatim>\<open>parseSchemaResource\<close> left it. \<^verbatim>\<open>validateSchemaResource\<close> leaves in the child frame
  the unit \<open>hoistChild\<close>: no error and no annotation of its own, one nested error (of
  \<^verbatim>\<open>multipleOf\<close>) and one nested annotation (of \<^verbatim>\<open>title\<close>). It is not empty, and with the
  annotation it has more of substance than one nested error, so the claim has this unit
  attached to the errors of the frame below. \<^verbatim>\<open>emitOutput\<close> attaches the nested error in
  its place, and the nested annotation is in no unit of the result: the hoisting test
  reads \<^verbatim>\<open>annotations === undefined || annotations.length === 1\<close>, where the emptiness test
  above it reads \<^verbatim>\<open>annotations.length === 0\<close>.
\<close>

theorem emitOutput_hoists_error_beside_annotation:
  "resources hoistContext hoistSchema =
     Some \<lparr>resourceBaseUri = None, resourceDialect = Some exampleDialect,
            resourceKeys = Some [unknownKeyword ''title'', multipleOfKeyword]\<rparr> \<and>
   map_sum id (map frameOutput) (validateSchemaResource exampleHost hoistContext 0 hoistStack) =
     Inr [Some hoistChild, Some freshOutput] \<and>
   map_sum id (\<lambda>st. map frameOutput (emitOutput exampleHost st))
     (validateSchemaResource exampleHost hoistContext 0 hoistStack) =
     Inr [Some hoistChild,
          Some (OutputUnit False (Some ''/properties'') (Some ''urn:example#/properties'')
                  (Some []) None None (Some [hoistedError]) None)] \<and>
   hoistChild \<noteq> hoistedError"
  by code_simp

section \<open>Unevaluated items\<close>

text \<open>
  Claim C4. For the instance \<^verbatim>\<open>[]\<close> there is no index to apply the sub-schema to: the
  loop runs over no index, and the validator given to the keyword here fails whenever
  it is called. The keyword still attaches the annotation \<^verbatim>\<open>true\<close>: the source counts
  the applications in \<^verbatim>\<open>count\<close> and then calls \<^verbatim>\<open>attachAnnotation(context, true)\<close>
  without reading it.
\<close>

theorem unevaluatedItems_annotates_without_applying:
  "indexesFrom 0 (length ([] :: json list)) = [] \<and>
   map frameOutput (tl unevaluatedStack) = [Some freshOutput] \<and>
   map_sum id (map frameOutput)
     (unevaluatedItemsValidate exampleHost (\<lambda>st. Inl OutOfFuel) unevaluatedStack) =
     Inr [Some (OutputUnit True (Some ''/unevaluatedItems'')
                  (Some ''urn:example#/unevaluatedItems'') (Some []) None (Some (JBool True))
                  None None),
          Some freshOutput]"
  by (simp add: indexesFrom_def unevaluatedItemsValidate_def unevaluatedStack_def
      currentInstance_def currentNode_def parentOutput_def getAnnotations_def freshOutput_def
      bindE_def attachAnnotation_def setAnnotation_def initOutput_def createSchemaFrame_def
      exampleHost_def)

section \<open>Dynamic references\<close>

lemma dynamicScopeLoop_filter:
  "dynamicScopeLoop anchor resolved st =
     (case filter (declaresDynamicAnchor anchor) st of
        [] \<Rightarrow> resolved
      | fs \<Rightarrow> the (node (last fs)))"
proof (induction st arbitrary: resolved)
  case Nil
  then show ?case by simp
next
  case (Cons f st)
  then show ?case by (simp split: list.splits)
qed

lemma declaresDynamicAnchor_node:
  "declaresDynamicAnchor anchor f \<Longrightarrow> \<exists>entries. node f = Some (JObj entries)"
  by (auto simp: declaresDynamicAnchor_def isObject_def split: option.splits json.splits)

text \<open>
  Claim C2. Let the reference of the parent schema be resolved to an object \<open>JObj entries\<close>
  and let the keyword's value \<open>uri\<close> contain a \<^verbatim>\<open>#\<close>, with \<open>anchor\<close> the text after it.
  The stack \<open>st\<close> lists the frames from the current frame to the root. Then
  \<^verbatim>\<open>$dynamicRef\<close> validates, in a new frame with the same instance, the node \<open>T\<close> of the
  last frame of \<open>st\<close> (the one nearest to the root) whose node is an object that declares
  \<^verbatim>\<open>$dynamicAnchor\<close> equal to \<open>anchor\<close>; when no frame declares it, \<open>T\<close> is the
  statically resolved target.
\<close>

theorem dynamicRef_outermost_anchor:
  assumes "getReference ctx (parentNode st) = Some r"
    and "target r = Some (JObj entries)"
    and "currentNode st = Some (JStr uri)"
    and "fragmentOf uri = Some anchor"
  shows "\<exists>T. (case filter (declaresDynamicAnchor anchor) st of
               [] \<Rightarrow> T = JObj entries
             | fs \<Rightarrow> node (last fs) = Some T) \<and>
     dynamicRefValidate h ctx vsr st =
       bindE (vsr (createSchemaFrame\<lparr>node := Some T, instanceValue := currentInstance st\<rparr> # st))
         (\<lambda>st2. Inr (tl st2))"
proof (cases "filter (declaresDynamicAnchor anchor) st")
  case Nil
  with assms show ?thesis
    by (simp add: dynamicRefValidate_def validateTarget_def nestFrame_def bindE_def
        dynamicScopeLoop_filter split: sum.splits)
next
  case (Cons g gs)
  then have "last (g # gs) \<in> set (filter (declaresDynamicAnchor anchor) st)"
    by (metis last_in_set list.distinct(1))
  then have "declaresDynamicAnchor anchor (last (g # gs))"
    by simp
  then obtain es where es: "node (last (g # gs)) = Some (JObj es)"
    using declaresDynamicAnchor_node by blast
  have "dynamicRefValidate h ctx vsr st =
       bindE (vsr (createSchemaFrame\<lparr>node := Some (JObj es),
                     instanceValue := currentInstance st\<rparr> # st))
         (\<lambda>st2. Inr (tl st2))"
    using assms Cons es
    by (simp add: dynamicRefValidate_def validateTarget_def nestFrame_def bindE_def
        dynamicScopeLoop_filter split: sum.splits)
  with Cons es show ?thesis
    by (intro exI [of _ "JObj es"]) simp
qed

text \<open>In \<open>dynamicStack\<close> the inner and the outer schema declare the anchor; the outer
  one, at the root, is validated although the reference resolves to the inner one.\<close>

theorem dynamicRef_outermost_anchor_witness:
  "getReference dynamicContext (parentNode dynamicStack) =
     Some \<lparr>referenceUri = ''urn:example#node'', target = Some innerSchema\<rparr> \<and>
   currentNode dynamicStack = Some (JStr ''#node'') \<and>
   fragmentOf ''#node'' = Some ''node'' \<and>
   map node (filter (declaresDynamicAnchor ''node'') dynamicStack) =
     [Some innerSchema, Some outerSchema] \<and>
   dynamicRefValidate exampleHost dynamicContext (\<lambda>st. Inr st) dynamicStack =
     bindE ((\<lambda>st. Inr st)
         (createSchemaFrame\<lparr>node := Some outerSchema,
            instanceValue := currentInstance dynamicStack\<rparr> # dynamicStack))
       (\<lambda>st2. Inr (tl st2))"
  using dynamicRef_outermost_anchor [of dynamicContext dynamicStack
      "\<lparr>referenceUri = ''urn:example#node'', target = Some innerSchema\<rparr>"
      "[(''$dynamicAnchor'', JStr ''node'')]" "''#node''" "''node''" exampleHost "\<lambda>st. Inr st"]
  by (simp add: dynamicContext_def dynamicStack_def getReference_def parentNode_def
      currentNode_def itemsSchema_def innerSchema_def outerSchema_def createSchemaFrame_def
      declaresDynamicAnchor_def isObject_def getProperty_def bindE_def)



section \<open>Boolean schemas\<close>

lemma validateSchemaResource_true:
  "node f = Some (JBool True) \<Longrightarrow> validateSchemaResource h ctx fuel (f # ps) = Inr (f # ps)"
  by (cases fuel) (simp_all add: validateSchemaNode_def)

lemma validateSchemaResource_false:
  "node f = Some (JBool False) \<Longrightarrow>
   validateSchemaResource h ctx fuel (f # ps) = Inr (attachError h ''never valid'' (f # ps))"
  by (cases fuel) (simp_all add: validateSchemaNode_def)

text \<open>
  Claim C6. For every instance, whatever the context and the depth bound,
  \<^verbatim>\<open>Schema.validate\<close> on the boolean schema \<^verbatim>\<open>true\<close> returns the output unit
  \<^verbatim>\<open>{ valid: true }\<close> as it was created (valid, no error, nothing nested), and on the
  boolean schema \<^verbatim>\<open>false\<close> it returns an output unit that is not valid and whose error
  is the string \<^verbatim>\<open>never valid\<close>.
\<close>

theorem boolean_schema_validate:
  "schemaValidate h ctx fuel (JBool True) instance = Inr freshOutput \<and>
   valid freshOutput \<and> error freshOutput = None \<and> errors freshOutput = None \<and>
   (\<exists>out. schemaValidate h ctx fuel (JBool False) instance = Inr out \<and>
      \<not> valid out \<and> error out = Some ''never valid'')"
  by (simp add: schemaValidate_def nestFrame_def bindE_def validateSchemaResource_true
      validateSchemaResource_false topOutput_def freshOutput_def attachError_def
      createSchemaFrame_def setError_def setValid_def initOutput_def)

section \<open>Validation keywords outside their domain\<close>

text \<open>
  Claim C9. Each of the seventeen validation keywords returns the stack as it got it,
  and so leaves the output unit of the current frame as it was (no error, no
  annotation, the valid flag untouched), when the instance is outside the keyword's
  domain: not a number for \<^verbatim>\<open>multipleOf\<close> and the four bounds, not a string for
  \<^verbatim>\<open>maxLength\<close>, \<^verbatim>\<open>minLength\<close> and \<^verbatim>\<open>pattern\<close>, not an array for \<^verbatim>\<open>maxItems\<close>,
  \<^verbatim>\<open>minItems\<close>, \<^verbatim>\<open>uniqueItems\<close>, \<^verbatim>\<open>maxContains\<close> and \<^verbatim>\<open>minContains\<close>, not an object
  for \<^verbatim>\<open>maxProperties\<close>, \<^verbatim>\<open>minProperties\<close>, \<^verbatim>\<open>required\<close> and \<^verbatim>\<open>dependentRequired\<close>.
\<close>

theorem validation_keywords_not_applicable:
  "(\<not> isNumber (currentInstance st) \<longrightarrow>
      multipleOfValidate h st = st \<and> maximumValidate h st = st \<and>
      exclusiveMaximumValidate h st = st \<and> minimumValidate h st = st \<and>
      exclusiveMinimumValidate h st = st) \<and>
   (\<not> isString (currentInstance st) \<longrightarrow>
      maxLengthValidate h st = st \<and> minLengthValidate h st = st \<and>
      patternValidate h st = Inr st) \<and>
   (\<not> isArray (currentInstance st) \<longrightarrow>
      maxItemsValidate h st = st \<and> minItemsValidate h st = st \<and>
      uniqueItemsValidate h st = st \<and> maxContainsValidate h st = st \<and>
      minContainsValidate h st = st) \<and>
   (\<not> isObject (currentInstance st) \<longrightarrow>
      maxPropertiesValidate h st = st \<and> minPropertiesValidate h st = st \<and>
      requiredValidate h st = st \<and> dependentRequiredValidate h st = Inr st)"
  by (auto simp: isNumber_def isString_def isArray_def isObject_def
      multipleOfValidate_def maximumValidate_def exclusiveMaximumValidate_def minimumValidate_def
      exclusiveMinimumValidate_def maxLengthValidate_def minLengthValidate_def patternValidate_def
      maxItemsValidate_def minItemsValidate_def uniqueItemsValidate_def maxContainsValidate_def
      minContainsValidate_def maxPropertiesValidate_def minPropertiesValidate_def
      requiredValidate_def dependentRequiredValidate_def
      split: option.splits json.splits)

text \<open>The theorem at a frame whose instance is \<^verbatim>\<open>null\<close>, which is outside every domain.\<close>

theorem validation_keywords_not_applicable_witness:
  "\<not> isNumber (currentInstance [nullInstanceFrame]) \<and>
   \<not> isString (currentInstance [nullInstanceFrame]) \<and>
   \<not> isArray (currentInstance [nullInstanceFrame]) \<and>
   \<not> isObject (currentInstance [nullInstanceFrame]) \<and>
   multipleOfValidate exampleHost [nullInstanceFrame] = [nullInstanceFrame] \<and>
   maxLengthValidate exampleHost [nullInstanceFrame] = [nullInstanceFrame] \<and>
   patternValidate exampleHost [nullInstanceFrame] = Inr [nullInstanceFrame] \<and>
   uniqueItemsValidate exampleHost [nullInstanceFrame] = [nullInstanceFrame] \<and>
   requiredValidate exampleHost [nullInstanceFrame] = [nullInstanceFrame]"
  using validation_keywords_not_applicable [of "[nullInstanceFrame]" exampleHost]
  by (simp add: isNumber_def isString_def isArray_def isObject_def currentInstance_def
      nullInstanceFrame_def)

section \<open>Unknown keywords\<close>

text \<open>
  Claim C8. The key \<^verbatim>\<open>constructor\<close> is not a keyword of \<open>exampleDialect\<close>. The read
  \<^verbatim>\<open>dialect.keywords[key]\<close> finds the member that the table inherits from
  \<^verbatim>\<open>Object.prototype\<close>, so \<^verbatim>\<open>unknownKeyword\<close> is not called for it, as it is for \<^verbatim>\<open>title\<close>;
  and \<^verbatim>\<open>parseSchema\<close> of the schema \<^verbatim>\<open>{"constructor": v}\<close> ends, for every value \<open>v\<close>, with
  the \<^verbatim>\<open>TypeError\<close> that \<^verbatim>\<open>sortKeywords\<close> raises when it reads the dependencies of a value
  that is not a keyword. The claim has the parse accept the value.
\<close>

theorem inherited_key_is_not_unknown_keyword:
  "map_of (dialectKeywords exampleDialect) ''constructor'' = None \<and>
   keywordFor exampleDialect ''constructor'' = None \<and>
   keywordFor exampleDialect ''title'' = Some (unknownKeyword ''title'') \<and>
   fst (parseSchema exampleHost exampleInitContext resolveReferences exampleDialects fuel
          (JObj [(''constructor'', v)]) sharedOptions) =
     Inl (TypeError ''dependencies'')"
proof -
  have k: "keywordFor exampleDialect ''constructor'' = None"
    by (simp add: keywordFor_def exampleDialect_def objectPrototypeNames_def)
  have p: "fst (parseSchemaResource exampleHost fuel
                  (emptyContext\<lparr>dialects := Some [(''urn:dialect'', exampleDialect)],
                     defaultDialect := Some exampleDialect\<rparr>)
                  [createSchemaFrame\<lparr>baseUri := None, node := Some (JObj [(''constructor'', v)])\<rparr>]) =
           Inl (TypeError ''dependencies'')"
    by (cases fuel)
      (simp_all add: parseSchemaNode_def currentNode_def isSchemaResource_def emptyContext_def
        createResource_def setResource_def schemaDialect_def Let_def k sortKeywordsAny_def
        sortPassAny_def processKeywordAny_def)
  show ?thesis
    using p
    by (auto simp: k keywordFor_def exampleDialect_def objectPrototypeNames_def unknownKeyword_def
        parseSchema_def initSchemaContext_def exampleInitContext_def sharedOptions_def Let_def
        nestFrameP_def emptyContext_def exampleDialects_def split: prod.splits sum.splits)
qed

text \<open>
  For a key that neither the dialect nor \<^verbatim>\<open>Object.prototype\<close> has, the keyword is
  \<^verbatim>\<open>unknownKeyword(k)\<close>: its \<^verbatim>\<open>parse\<close> returns without error and without effect, whatever
  the value, and its \<^verbatim>\<open>validate\<close>, in the frame \<open>kf\<close> that the pipeline sets up for it,
  produces the valid unit \<open>U\<close> with the value as annotation, which the pipeline
  attaches to the annotations of the schema's output unit.
\<close>

lemma unknownKeyword_annotates:
  assumes "map_of (dialectKeywords d) k = None"
    and "k \<notin> set objectPrototypeNames"
    and "map_of entries k = Some v"
    and "frameOutput s = Some out"
  shows
    "let kf = createSchemaFrame\<lparr>nodeKey := Some (KeyStr k), node := Some v,
                instanceValue := instance, frameOutput := Some freshOutput\<rparr>;
         U = OutputUnit True (Some (currentPointer h (kf # s # ps)))
               (Some (currentLocation h (kf # s # ps)))
               (Some (instanceLocationOf h (kf # s # ps))) None (Some v) None None;
         out' = attachChild U (initOutput h (s # ps))
     in
     keywordFor d k = Some (unknownKeyword k) \<and>
     keywordParse h parseResource (impl (unknownKeyword k)) pctx pst = (Inr (), pctx, pst) \<and>
     keywordValidate h ctx vsr (impl (unknownKeyword k)) (kf # s # ps) =
       Inr (kf\<lparr>frameOutput := Some U\<rparr> # s # ps) \<and>
     validateKeywords h ctx vsr entries instance [unknownKeyword k] (s # ps) =
       Inr (s\<lparr>frameOutput := Some out'\<rparr> # ps) \<and>
     valid out' = valid out \<and> error out' = error out \<and> errors out' = errors out \<and>
     annotation out' = annotation out \<and>
     annotations out' = Some ((case annotations out of None \<Rightarrow> [] | Some us \<Rightarrow> us) @ [U])"
  using assms
  by (simp add: keywordFor_def unknownKeyword_def nestFrame_def bindE_def Let_def
      annotationKeywordValidate_def attachAnnotation_def currentNode_def initOutput_def
      freshOutput_def setAnnotation_def emitOutput_def isEmptyOutput_def hoistOutput_def
      attachChild_def setAnnotations_def createSchemaFrame_def)

section \<open>Parse errors and the state of the context\<close>

text \<open>
  Claim C7. The caller passes its registries in the options, as the tests of the
  repository do with a context of \<^verbatim>\<open>createSchemaContext\<close>; nothing is registered in them
  for \<open>malformedSchema\<close>. \<^verbatim>\<open>parseSchema\<close> fails at \<^verbatim>\<open>multipleOf\<close> with the error of that
  keyword, and the registries are left with the resource of the schema, complete with its
  dialect and its sorted keywords, and with the reference that \<^verbatim>\<open>$ref\<close> registered before
  the failing keyword. A second parse of the same node with these registries (here with
  a reference resolution pass that does nothing) finds the resource complete, and
  \<^verbatim>\<open>parseSchemaResource\<close> returns it without an error, although the node is not a valid
  schema; its doc comment has it throw a \<^verbatim>\<open>ValidationError\<close> then.
\<close>

theorem failed_parse_leaves_state_in_shared_context:
  "resources emptyContext malformedSchema = None \<and>
   references emptyContext malformedSchema = None \<and>
   map_sum id handleNode (fst failedParse) = Inl multipleOfError \<and>
   resources (snd failedParse) malformedSchema = Some malformedResource \<and>
   references (snd failedParse) malformedSchema =
     Some \<lparr>referenceUri = ''urn:example#/a'', target = None\<rparr> \<and>
   fst (parseSchemaResource exampleHost 0 (snd failedParse) malformedStack) =
     Inr (Some malformedResource) \<and>
   map_sum id handleNode
     (fst (parseSchema exampleHost exampleInitContext (\<lambda>ctx r. Inr ctx) exampleDialects 0
             malformedSchema
             (sharedOptions\<lparr>optionContext :=
                Some (emptyContext\<lparr>resources := resources (snd failedParse),
                        references := references (snd failedParse)\<rparr>)\<rparr>))) =
     Inr malformedSchema"
  by code_simp

section \<open>Emitting the output of a child frame\<close>

lemma emitOutput_emitUnit:
  "frameOutput c = Some out \<Longrightarrow> emitOutput h (c # st) = c # emitUnit h out st"
  by (simp add: emitOutput_def emitUnit_def)

lemma emitUnit_owner:
  "emitUnit h out (f\<lparr>frameOutput := Some base\<rparr> # ps) =
     f\<lparr>frameOutput := Some (if isEmptyOutput out then base
        else attachChild (hoistOutput out) (initOutput h (f\<lparr>frameOutput := Some base\<rparr> # ps)))\<rparr> # ps"
  by (simp add: emitUnit_def)

lemma nk_create [simp]: "nodeKey createSchemaFrame = None"
  by (simp add: createSchemaFrame_def)

lemma frame_same_output: "frameOutput f = Some out \<Longrightarrow> f\<lparr>frameOutput := Some out\<rparr> = f"
  by (cases f) simp

section \<open>The contains keyword\<close>

lemma containsResult_Nil [simp]: "containsResult contains index [] = contains"
  by (simp add: containsResult_def split: option.splits)

lemma containsResult_Cons:
  "containsResult contains index ((index, b) # bs) =
     containsResult
       (if b then (case contains of Some c \<Rightarrow> Some (c @ [index]) | None \<Rightarrow> None)
        else if contains = None then Some [0..<index] else contains)
       (Suc index) bs"
  by (auto simp: containsResult_def Let_def split: option.splits)

lemma containsLoop_result:
  assumes sub: "\<And>i item base. (i, item) \<in> set (enumerate index items) \<Longrightarrow>
      \<exists>c'. vsr (applyFrame createSchemaFrame None n (KeyNum (of_nat i)) (Some item)
                  # f\<lparr>frameOutput := Some base\<rparr> # ps)
             = Inr (c' # f\<lparr>frameOutput := Some base\<rparr> # ps) \<and>
           frameOutput c' = Some (verdict i item)"
  shows "containsLoop h vsr n index items contains containsCount (f\<lparr>frameOutput := Some base\<rparr> # ps) =
     Inr ((containsResult contains index
             (map (\<lambda>(i, item). (i, valid (verdict i item))) (enumerate index items)),
           containsCount + length (filter (\<lambda>(i, item). valid (verdict i item)) (enumerate index items))),
          foldl (\<lambda>st u. emitUnit h u st) (f\<lparr>frameOutput := Some base\<rparr> # ps)
            (map (\<lambda>(i, item). verdict i item) (enumerate index items)))"
  using sub
proof (induction items arbitrary: index contains containsCount base)
  case Nil
  then show ?case by simp
next
  case (Cons item items)
  have rest: "\<And>i item base. (i, item) \<in> set (enumerate (Suc index) items) \<Longrightarrow>
      \<exists>c'. vsr (applyFrame createSchemaFrame None n (KeyNum (of_nat i)) (Some item)
                  # f\<lparr>frameOutput := Some base\<rparr> # ps)
             = Inr (c' # f\<lparr>frameOutput := Some base\<rparr> # ps) \<and>
           frameOutput c' = Some (verdict i item)"
    using Cons.prems by auto
  from Cons.prems [of index item base] obtain c' where
    c': "vsr (applyFrame createSchemaFrame None n (KeyNum (of_nat index)) (Some item)
                  # f\<lparr>frameOutput := Some base\<rparr> # ps)
             = Inr (c' # f\<lparr>frameOutput := Some base\<rparr> # ps)"
      "frameOutput c' = Some (verdict index item)"
    by auto
  show ?case
    using c'
    by (simp add: nestFrame_def bindE_def topOutput_def containsResult_Cons
        emitOutput_emitUnit emitUnit_owner Cons.IH [OF rest] split: option.splits)
qed

lemma emitAll_scalars:
  "\<exists>base'. foldl (\<lambda>st u. emitUnit h u st) (f\<lparr>frameOutput := Some base\<rparr> # ps) units =
       f\<lparr>frameOutput := Some base'\<rparr> # ps \<and>
     error base' = error base \<and> annotation base' = annotation base"
proof (induction units arbitrary: base)
  case Nil
  show ?case by (rule exI [of _ base]) simp
next
  case (Cons u units)
  show ?case
  proof (cases "isEmptyOutput u")
    case True
    then show ?thesis using Cons.IH [of base] by (simp add: emitUnit_owner)
  next
    case False
    let ?b = "attachChild (hoistOutput u) (initOutput h (f\<lparr>frameOutput := Some base\<rparr> # ps))"
    from Cons.IH [of ?b] obtain base' where
      b: "foldl (\<lambda>st u. emitUnit h u st) (f\<lparr>frameOutput := Some ?b\<rparr> # ps) units =
           f\<lparr>frameOutput := Some base'\<rparr> # ps"
        "error base' = error ?b" "annotation base' = annotation ?b"
      by blast
    have s: "error ?b = error base" "annotation ?b = annotation base"
      by (simp_all add: attachChild_def initOutput_def setErrors_def setValid_def setAnnotations_def)
    show ?thesis
      using False b s by (intro exI [of _ base']) (simp add: emitUnit_owner)
  qed
qed

lemma flagged_valid:
  "map fst (filter snd (map (\<lambda>(i, item). (i, P i item)) xs)) =
   map fst (filter (\<lambda>(i, item). P i item) xs)"
  by (induction xs) auto

lemma flagged_all:
  "list_all snd (map (\<lambda>(i, item). (i, P i item)) xs) \<longleftrightarrow>
   length (filter (\<lambda>(i, item). P i item) xs) = length xs"
proof (induction xs)
  case Nil
  show ?case by simp
next
  case (Cons x xs)
  have "length (filter (\<lambda>(i, item). P i item) xs) \<noteq> Suc (length xs)"
    using length_filter_le [of "\<lambda>(i, item). P i item" xs] by arith
  with Cons show ?case by (cases x) auto
qed

text \<open>
  Claim C5. Take a frame with an array instance and an output unit, and a
  sub-schema validator that works on the child frame of each item only and leaves there
  the output unit \<open>verdict\<close>. Then \<^verbatim>\<open>contains\<close> returns the stack with a new output unit
  for the frame. If no item is valid and the \<^verbatim>\<open>minContains\<close> of the parent node is not
  the number 0 (an absent one counts as 1), the unit carries the error
  \<^verbatim>\<open>does not contain item\<close>, is not valid, and has no new annotation. In every other case
  the valid flag, the error and the nested errors are those of the unit before the
  keyword ran, and the annotation is \<^verbatim>\<open>true\<close> when every item was valid (also for the
  empty array) and otherwise the ascending array of the valid indexes.
\<close>

theorem contains_error_or_annotation:
  fixes verdict :: "nat \<Rightarrow> json \<Rightarrow> outputUnit"
  assumes inst: "instanceValue f = Some (JArr items)"
    and out: "frameOutput f = Some out"
    and local: "\<forall>i item base. (i, item) \<in> set (enumerate 0 items) \<longrightarrow>
      (\<exists>c'. vsr (applyFrame createSchemaFrame None (node f) (KeyNum (of_nat i)) (Some item)
                  # f\<lparr>frameOutput := Some base\<rparr> # ps)
             = Inr (c' # f\<lparr>frameOutput := Some base\<rparr> # ps) \<and>
           frameOutput c' = Some (verdict i item))"
  shows
    "let validIndexes = map fst (filter (\<lambda>(i, item). valid (verdict i item)) (enumerate 0 items));
         minContains = (case getProperty (currentNode ps) ''minContains'' of
                          Some (JNum m) \<Rightarrow> m | _ \<Rightarrow> 1)
     in
     \<exists>f' out'. containsValidate h vsr (f # ps) = Inr (f' # ps) \<and> frameOutput f' = Some out' \<and>
       (if validIndexes = [] \<and> minContains \<noteq> 0
        then error out' = Some ''does not contain item'' \<and> \<not> valid out' \<and>
             annotation out' = annotation out
        else error out' = error out \<and> valid out' = valid out \<and> errors out' = errors out \<and>
             annotation out' =
               Some (if length validIndexes = length items then JBool True
                     else indexArray validIndexes))"
proof -
  have f: "f\<lparr>frameOutput := Some out\<rparr> = f"
    using out by (rule frame_same_output)
  define applied where "applied = enumerate 0 items"
  define validIndexes where
    "validIndexes = map fst (filter (\<lambda>(i, item). valid (verdict i item)) applied)"
  define minContains where
    "minContains = (case getProperty (currentNode ps) ''minContains'' of
                          Some (JNum m) \<Rightarrow> m | _ \<Rightarrow> 1)"
  obtain base' where e:
    "foldl (\<lambda>st u. emitUnit h u st) (f\<lparr>frameOutput := Some out\<rparr> # ps)
       (map (\<lambda>(i, item). verdict i item) applied) = f\<lparr>frameOutput := Some base'\<rparr> # ps"
    "error base' = error out" "annotation base' = annotation out"
    using emitAll_scalars [where h = h and f = f and base = out and ps = ps
        and units = "map (\<lambda>(i, item). verdict i item) applied"] by blast
  have len: "length (filter (\<lambda>(i, item). valid (verdict i item)) applied) = length validIndexes"
    by (simp add: validIndexes_def)
  have e': "foldl (\<lambda>st u. emitUnit h u st) (f # ps)
       (map (\<lambda>(i, item). verdict i item) (enumerate 0 items)) = f\<lparr>frameOutput := Some base'\<rparr> # ps"
    using e(1) unfolding f applied_def .
  have l: "containsLoop h vsr (node f) 0 items None 0 (f # ps) =
     Inr ((if length validIndexes = length items then None else Some validIndexes, length validIndexes),
          f\<lparr>frameOutput := Some base'\<rparr> # ps)"
    using containsLoop_result [where h = h and vsr = vsr and n = "node f" and index = 0
        and items = items and f = f and ps = ps and verdict = verdict and base = out
        and contains = None and containsCount = 0, OF local [rule_format]]
    by (simp add: f e' containsResult_def flagged_valid flagged_all
        validIndexes_def applied_def)
  have cn: "currentNode (f # ps) = node f" "currentInstance (f # ps) = instanceValue f"
    "\<And>g. parentNode (g # ps) = currentNode ps"
    by (simp_all add: currentNode_def currentInstance_def parentNode_def)
  show ?thesis
    unfolding Let_def applied_def [symmetric] validIndexes_def [symmetric] minContains_def [symmetric]
  proof (cases "validIndexes = [] \<and> minContains \<noteq> 0")
    case True
    then show "\<exists>f' out'. containsValidate h vsr (f # ps) = Inr (f' # ps) \<and> frameOutput f' = Some out' \<and>
       (if validIndexes = [] \<and> minContains \<noteq> 0
        then error out' = Some ''does not contain item'' \<and> \<not> valid out' \<and>
             annotation out' = annotation out
        else error out' = error out \<and> valid out' = valid out \<and> errors out' = errors out \<and>
             annotation out' =
               Some (if length validIndexes = length items then JBool True
                     else indexArray validIndexes))"
      using inst e(2,3)
      by (simp add: containsValidate_def cn l bindE_def Let_def
          minContains_def [symmetric] attachError_def initOutput_def setError_def
          setValid_def)
  next
    case False
    then show "\<exists>f' out'. containsValidate h vsr (f # ps) = Inr (f' # ps) \<and> frameOutput f' = Some out' \<and>
       (if validIndexes = [] \<and> minContains \<noteq> 0
        then error out' = Some ''does not contain item'' \<and> \<not> valid out' \<and>
             annotation out' = annotation out
        else error out' = error out \<and> valid out' = valid out \<and> errors out' = errors out \<and>
             annotation out' =
               Some (if length validIndexes = length items then JBool True
                     else indexArray validIndexes))"
      using inst e(2,3) out
      by (auto simp: containsValidate_def cn l bindE_def Let_def
          minContains_def [symmetric] attachAnnotation_def initOutput_def
          setAnnotation_def restoreTop_def restoreCheckpoint_def saveCheckpoint_def setErrors_def
          setError_def setValid_def)
  qed
qed

text \<open>For \<open>containsFrame\<close> and the validator of the pipeline the items 2 and 4 are
  multiples of 2: no error, and the annotation is \<^verbatim>\<open>[1, 2]\<close>.\<close>

theorem contains_error_or_annotation_witness:
  "\<exists>f' out'. containsValidate exampleHost containsValidator [containsFrame] = Inr [f'] \<and>
     frameOutput f' = Some out' \<and> error out' = None \<and> valid out' \<and> errors out' = None \<and>
     annotation out' = Some (JArr [JNum 1, JNum 2])"
proof -
  define verdict :: "nat \<Rightarrow> json \<Rightarrow> outputUnit" where
    "verdict = (\<lambda>i item.
       case containsValidator [applyFrame createSchemaFrame None (Some containsSchema)
              (KeyNum (of_nat i)) (Some item), containsFrame] of
         Inr (c # _) \<Rightarrow> (case frameOutput c of Some u \<Rightarrow> u | None \<Rightarrow> freshOutput)
       | _ \<Rightarrow> freshOutput)"
  have half: "\<lfloor>1 / 2 :: rat\<rfloor> = 0"
    by (rule floor_unique) simp_all
  have ints: "\<not> isInteger (1 / 2)" "isInteger 1" "isInteger 2"
    by (simp_all add: isInteger_def half)
  note defs = containsValidator_def validateSchemaNode_def getResource_def containsContext_def
    containsSchema_def containsFrame_def containsItems_def applyFrame_def createSchemaFrame_def
    multipleOfKeyword_def nestFrame_def bindE_def multipleOfValidate_def currentInstance_def
    currentNode_def ints attachError_def initOutput_def emitOutput_def isEmptyOutput_def
    hoistOutput_def lengthIsOne_def attachChild_def setError_def setValid_def setErrors_def
    setAnnotations_def exampleHost_def freshOutput_def keyToString_def
  have inst: "instanceValue containsFrame = Some (JArr containsItems)"
    by (simp add: containsFrame_def)
  have out: "frameOutput containsFrame = Some freshOutput"
    by (simp add: containsFrame_def)
  have node: "node containsFrame = Some containsSchema"
    by (simp add: containsFrame_def)
  have local: "\<forall>i item base. (i, item) \<in> set (enumerate 0 containsItems) \<longrightarrow>
      (\<exists>c'. containsValidator (applyFrame createSchemaFrame None (node containsFrame)
                  (KeyNum (of_nat i)) (Some item) # containsFrame\<lparr>frameOutput := Some base\<rparr> # [])
             = Inr (c' # containsFrame\<lparr>frameOutput := Some base\<rparr> # []) \<and>
           frameOutput c' = Some (verdict i item))"
    by (simp add: verdict_def defs)
  have flags: "\<not> valid (verdict 0 (JNum 1))" "valid (verdict (Suc 0) (JNum 2))"
    "valid (verdict (Suc (Suc 0)) (JNum 4))"
    by (simp_all add: verdict_def defs)
  note t = contains_error_or_annotation [OF inst out local, unfolded Let_def, of exampleHost]
  show ?thesis
    using t
    by (simp add: flags containsItems_def currentNode_def getProperty_def indexArray_def freshOutput_def)
qed

section \<open>Child output of the property keywords\<close>

lemma pushAll_Nil [simp]: "pushAll invalid [] = invalid"
  by (simp add: pushAll_def)

lemma pushAll_Cons: "pushAll invalid (k # ks) = pushAll (pushInvalid invalid k) ks"
  by (simp add: pushAll_def pushInvalid_def)

lemma pushAll_None: "pushAll None ks = (if ks = [] then None else Some ks)"
  by (simp add: pushAll_def)

lemma pushNew_Some:
  "foldl pushNew (Some acc) ks =
     Some (foldl (\<lambda>acc k. if k \<in> set acc then acc else acc @ [k]) acc ks)"
  by (induction ks arbitrary: acc) (simp_all add: pushNew_def)

lemma pushNew_None:
  "foldl pushNew None ks = (if ks = [] then None else Some (firstOccurrences ks))"
  by (cases ks) (simp_all add: pushNew_Some firstOccurrences_def pushNew_def)

lemma pushedOnce_nonempty:
  "acc \<noteq> [] \<Longrightarrow> foldl (\<lambda>acc k. if k \<in> set acc then acc else acc @ [k]) acc ks \<noteq> []"
  by (induction ks arbitrary: acc) auto

lemma firstOccurrences_empty [simp]: "firstOccurrences ks = [] \<longleftrightarrow> ks = []"
  by (cases ks) (simp_all add: firstOccurrences_def pushedOnce_nonempty)

lemma additionalLoop_result:
  assumes sub: "\<And>k v. (k, v) \<in> set entries \<Longrightarrow> k \<notin> set names \<Longrightarrow>
      appliesTo vsr (applyFrame createSchemaFrame None n (KeyStr k) (Some v)) st (verdict k v)"
  shows "additionalLoop vsr n names entries evaluated invalid st =
     Inr ((evaluated @ map fst (filter (\<lambda>(k, v). k \<notin> set names) entries),
           pushAll invalid
             (map fst (filter (\<lambda>(k, v). k \<notin> set names \<and> \<not> valid (verdict k v)) entries))),
          st)"
  using sub
proof (induction entries arbitrary: evaluated invalid)
  case Nil
  then show ?case by simp
next
  case (Cons e entries)
  obtain k v where e: "e = (k, v)" by (cases e)
  have rest: "\<And>k v. (k, v) \<in> set entries \<Longrightarrow> k \<notin> set names \<Longrightarrow>
      appliesTo vsr (applyFrame createSchemaFrame None n (KeyStr k) (Some v)) st (verdict k v)"
    using Cons.prems by auto
  show ?case
  proof (cases "k \<in> set names")
    case True
    then show ?thesis using Cons.IH [OF rest] by (simp add: e)
  next
    case False
    with Cons.prems [of k v] e obtain c' where
      c': "vsr (applyFrame createSchemaFrame None n (KeyStr k) (Some v) # st) = Inr (c' # st)"
        "frameOutput c' = Some (verdict k v)"
      by (auto simp: appliesTo_def)
    show ?thesis
      using c' False Cons.IH [OF rest]
      by (simp add: e nestFrame_def bindE_def topOutput_def pushAll_Cons)
  qed
qed

lemma propertyNamesLoop_result:
  assumes sub: "\<And>k v. (k, v) \<in> set entries \<Longrightarrow>
      appliesTo vsr (applyFrame createSchemaFrame None n (KeyStr k) (Some (JStr k))) st (verdict k)"
  shows "propertyNamesLoop vsr n entries invalid st =
     Inr (pushAll invalid (map fst (filter (\<lambda>(k, v). \<not> valid (verdict k)) entries)), st)"
  using sub
proof (induction entries arbitrary: invalid)
  case Nil
  then show ?case by simp
next
  case (Cons e entries)
  obtain k v where e: "e = (k, v)" by (cases e)
  from Cons.prems [of k v] e obtain c' where
    c': "vsr (applyFrame createSchemaFrame None n (KeyStr k) (Some (JStr k)) # st) = Inr (c' # st)"
      "frameOutput c' = Some (verdict k)"
    by (auto simp: appliesTo_def)
  have rest: "\<And>k v. (k, v) \<in> set entries \<Longrightarrow>
      appliesTo vsr (applyFrame createSchemaFrame None n (KeyStr k) (Some (JStr k))) st (verdict k)"
    using Cons.prems by auto
  show ?case
    using c' Cons.IH [OF rest]
    by (simp add: e nestFrame_def bindE_def topOutput_def pushAll_Cons)
qed

lemma patternInstanceLoop_result:
  assumes sub: "\<And>k v. (k, v) \<in> set entries \<Longrightarrow> test k \<Longrightarrow>
      appliesTo vsr (applyFrame createSchemaFrame (Some (KeyStr pattern)) (Some subschema)
          (KeyStr k) (Some v)) st (verdict k v)"
  shows "patternInstanceLoop vsr pattern subschema test entries evaluated invalid st =
     Inr ((evaluated @ map fst (filter (\<lambda>(k, v). test k) entries),
           foldl pushNew invalid
             (map fst (filter (\<lambda>(k, v). test k \<and> \<not> valid (verdict k v)) entries))),
          st)"
  using sub
proof (induction entries arbitrary: evaluated invalid)
  case Nil
  then show ?case by simp
next
  case (Cons e entries)
  obtain k v where e: "e = (k, v)" by (cases e)
  have rest: "\<And>k v. (k, v) \<in> set entries \<Longrightarrow> test k \<Longrightarrow>
      appliesTo vsr (applyFrame createSchemaFrame (Some (KeyStr pattern)) (Some subschema)
          (KeyStr k) (Some v)) st (verdict k v)"
    using Cons.prems by auto
  show ?case
  proof (cases "test k")
    case False
    then show ?thesis using Cons.IH [OF rest] by (simp add: e)
  next
    case True
    with Cons.prems [of k v] e obtain c' where
      c': "vsr (applyFrame createSchemaFrame (Some (KeyStr pattern)) (Some subschema)
                  (KeyStr k) (Some v) # st) = Inr (c' # st)"
        "frameOutput c' = Some (verdict k v)"
      by (auto simp: appliesTo_def)
    show ?thesis
      using c' True Cons.IH [OF rest]
      by (simp add: e nestFrame_def bindE_def topOutput_def pushNew_def split: option.splits)
  qed
qed

lemma patternLoop_result:
  assumes sub: "\<And>p s k v. (p, s) \<in> set patterns \<Longrightarrow> (k, v) \<in> set entries \<Longrightarrow> test p k \<Longrightarrow>
      appliesTo vsr (applyFrame createSchemaFrame (Some (KeyStr p)) (Some s) (KeyStr k) (Some v))
        st (verdict p s k v)"
    and regex: "\<And>p s. (p, s) \<in> set patterns \<Longrightarrow> compileRegex h p = Some (test p)"
  shows "patternLoop h vsr patterns entries evaluated invalid st =
     Inr ((evaluated @ concat (map (\<lambda>(p, s). map fst (filter (\<lambda>(k, v). test p k) entries)) patterns),
           foldl pushNew invalid
             (concat (map (\<lambda>(p, s). map fst (filter (\<lambda>(k, v). test p k \<and> \<not> valid (verdict p s k v))
                 entries)) patterns))),
          st)"
  using sub regex
proof (induction patterns arbitrary: evaluated invalid)
  case Nil
  then show ?case by simp
next
  case (Cons e patterns)
  obtain p s where e: "e = (p, s)" by (cases e)
  have r: "compileRegex h p = Some (test p)"
    using Cons.prems(2) [of p s] e by simp
  have inner: "\<And>k v. (k, v) \<in> set entries \<Longrightarrow> test p k \<Longrightarrow>
      appliesTo vsr (applyFrame createSchemaFrame (Some (KeyStr p)) (Some s) (KeyStr k) (Some v))
        st (verdict p s k v)"
    using Cons.prems(1) [of p s] e by simp
  have rest1: "\<And>p s k v. (p, s) \<in> set patterns \<Longrightarrow> (k, v) \<in> set entries \<Longrightarrow> test p k \<Longrightarrow>
      appliesTo vsr (applyFrame createSchemaFrame (Some (KeyStr p)) (Some s) (KeyStr k) (Some v))
        st (verdict p s k v)"
    using Cons.prems(1) by auto
  have rest2: "\<And>p s. (p, s) \<in> set patterns \<Longrightarrow> compileRegex h p = Some (test p)"
    using Cons.prems(2) by auto
  have one: "patternInstanceLoop vsr p s (test p) entries evaluated invalid st =
     Inr ((evaluated @ map fst (filter (\<lambda>(k, v). test p k) entries),
           foldl pushNew invalid
             (map fst (filter (\<lambda>(k, v). test p k \<and> \<not> valid (verdict p s k v)) entries))),
          st)"
    by (rule patternInstanceLoop_result [where verdict = "verdict p s"]) (rule inner)
  show ?case
    by (simp add: e cachePattern_def r bindE_def one Cons.IH [OF rest1 rest2])
qed

lemma propertiesLoop_result:
  assumes sub: "\<And>k v s base. (k, v) \<in> set entries \<Longrightarrow> getMember n k = Some s \<Longrightarrow>
      appliesTo vsr (applyFrame createSchemaFrame (Some (KeyStr k)) (Some s) (KeyStr k) (Some v))
        (f\<lparr>frameOutput := Some base\<rparr> # ps) (verdict k v)"
  shows "propertiesLoop h vsr n entries evaluated invalid (f\<lparr>frameOutput := Some base\<rparr> # ps) =
     Inr ((evaluated @ map fst (filter (\<lambda>(k, v). getMember n k \<noteq> None) entries),
           pushAll invalid
             (map fst (filter (\<lambda>(k, v). getMember n k \<noteq> None \<and> \<not> valid (verdict k v)) entries))),
          foldl (\<lambda>st u. emitUnit h u st) (f\<lparr>frameOutput := Some base\<rparr> # ps)
            (map (\<lambda>(k, v). verdict k v) (filter (\<lambda>(k, v). getMember n k \<noteq> None) entries)))"
  using sub
proof (induction entries arbitrary: evaluated invalid base)
  case Nil
  then show ?case by simp
next
  case (Cons e entries)
  obtain k v where e: "e = (k, v)" by (cases e)
  have rest: "\<And>k v s base. (k, v) \<in> set entries \<Longrightarrow> getMember n k = Some s \<Longrightarrow>
      appliesTo vsr (applyFrame createSchemaFrame (Some (KeyStr k)) (Some s) (KeyStr k) (Some v))
        (f\<lparr>frameOutput := Some base\<rparr> # ps) (verdict k v)"
    using Cons.prems by auto
  show ?case
  proof (cases "getMember n k")
    case None
    then show ?thesis
      using Cons.IH [OF rest] by (simp add: e)
  next
    case (Some s)
    from Cons.prems [of k v s base] e Some obtain c' where
      c': "vsr (applyFrame createSchemaFrame (Some (KeyStr k)) (Some s) (KeyStr k) (Some v)
                  # f\<lparr>frameOutput := Some base\<rparr> # ps)
             = Inr (c' # f\<lparr>frameOutput := Some base\<rparr> # ps)"
        "frameOutput c' = Some (verdict k v)"
      by (auto simp: appliesTo_def)
    show ?thesis
      using c' Some
      by (simp add: e nestFrame_def bindE_def topOutput_def pushAll_Cons
          emitOutput_emitUnit emitUnit_owner Cons.IH [OF rest])
  qed
qed

lemma emitAll_fields:
  "\<exists>base'. foldl (\<lambda>st u. emitUnit h u st) (f\<lparr>frameOutput := Some base\<rparr> # ps) units =
       f\<lparr>frameOutput := Some base'\<rparr> # ps \<and>
     errors base' = appendUnits (errors base)
       (filter (\<lambda>u. \<not> valid u) (map hoistOutput (filter (\<lambda>u. \<not> isEmptyOutput u) units))) \<and>
     annotations base' = appendUnits (annotations base)
       (filter valid (map hoistOutput (filter (\<lambda>u. \<not> isEmptyOutput u) units))) \<and>
     error base' = error base \<and> annotation base' = annotation base \<and>
     (valid base' \<longleftrightarrow>
        valid base \<and> list_all valid (map hoistOutput (filter (\<lambda>u. \<not> isEmptyOutput u) units)))"
proof (induction units arbitrary: base)
  case Nil
  show ?case by (rule exI [of _ base]) (simp add: appendUnits_def)
next
  case (Cons u units)
  show ?case
  proof (cases "isEmptyOutput u")
    case True
    then show ?thesis using Cons.IH [of base] by (simp add: emitUnit_owner)
  next
    case False
    let ?b = "attachChild (hoistOutput u) (initOutput h (f\<lparr>frameOutput := Some base\<rparr> # ps))"
    let ?E = "map hoistOutput (filter (\<lambda>u. \<not> isEmptyOutput u) units)"
    from Cons.IH [of ?b] obtain base' where
      b: "foldl (\<lambda>st u. emitUnit h u st) (f\<lparr>frameOutput := Some ?b\<rparr> # ps) units =
           f\<lparr>frameOutput := Some base'\<rparr> # ps"
        "errors base' = appendUnits (errors ?b) (filter (\<lambda>u. \<not> valid u) ?E)"
        "annotations base' = appendUnits (annotations ?b) (filter valid ?E)"
        "error base' = error ?b" "annotation base' = annotation ?b"
        "valid base' \<longleftrightarrow> valid ?b \<and> list_all valid ?E"
      by blast
    have e: "errors ?b = (if valid (hoistOutput u) then errors base
                else Some ((case errors base of None \<Rightarrow> [] | Some l \<Rightarrow> l) @ [hoistOutput u]))"
      by (simp add: attachChild_def initOutput_def setErrors_def setValid_def setAnnotations_def)
    have a: "annotations ?b = (if valid (hoistOutput u)
                then Some ((case annotations base of None \<Rightarrow> [] | Some l \<Rightarrow> l) @ [hoistOutput u])
                else annotations base)"
      by (simp add: attachChild_def initOutput_def setErrors_def setValid_def setAnnotations_def)
    have s: "error ?b = error base" "annotation ?b = annotation base"
      "valid ?b \<longleftrightarrow> valid base \<and> valid (hoistOutput u)"
      by (simp_all add: attachChild_def initOutput_def setErrors_def setValid_def setAnnotations_def)
    show ?thesis
      using False b e a s
      by (intro exI [of _ base']) (auto simp: emitUnit_owner appendUnits_def split: option.splits)
  qed
qed

lemma attachError_fields:
  assumes "frameOutput g = Some b"
  shows "\<exists>u. attachError h m (g # ps) = g\<lparr>frameOutput := Some u\<rparr> # ps \<and>
     \<not> valid u \<and> error u = Some m \<and> annotation u = annotation b \<and>
     errors u = errors b \<and> annotations u = annotations b \<and>
     keywordLocation u =
       (case keywordLocation b of None \<Rightarrow> Some (currentPointer h (g # ps)) | Some l \<Rightarrow> Some l)"
  using assms
  by (intro exI [of _ "setError (Some m) (setValid False (initOutput h (g # ps)))"])
    (simp add: attachError_def initOutput_def setError_def setValid_def)

lemma attachAnnotation_fields:
  assumes "frameOutput g = Some b"
  shows "\<exists>u. attachAnnotation h a (g # ps) = g\<lparr>frameOutput := Some u\<rparr> # ps \<and>
     valid u = valid b \<and> error u = error b \<and> annotation u = a \<and>
     errors u = errors b \<and> annotations u = annotations b \<and>
     keywordLocation u =
       (case keywordLocation b of None \<Rightarrow> Some (currentPointer h (g # ps)) | Some l \<Rightarrow> Some l)"
  using assms
  by (intro exI [of _ "setAnnotation a (initOutput h (g # ps))"])
    (simp add: attachAnnotation_def initOutput_def setAnnotation_def)

lemma finishProperties_fields:
  assumes "frameOutput g = Some b"
  shows "\<exists>u. finishProperties h singular plural evaluated (if invalid = [] then None else Some invalid)
              (g # ps) = g\<lparr>frameOutput := Some u\<rparr> # ps \<and>
     summaryUnit h singular plural evaluated invalid b u \<and>
     errors u = errors b \<and> annotations u = annotations b \<and>
     keywordLocation u =
       (case keywordLocation b of None \<Rightarrow> Some (currentPointer h (g # ps)) | Some l \<Rightarrow> Some l)"
proof (cases "invalid = []")
  case True
  with attachAnnotation_fields [OF assms, of h "Some (JArr (map JStr evaluated))" ps]
  show ?thesis by (auto simp: finishProperties_def summaryUnit_def)
next
  case False
  with attachError_fields [OF assms, of h "invalidMessage h singular plural invalid" ps]
  show ?thesis by (auto simp: finishProperties_def summaryUnit_def)
qed

text \<open>
  Claim C10. Take a frame with an object instance and an output unit \<open>out\<close>, and for
  each of the four keywords assume of the sub-schema validator only that the
  applications the keyword makes return with a verdict in the child frame. Then
  \<^verbatim>\<open>additionalProperties\<close>, \<^verbatim>\<open>propertyNames\<close> and \<^verbatim>\<open>patternProperties\<close> leave the parents and the
  arrays \<^verbatim>\<open>errors\<close> and \<^verbatim>\<open>annotations\<close> of the frame's unit as they were, so no unit of a
  child is attached, also when a child is invalid; what they record, at the location of
  the keyword, is the summary: the error that lists the names whose child was invalid,
  or else the annotation with the evaluated names (nothing for \<^verbatim>\<open>propertyNames\<close>).
  \<^verbatim>\<open>properties\<close> records the same summary and, before that, emits the unit of the
  child of every member the keyword's value has a sub-schema for, in the order of the
  instance: the units that are not empty are appended, hoisted, to \<^verbatim>\<open>errors\<close> when
  invalid and to \<^verbatim>\<open>annotations\<close> when valid.
\<close>

theorem property_applicators_child_output:
  fixes verdictA :: "string \<Rightarrow> json \<Rightarrow> outputUnit"
    and verdictN :: "string \<Rightarrow> outputUnit"
    and verdictP :: "string \<Rightarrow> json \<Rightarrow> string \<Rightarrow> json \<Rightarrow> outputUnit"
    and verdictR :: "string \<Rightarrow> json \<Rightarrow> outputUnit"
  assumes inst: "instanceValue f = Some (JObj members)"
    and out: "frameOutput f = Some out"
  shows
    "(let names = annotatedNames (siblingAnnotation h (f # ps) ''properties'') @
                  annotatedNames (siblingAnnotation h (f # ps) ''patternProperties'');
          additional = filter (\<lambda>(k, v). k \<notin> set names) members;
          invalid = map fst (filter (\<lambda>(k, v). \<not> valid (verdictA k v)) additional)
      in
      (\<forall>(k, v) \<in> set additional.
          appliesTo vsr (applyFrame createSchemaFrame None (node f) (KeyStr k) (Some v)) (f # ps)
            (verdictA k v)) \<longrightarrow>
      (\<exists>f' out'. additionalPropertiesValidate h vsr (f # ps) = Inr (f' # ps) \<and>
         frameOutput f' = Some out' \<and>
         errors out' = errors out \<and> annotations out' = annotations out \<and>
         keywordLocation out' =
           (case keywordLocation out of
              None \<Rightarrow> Some (currentPointer h (f # ps)) | Some l \<Rightarrow> Some l) \<and>
         summaryUnit h ''invalid additional property '' ''invalid additional properties ''
           (map fst additional) invalid out out')) \<and>
     (let invalid = map fst (filter (\<lambda>(k, v). \<not> valid (verdictN k)) members)
      in
      (\<forall>(k, v) \<in> set members.
          appliesTo vsr (applyFrame createSchemaFrame None (node f) (KeyStr k) (Some (JStr k)))
            (f # ps) (verdictN k)) \<longrightarrow>
      (if invalid = [] then propertyNamesValidate h vsr (f # ps) = Inr (f # ps)
       else
         (\<exists>f' out'. propertyNamesValidate h vsr (f # ps) = Inr (f' # ps) \<and>
            frameOutput f' = Some out' \<and>
            errors out' = errors out \<and> annotations out' = annotations out \<and>
            keywordLocation out' =
              (case keywordLocation out of
                 None \<Rightarrow> Some (currentPointer h (f # ps)) | Some l \<Rightarrow> Some l) \<and>
            \<not> valid out' \<and> annotation out' = annotation out \<and>
            error out' =
              Some (invalidMessage h ''invalid property name '' ''invalid property names ''
                      invalid)))) \<and>
     (\<forall>patterns. node f = Some (JObj patterns) \<longrightarrow>
        (\<forall>(p, s) \<in> set patterns. compileRegex h p = Some (test p) \<and>
           (\<forall>(k, v) \<in> set members. test p k \<longrightarrow>
              appliesTo vsr
                (applyFrame createSchemaFrame (Some (KeyStr p)) (Some s) (KeyStr k) (Some v))
                (f # ps) (verdictP p s k v))) \<longrightarrow>
        (let evaluated =
               concat (map (\<lambda>(p, s). map fst (filter (\<lambda>(k, v). test p k) members)) patterns);
             invalid =
               firstOccurrences
                 (concat (map (\<lambda>(p, s). map fst
                    (filter (\<lambda>(k, v). test p k \<and> \<not> valid (verdictP p s k v)) members))
                    patterns))
         in
         \<exists>f' out'. patternPropertiesValidate h vsr (f # ps) = Inr (f' # ps) \<and>
           frameOutput f' = Some out' \<and>
           errors out' = errors out \<and> annotations out' = annotations out \<and>
           keywordLocation out' =
             (case keywordLocation out of
                None \<Rightarrow> Some (currentPointer h (f # ps)) | Some l \<Rightarrow> Some l) \<and>
           summaryUnit h ''invalid pattern property '' ''invalid pattern properties ''
             evaluated invalid out out')) \<and>
     (let matched = filter (\<lambda>(k, v). getMember (node f) k \<noteq> None) members;
          invalid = map fst (filter (\<lambda>(k, v). \<not> valid (verdictR k v)) matched);
          emitted = map hoistOutput
            (filter (\<lambda>u. \<not> isEmptyOutput u) (map (\<lambda>(k, v). verdictR k v) matched))
      in
      (\<forall>(k, v) \<in> set matched. \<forall>base.
          appliesTo vsr
            (applyFrame createSchemaFrame (Some (KeyStr k)) (getMember (node f) k) (KeyStr k)
               (Some v))
            (f\<lparr>frameOutput := Some base\<rparr> # ps) (verdictR k v)) \<longrightarrow>
      (\<exists>f' out'. propertiesValidate h vsr (f # ps) = Inr (f' # ps) \<and>
         frameOutput f' = Some out' \<and>
         errors out' = appendUnits (errors out) (filter (\<lambda>u. \<not> valid u) emitted) \<and>
         annotations out' = appendUnits (annotations out) (filter valid emitted) \<and>
         (if invalid = []
          then (valid out' \<longleftrightarrow> valid out \<and> list_all valid emitted) \<and> error out' = error out \<and>
               annotation out' = Some (JArr (map JStr (map fst matched)))
          else \<not> valid out' \<and> annotation out' = annotation out \<and>
               error out' =
                 Some (invalidMessage h ''invalid property '' ''invalid properties '' invalid))))"
proof -
  have f: "f\<lparr>frameOutput := Some out\<rparr> = f"
    using out by (rule frame_same_output)
  have cn: "currentNode (f # ps) = node f" "currentInstance (f # ps) = Some (JObj members)"
    using inst by (simp_all add: currentNode_def currentInstance_def)
  define names where "names = annotatedNames (siblingAnnotation h (f # ps) ''properties'') @
                 annotatedNames (siblingAnnotation h (f # ps) ''patternProperties'')"
  define additional where "additional = filter (\<lambda>(k, v). k \<notin> set names) members"
  have A: "\<exists>f' out'. additionalPropertiesValidate h vsr (f # ps) = Inr (f' # ps) \<and>
         frameOutput f' = Some out' \<and>
         errors out' = errors out \<and> annotations out' = annotations out \<and>
         keywordLocation out' =
           (case keywordLocation out of
              None \<Rightarrow> Some (currentPointer h (f # ps)) | Some l \<Rightarrow> Some l) \<and>
         summaryUnit h ''invalid additional property '' ''invalid additional properties ''
           (map fst additional)
           (map fst (filter (\<lambda>(k, v). \<not> valid (verdictA k v)) additional)) out out'"
    if sub: "\<forall>(k, v) \<in> set additional.
          appliesTo vsr (applyFrame createSchemaFrame None (node f) (KeyStr k) (Some v)) (f # ps)
            (verdictA k v)"
  proof -
    let ?invalid = "map fst (filter (\<lambda>(k, v). \<not> valid (verdictA k v)) additional)"
    have l: "additionalLoop vsr (node f) names members [] None (f # ps) =
      Inr (([] @ map fst (filter (\<lambda>(k, v). k \<notin> set names) members),
            pushAll None (map fst (filter
               (\<lambda>(k, v). k \<notin> set names \<and> \<not> valid (verdictA k v)) members))),
           f # ps)"
      by (rule additionalLoop_result) (insert sub, auto simp: additional_def)
    have flt: "filter (\<lambda>(k, v). k \<notin> set names \<and> \<not> valid (verdictA k v)) members =
               filter (\<lambda>(k, v). \<not> valid (verdictA k v)) additional"
      unfolding additional_def by (induction members) auto
    have l': "additionalLoop vsr (node f) names members [] None (f # ps) =
      Inr ((map fst additional, pushAll None ?invalid), f # ps)"
      using l unfolding flt additional_def [symmetric] by (simp only: append_Nil)
    have r: "additionalPropertiesValidate h vsr (f # ps) =
      Inr (finishProperties h ''invalid additional property '' ''invalid additional properties ''
             (map fst additional) (if ?invalid = [] then None else Some ?invalid) (f # ps))"
      unfolding additionalPropertiesValidate_def cn Let_def names_def [symmetric]
      by (simp add: l' bindE_def pushAll_None)
    from finishProperties_fields [OF out, of h "''invalid additional property ''"
        "''invalid additional properties ''" "map fst additional" ?invalid ps]
    obtain u where u:
      "finishProperties h ''invalid additional property '' ''invalid additional properties ''
         (map fst additional) (if ?invalid = [] then None else Some ?invalid) (f # ps) =
       f\<lparr>frameOutput := Some u\<rparr> # ps"
      "summaryUnit h ''invalid additional property '' ''invalid additional properties ''
         (map fst additional) ?invalid out u"
      "errors u = errors out" "annotations u = annotations out"
      "keywordLocation u =
         (case keywordLocation out of
            None \<Rightarrow> Some (currentPointer h (f # ps)) | Some l \<Rightarrow> Some l)"
      by blast
    show ?thesis
      unfolding r u(1) using u(2-)
      by (intro exI [of _ "f\<lparr>frameOutput := Some u\<rparr>"] exI [of _ u]) simp
  qed
  have N: "if map fst (filter (\<lambda>(k, v). \<not> valid (verdictN k)) members) = []
       then propertyNamesValidate h vsr (f # ps) = Inr (f # ps)
       else
         (\<exists>f' out'. propertyNamesValidate h vsr (f # ps) = Inr (f' # ps) \<and>
            frameOutput f' = Some out' \<and>
            errors out' = errors out \<and> annotations out' = annotations out \<and>
            keywordLocation out' =
              (case keywordLocation out of
                 None \<Rightarrow> Some (currentPointer h (f # ps)) | Some l \<Rightarrow> Some l) \<and>
            \<not> valid out' \<and> annotation out' = annotation out \<and>
            error out' =
              Some (invalidMessage h ''invalid property name '' ''invalid property names ''
                      (map fst (filter (\<lambda>(k, v). \<not> valid (verdictN k)) members))))"
    if sub: "\<forall>(k, v) \<in> set members.
          appliesTo vsr (applyFrame createSchemaFrame None (node f) (KeyStr k) (Some (JStr k)))
            (f # ps) (verdictN k)"
  proof -
    let ?invalid = "map fst (filter (\<lambda>(k, v). \<not> valid (verdictN k)) members)"
    have l: "propertyNamesLoop vsr (node f) members None (f # ps) =
      Inr (pushAll None ?invalid, f # ps)"
      by (rule propertyNamesLoop_result) (insert sub, auto)
    show ?thesis
    proof (cases "?invalid = []")
      case True
      then show ?thesis
        unfolding propertyNamesValidate_def cn by (simp add: l bindE_def)
    next
      case False
      then have r: "propertyNamesValidate h vsr (f # ps) =
         Inr (attachError h (invalidMessage h ''invalid property name ''
                ''invalid property names '' ?invalid) (f # ps))"
        unfolding propertyNamesValidate_def cn by (simp add: l bindE_def pushAll_None)
      from attachError_fields [OF out, of h "invalidMessage h ''invalid property name ''
                ''invalid property names '' ?invalid" ps] False
      show ?thesis unfolding r by auto
    qed
  qed
  have P: "\<exists>f' out'. patternPropertiesValidate h vsr (f # ps) = Inr (f' # ps) \<and>
           frameOutput f' = Some out' \<and>
           errors out' = errors out \<and> annotations out' = annotations out \<and>
           keywordLocation out' =
             (case keywordLocation out of
                None \<Rightarrow> Some (currentPointer h (f # ps)) | Some l \<Rightarrow> Some l) \<and>
           summaryUnit h ''invalid pattern property '' ''invalid pattern properties ''
             (concat (map (\<lambda>(p, s). map fst (filter (\<lambda>(k, v). test p k) members)) patterns))
             (firstOccurrences
                 (concat (map (\<lambda>(p, s). map fst
                    (filter (\<lambda>(k, v). test p k \<and> \<not> valid (verdictP p s k v)) members))
                    patterns)))
             out out'"
    if pat: "node f = Some (JObj patterns)"
      and sub: "\<forall>(p, s) \<in> set patterns. compileRegex h p = Some (test p) \<and>
           (\<forall>(k, v) \<in> set members. test p k \<longrightarrow>
              appliesTo vsr
                (applyFrame createSchemaFrame (Some (KeyStr p)) (Some s) (KeyStr k) (Some v))
                (f # ps) (verdictP p s k v))"
    for patterns
  proof -
    let ?evaluated =
      "concat (map (\<lambda>(p, s). map fst (filter (\<lambda>(k, v). test p k) members)) patterns)"
    let ?pushed = "concat (map (\<lambda>(p, s). map fst
                    (filter (\<lambda>(k, v). test p k \<and> \<not> valid (verdictP p s k v)) members))
                    patterns)"
    have l: "patternLoop h vsr patterns members [] None (f # ps) =
      Inr (([] @ ?evaluated, foldl pushNew None ?pushed), f # ps)"
      by (rule patternLoop_result) (insert sub, auto)
    have r: "patternPropertiesValidate h vsr (f # ps) =
      Inr (finishProperties h ''invalid pattern property '' ''invalid pattern properties ''
             ?evaluated
             (if firstOccurrences ?pushed = [] then None else Some (firstOccurrences ?pushed))
             (f # ps))"
      unfolding patternPropertiesValidate_def cn pat
      by (simp add: l bindE_def pushNew_None)
    from finishProperties_fields [OF out, of h "''invalid pattern property ''"
        "''invalid pattern properties ''" ?evaluated "firstOccurrences ?pushed" ps]
    obtain u where u:
      "finishProperties h ''invalid pattern property '' ''invalid pattern properties ''
         ?evaluated
         (if firstOccurrences ?pushed = [] then None else Some (firstOccurrences ?pushed))
         (f # ps) =
       f\<lparr>frameOutput := Some u\<rparr> # ps"
      "summaryUnit h ''invalid pattern property '' ''invalid pattern properties ''
         ?evaluated (firstOccurrences ?pushed) out u"
      "errors u = errors out" "annotations u = annotations out"
      "keywordLocation u =
         (case keywordLocation out of
            None \<Rightarrow> Some (currentPointer h (f # ps)) | Some l \<Rightarrow> Some l)"
      by blast
    show ?thesis
      unfolding r u(1) using u(2-)
      by (intro exI [of _ "f\<lparr>frameOutput := Some u\<rparr>"] exI [of _ u]) simp
  qed
  define matched where "matched = filter (\<lambda>(k, v). getMember (node f) k \<noteq> None) members"
  define emitted where "emitted = map hoistOutput
            (filter (\<lambda>u. \<not> isEmptyOutput u) (map (\<lambda>(k, v). verdictR k v) matched))"
  have R: "\<exists>f' out'. propertiesValidate h vsr (f # ps) = Inr (f' # ps) \<and>
         frameOutput f' = Some out' \<and>
         errors out' = appendUnits (errors out) (filter (\<lambda>u. \<not> valid u) emitted) \<and>
         annotations out' = appendUnits (annotations out) (filter valid emitted) \<and>
         (if map fst (filter (\<lambda>(k, v). \<not> valid (verdictR k v)) matched) = []
          then (valid out' \<longleftrightarrow> valid out \<and> list_all valid emitted) \<and> error out' = error out \<and>
               annotation out' = Some (JArr (map JStr (map fst matched)))
          else \<not> valid out' \<and> annotation out' = annotation out \<and>
               error out' =
                 Some (invalidMessage h ''invalid property '' ''invalid properties ''
                         (map fst (filter (\<lambda>(k, v). \<not> valid (verdictR k v)) matched))))"
    if sub: "\<forall>(k, v) \<in> set matched. \<forall>base.
          appliesTo vsr
            (applyFrame createSchemaFrame (Some (KeyStr k)) (getMember (node f) k) (KeyStr k)
               (Some v))
            (f\<lparr>frameOutput := Some base\<rparr> # ps) (verdictR k v)"
  proof -
    let ?invalid = "map fst (filter (\<lambda>(k, v). \<not> valid (verdictR k v)) matched)"
    have l0: "propertiesLoop h vsr (node f) members [] None (f\<lparr>frameOutput := Some out\<rparr> # ps) =
     Inr (([] @ map fst (filter (\<lambda>(k, v). getMember (node f) k \<noteq> None) members),
           pushAll None
             (map fst (filter (\<lambda>(k, v). getMember (node f) k \<noteq> None \<and>
                \<not> valid (verdictR k v)) members))),
          foldl (\<lambda>st u. emitUnit h u st) (f\<lparr>frameOutput := Some out\<rparr> # ps)
            (map (\<lambda>(k, v). verdictR k v)
               (filter (\<lambda>(k, v). getMember (node f) k \<noteq> None) members)))"
    proof (rule propertiesLoop_result)
      fix k v s base
      assume "(k, v) \<in> set members" and g: "getMember (node f) k = Some s"
      then have "(k, v) \<in> set matched" by (simp add: matched_def)
      with sub g
      show "appliesTo vsr
              (applyFrame createSchemaFrame (Some (KeyStr k)) (Some s) (KeyStr k) (Some v))
              (f\<lparr>frameOutput := Some base\<rparr> # ps) (verdictR k v)"
        by fastforce
    qed
    have flt: "filter (\<lambda>(k, v). getMember (node f) k \<noteq> None \<and> \<not> valid (verdictR k v)) members =
       filter (\<lambda>(k, v). \<not> valid (verdictR k v)) matched"
      unfolding matched_def by (induction members) auto
    obtain base' where e:
      "foldl (\<lambda>st u. emitUnit h u st) (f\<lparr>frameOutput := Some out\<rparr> # ps)
         (map (\<lambda>(k, v). verdictR k v) matched) = f\<lparr>frameOutput := Some base'\<rparr> # ps"
      "errors base' = appendUnits (errors out) (filter (\<lambda>u. \<not> valid u) emitted)"
      "annotations base' = appendUnits (annotations out) (filter valid emitted)"
      "error base' = error out" "annotation base' = annotation out"
      "valid base' \<longleftrightarrow> valid out \<and> list_all valid emitted"
      using emitAll_fields [where h = h and f = f and base = out and ps = ps
          and units = "map (\<lambda>(k, v). verdictR k v) matched"]
      unfolding emitted_def by blast
    have e1: "foldl (\<lambda>st u. emitUnit h u st) (f # ps) (map (\<lambda>(k, v). verdictR k v) matched) =
        f\<lparr>frameOutput := Some base'\<rparr> # ps"
      using e(1) unfolding f .
    have l: "propertiesLoop h vsr (node f) members [] None (f # ps) =
      Inr ((map fst matched, pushAll None ?invalid), f\<lparr>frameOutput := Some base'\<rparr> # ps)"
      using l0 unfolding flt matched_def [symmetric] f e1 by (simp only: append_Nil)
    have r: "propertiesValidate h vsr (f # ps) =
      Inr (finishProperties h ''invalid property '' ''invalid properties ''
             (map fst matched) (if ?invalid = [] then None else Some ?invalid)
             (f\<lparr>frameOutput := Some base'\<rparr> # ps))"
      unfolding propertiesValidate_def cn by (simp add: l bindE_def pushAll_None)
    have o: "frameOutput (f\<lparr>frameOutput := Some base'\<rparr>) = Some base'" by simp
    from finishProperties_fields [OF o, of h "''invalid property ''" "''invalid properties ''"
        "map fst matched" ?invalid ps]
    obtain u where u:
      "finishProperties h ''invalid property '' ''invalid properties ''
         (map fst matched) (if ?invalid = [] then None else Some ?invalid)
         (f\<lparr>frameOutput := Some base'\<rparr> # ps) =
       f\<lparr>frameOutput := Some base', frameOutput := Some u\<rparr> # ps"
      "summaryUnit h ''invalid property '' ''invalid properties '' (map fst matched) ?invalid
         base' u"
      "errors u = errors base'" "annotations u = annotations base'"
      by blast
    show ?thesis
      unfolding r u(1) using u(2-) e(2-)
      by (intro exI [of _ "f\<lparr>frameOutput := Some u\<rparr>"] exI [of _ u])
        (simp add: summaryUnit_def)
  qed
  show ?thesis
    unfolding Let_def names_def [symmetric] additional_def [symmetric] matched_def [symmetric]
      emitted_def [symmetric]
    using A N P R by blast
qed

text \<open>
  With the validator of the pipeline: \<^verbatim>\<open>additionalProperties\<close> with the sub-schema
  \<^verbatim>\<open>{"multipleOf": 2}\<close>, whose children for \<^verbatim>\<open>a\<close> and \<^verbatim>\<open>c\<close> have a nested error of their
  own, \<^verbatim>\<open>propertyNames\<close> with the sub-schema \<^verbatim>\<open>false\<close>, and \<^verbatim>\<open>patternProperties\<close> and
  \<^verbatim>\<open>properties\<close> with the value \<^verbatim>\<open>{"a": false, "b": true}\<close>. The first three nest nothing
  under their summary error; \<^verbatim>\<open>properties\<close> nests the error of the child at \<^verbatim>\<open>/a\<close>.
\<close>

theorem property_applicators_child_output_witness:
  "(\<exists>f' out'. additionalPropertiesValidate exampleHost containsValidator
        [propertyFrame ''additionalProperties'' containsSchema] = Inr [f'] \<and>
      frameOutput f' = Some out' \<and> errors out' = None \<and> annotations out' = None \<and>
      keywordLocation out' = Some ''/additionalProperties'' \<and> \<not> valid out' \<and>
      error out' =
        Some (''invalid additional properties '' @ quoted ''a'' @ '' and '' @ quoted ''c'')) \<and>
   (\<exists>f' out'. propertyNamesValidate exampleHost containsValidator
        [propertyFrame ''propertyNames'' (JBool False)] = Inr [f'] \<and>
      frameOutput f' = Some out' \<and> errors out' = None \<and> annotations out' = None \<and>
      keywordLocation out' = Some ''/propertyNames'' \<and> \<not> valid out' \<and>
      error out' =
        Some (''invalid property names '' @ quoted ''a'' @ '', '' @ quoted ''b'' @ '' and '' @
              quoted ''c'')) \<and>
   (\<exists>f' out'. patternPropertiesValidate exampleHost containsValidator
        [propertyFrame ''patternProperties'' propertiesSchema] = Inr [f'] \<and>
      frameOutput f' = Some out' \<and> errors out' = None \<and> annotations out' = None \<and>
      keywordLocation out' = Some ''/patternProperties'' \<and> \<not> valid out' \<and>
      error out' = Some (''invalid pattern property '' @ quoted ''a'')) \<and>
   (\<exists>f' out'. propertiesValidate exampleHost containsValidator
        [propertyFrame ''properties'' propertiesSchema] = Inr [f'] \<and>
      frameOutput f' = Some out' \<and>
      errors out' =
        Some [OutputUnit False (Some ''/properties/a'') (Some ''urn:example#/properties/a'')
                (Some ''/a'') (Some ''never valid'') None None None] \<and>
      annotations out' = None \<and> \<not> valid out' \<and>
      error out' = Some (''invalid property '' @ quoted ''a''))"
proof -
  have half: "\<lfloor>1 / 2 :: rat\<rfloor> = 0" "\<lfloor>3 / 2 :: rat\<rfloor> = 1"
    by (rule floor_unique; simp)+
  have ints: "\<not> isInteger (1 / 2)" "isInteger 1" "\<not> isInteger (3 / 2)"
    by (simp_all add: isInteger_def half)
  note defs = containsValidator_def validateSchemaNode_def getResource_def containsContext_def
    containsSchema_def propertyFrame_def propertiesMembers_def propertiesSchema_def
    applyFrame_def createSchemaFrame_def
    multipleOfKeyword_def nestFrame_def bindE_def multipleOfValidate_def currentInstance_def
    currentNode_def ints attachError_def initOutput_def emitOutput_def isEmptyOutput_def
    hoistOutput_def lengthIsOne_def attachChild_def setError_def setValid_def setErrors_def
    setAnnotations_def exampleHost_def freshOutput_def keyToString_def
  note msgs = summaryUnit_def invalidMessage_def joinNames_def quoted_def exampleHost_def
    freshOutput_def propertyFrame_def createSchemaFrame_def
  let ?fA = "propertyFrame ''additionalProperties'' containsSchema"
  define vA :: "string \<Rightarrow> json \<Rightarrow> outputUnit" where
    "vA = (\<lambda>k v.
       case containsValidator [applyFrame createSchemaFrame None (Some containsSchema)
              (KeyStr k) (Some v), ?fA] of
         Inr (c # _) \<Rightarrow> (case frameOutput c of Some u \<Rightarrow> u | None \<Rightarrow> freshOutput)
       | _ \<Rightarrow> freshOutput)"
  have instA: "instanceValue ?fA = Some (JObj propertiesMembers)"
    by (simp add: propertyFrame_def)
  have outA: "frameOutput ?fA = Some freshOutput"
    by (simp add: propertyFrame_def)
  have nm: "annotatedNames (siblingAnnotation exampleHost [?fA] ''properties'') @
            annotatedNames (siblingAnnotation exampleHost [?fA] ''patternProperties'') = []"
    by (simp add: siblingAnnotation_def getChildAnnotation_def annotatedNames_def)
  have hA: "\<forall>(k, v) \<in> set (filter (\<lambda>(k, v). k \<notin> set []) propertiesMembers).
       appliesTo containsValidator
         (applyFrame createSchemaFrame None (node ?fA) (KeyStr k) (Some v)) [?fA] (vA k v)"
    by (simp add: appliesTo_def vA_def defs)
  have flagsA: "\<not> valid (vA ''a'' (JNum 1))" "valid (vA ''b'' (JNum 2))"
    "\<not> valid (vA ''c'' (JNum 3))"
    by (simp_all add: vA_def defs)
  note tA = property_applicators_child_output [where f = ?fA and h = exampleHost and ps = "[]"
      and vsr = containsValidator and verdictA = vA, OF instA outA, unfolded Let_def nm,
      THEN conjunct1, THEN mp, OF hA]
  have A: "\<exists>f' out'. additionalPropertiesValidate exampleHost containsValidator [?fA] = Inr [f'] \<and>
      frameOutput f' = Some out' \<and> errors out' = None \<and> annotations out' = None \<and>
      keywordLocation out' = Some ''/additionalProperties'' \<and> \<not> valid out' \<and>
      error out' =
        Some (''invalid additional properties '' @ quoted ''a'' @ '' and '' @ quoted ''c'')"
    using tA by (auto simp: flagsA propertiesMembers_def msgs)
  let ?fN = "propertyFrame ''propertyNames'' (JBool False)"
  define vN :: "string \<Rightarrow> outputUnit" where
    "vN = (\<lambda>k.
       case containsValidator [applyFrame createSchemaFrame None (Some (JBool False))
              (KeyStr k) (Some (JStr k)), ?fN] of
         Inr (c # _) \<Rightarrow> (case frameOutput c of Some u \<Rightarrow> u | None \<Rightarrow> freshOutput)
       | _ \<Rightarrow> freshOutput)"
  have instN: "instanceValue ?fN = Some (JObj propertiesMembers)"
    by (simp add: propertyFrame_def)
  have outN: "frameOutput ?fN = Some freshOutput"
    by (simp add: propertyFrame_def)
  have hN: "\<forall>(k, v) \<in> set propertiesMembers.
       appliesTo containsValidator
         (applyFrame createSchemaFrame None (node ?fN) (KeyStr k) (Some (JStr k))) [?fN] (vN k)"
    by (simp add: appliesTo_def vN_def defs)
  have flagsN: "\<not> valid (vN k)" for k
    by (simp add: vN_def defs)
  note tN = property_applicators_child_output [where f = ?fN and h = exampleHost and ps = "[]"
      and vsr = containsValidator and verdictN = vN, OF instN outN, unfolded Let_def,
      THEN conjunct2, THEN conjunct1, THEN mp, OF hN]
  have N: "\<exists>f' out'. propertyNamesValidate exampleHost containsValidator [?fN] = Inr [f'] \<and>
      frameOutput f' = Some out' \<and> errors out' = None \<and> annotations out' = None \<and>
      keywordLocation out' = Some ''/propertyNames'' \<and> \<not> valid out' \<and>
      error out' =
        Some (''invalid property names '' @ quoted ''a'' @ '', '' @ quoted ''b'' @ '' and '' @
              quoted ''c'')"
    using tN by (auto simp: flagsN propertiesMembers_def msgs)
  let ?fP = "propertyFrame ''patternProperties'' propertiesSchema"
  define vP :: "string \<Rightarrow> json \<Rightarrow> string \<Rightarrow> json \<Rightarrow> outputUnit" where
    "vP = (\<lambda>p s k v.
       case containsValidator [applyFrame createSchemaFrame (Some (KeyStr p)) (Some s)
              (KeyStr k) (Some v), ?fP] of
         Inr (c # _) \<Rightarrow> (case frameOutput c of Some u \<Rightarrow> u | None \<Rightarrow> freshOutput)
       | _ \<Rightarrow> freshOutput)"
  have instP: "instanceValue ?fP = Some (JObj propertiesMembers)"
    by (simp add: propertyFrame_def)
  have outP: "frameOutput ?fP = Some freshOutput"
    by (simp add: propertyFrame_def)
  have nodeP: "node ?fP = Some (JObj [(''a'', JBool False), (''b'', JBool True)])"
    by (simp add: propertyFrame_def propertiesSchema_def)
  have hP: "\<forall>(p, s) \<in> set [(''a'', JBool False), (''b'', JBool True)].
       compileRegex exampleHost p = Some (\<lambda>k. startsWith k p) \<and>
       (\<forall>(k, v) \<in> set propertiesMembers. startsWith k p \<longrightarrow>
          appliesTo containsValidator
            (applyFrame createSchemaFrame (Some (KeyStr p)) (Some s) (KeyStr k) (Some v))
            [?fP] (vP p s k v))"
    by (simp add: appliesTo_def vP_def startsWith_def defs)
  have flagsP: "\<not> valid (vP ''a'' (JBool False) ''a'' (JNum 1))"
    "valid (vP ''b'' (JBool True) ''b'' (JNum 2))"
    by (simp_all add: vP_def defs)
  note tP = property_applicators_child_output [where f = ?fP and h = exampleHost and ps = "[]"
      and vsr = containsValidator and verdictP = vP and test = "\<lambda>p k. startsWith k p",
      OF instP outP, unfolded Let_def,
      THEN conjunct2, THEN conjunct2, THEN conjunct1, THEN spec, THEN mp, OF nodeP,
      THEN mp, OF hP]
  have P: "\<exists>f' out'. patternPropertiesValidate exampleHost containsValidator [?fP] = Inr [f'] \<and>
      frameOutput f' = Some out' \<and> errors out' = None \<and> annotations out' = None \<and>
      keywordLocation out' = Some ''/patternProperties'' \<and> \<not> valid out' \<and>
      error out' = Some (''invalid pattern property '' @ quoted ''a'')"
    using tP
    by (auto simp: flagsP propertiesMembers_def startsWith_def firstOccurrences_def msgs)
  let ?fR = "propertyFrame ''properties'' propertiesSchema"
  define vR :: "string \<Rightarrow> json \<Rightarrow> outputUnit" where
    "vR = (\<lambda>k v.
       case containsValidator [applyFrame createSchemaFrame (Some (KeyStr k))
              (getMember (Some propertiesSchema) k) (KeyStr k) (Some v), ?fR] of
         Inr (c # _) \<Rightarrow> (case frameOutput c of Some u \<Rightarrow> u | None \<Rightarrow> freshOutput)
       | _ \<Rightarrow> freshOutput)"
  have instR: "instanceValue ?fR = Some (JObj propertiesMembers)"
    by (simp add: propertyFrame_def)
  have outR: "frameOutput ?fR = Some freshOutput"
    by (simp add: propertyFrame_def)
  have matched: "filter (\<lambda>(k, v). getMember (node ?fR) k \<noteq> None) propertiesMembers =
      [(''a'', JNum 1), (''b'', JNum 2)]"
    by (simp add: propertyFrame_def propertiesSchema_def propertiesMembers_def getMember_def
        objectPrototypeNames_def)
  have hR: "\<forall>(k, v) \<in> set [(''a'', JNum 1), (''b'', JNum 2)]. \<forall>base.
       appliesTo containsValidator
         (applyFrame createSchemaFrame (Some (KeyStr k)) (getMember (node ?fR) k) (KeyStr k)
            (Some v))
         [?fR\<lparr>frameOutput := Some base\<rparr>] (vR k v)"
    by (simp add: appliesTo_def vR_def getMember_def defs)
  have unitsR: "vR ''a'' (JNum 1) =
      OutputUnit False (Some ''/properties/a'') (Some ''urn:example#/properties/a'')
        (Some ''/a'') (Some ''never valid'') None None None"
    "vR ''b'' (JNum 2) = freshOutput"
    by (simp_all add: vR_def getMember_def defs)
  note tR = property_applicators_child_output [where f = ?fR and h = exampleHost and ps = "[]"
      and vsr = containsValidator and verdictR = vR, OF instR outR, unfolded Let_def matched,
      THEN conjunct2, THEN conjunct2, THEN conjunct2, THEN mp, OF hR]
  have R: "\<exists>f' out'. propertiesValidate exampleHost containsValidator [?fR] = Inr [f'] \<and>
      frameOutput f' = Some out' \<and>
      errors out' =
        Some [OutputUnit False (Some ''/properties/a'') (Some ''urn:example#/properties/a'')
                (Some ''/a'') (Some ''never valid'') None None None] \<and>
      annotations out' = None \<and> \<not> valid out' \<and>
      error out' = Some (''invalid property '' @ quoted ''a'')"
    using tR
    by (auto simp: unitsR isEmptyOutput_def hoistOutput_def lengthIsOne_def appendUnits_def msgs)
  from A N P R show ?thesis by (intro conjI)
qed

end
